theory Spec2Isabelle
  imports Complex_Main "HOL-Library.Sublist"
begin

section \<open>Exceptions and stateful computations\<close>

text \<open>
  The generator scripts are sequential Python programs that mutate two things: the shared
  pseudo-random streams (module \<open>random\<close> and the Faker instance) and the file system below
  \<open>generated-data/\<close>. A computation takes a state and returns either an exception or a value,
  together with the state reached; an exception stops the rest of the block, as in Python.
\<close>

datatype exn = ZeroDivisionError | ValueError | IndexError | OSError

type_synonym ('s, 'a) comp = "'s \<Rightarrow> (exn + 'a) \<times> 's"

definition ret :: "'a \<Rightarrow> ('s, 'a) comp" where
  "ret a s = (Inr a, s)"

definition raise :: "exn \<Rightarrow> ('s, 'a) comp" where
  "raise e s = (Inl e, s)"

definition bind :: "('s, 'a) comp \<Rightarrow> ('a \<Rightarrow> ('s, 'b) comp) \<Rightarrow> ('s, 'b) comp" where
  "bind m f s = (case m s of (Inl e, s') \<Rightarrow> (Inl e, s') | (Inr a, s') \<Rightarrow> f a s')"

definition fmap :: "('a \<Rightarrow> 'b) \<Rightarrow> ('s, 'a) comp \<Rightarrow> ('s, 'b) comp" where
  "fmap f m = bind m (\<lambda>a. ret (f a))"

text \<open>\<open>for i in range(n): acc = body(i, acc)\<close>; the indices run from 0 upwards.\<close>

primrec for_range :: "nat \<Rightarrow> (int \<Rightarrow> 'a \<Rightarrow> ('s, 'a) comp) \<Rightarrow> 'a \<Rightarrow> ('s, 'a) comp" where
  "for_range 0 body acc = ret acc"
| "for_range (Suc n) body acc = bind (for_range n body acc) (body (int n))"

section \<open>String formatting\<close>

text \<open>Python's \<open>str\<close> of a non-negative integer, most significant digit first.\<close>

definition digit_char :: "nat \<Rightarrow> char" where
  "digit_char d = ''0123456789'' ! d"

fun digits :: "nat \<Rightarrow> string" where
  "digits n = (if n < 10 then [digit_char n] else digits (n div 10) @ [digit_char (n mod 10)])"

definition zfill :: "nat \<Rightarrow> string \<Rightarrow> string" where
  "zfill w s = replicate (w - length s) CHR ''0'' @ s"

text \<open>
  The format specification \<open>{x:0wd}\<close>: decimal, padded with zeros to at least \<open>w\<close> characters,
  the sign (if any) before the padding. A number with more than \<open>w\<close> digits is not truncated.
\<close>

definition fmt_d :: "nat \<Rightarrow> int \<Rightarrow> string" where
  "fmt_d w x = (if x < 0 then CHR ''-'' # zfill (w - 1) (digits (nat (- x)))
                else zfill w (digits (nat x)))"

text \<open>Reading a run of decimal digits back: a left inverse of the formatting.\<close>

definition undigits :: "string \<Rightarrow> nat" where
  "undigits s = foldl (\<lambda>a c. 10 * a + (of_char c - 48)) 0 s"

section \<open>Batch chunking\<close>

text \<open>
  Every batched pipeline computes
  \<open>num_batches = (N + B - 1) // B\<close>, and for each \<open>batch_num in range(num_batches)\<close>
  \<open>start_id = batch_num * B\<close> and \<open>current_batch_size = min(B, N - start_id)\<close>.
  Python's \<open>//\<close> on integers is floor division, as \<open>div\<close> on \<open>int\<close> is; division by zero
  raises and is guarded where the loop is run.
\<close>

definition num_batches :: "int \<Rightarrow> int \<Rightarrow> int" where
  "num_batches N B = (N + B - 1) div B"

definition batch_start :: "int \<Rightarrow> int \<Rightarrow> int" where
  "batch_start B batch_num = batch_num * B"

definition current_batch_size :: "int \<Rightarrow> int \<Rightarrow> int \<Rightarrow> int" where
  "current_batch_size N B batch_num = min B (N - batch_start B batch_num)"

text \<open>The ranges \<open>(start_id, current_batch_size)\<close> the loop visits, in order.\<close>

definition batch_ranges :: "int \<Rightarrow> int \<Rightarrow> (int \<times> int) list" where
  "batch_ranges N B =
     map (\<lambda>k. (batch_start B (int k), current_batch_size N B (int k)))
       [0..<nat (num_batches N B)]"

section \<open>Configuration, environment and state\<close>

text \<open>The settings module \<open>config.py\<close>; Python integers are unbounded.\<close>

record config =
  NUM_CUSTOMERS :: int
  NUM_PRODUCTS :: int
  NUM_SALES_REPS :: int
  NUM_TRANSACTIONS :: int
  START_DATE :: string
  END_DATE :: string
  CUSTOMER_BATCH_SIZE :: int
  PRODUCT_BATCH_SIZE :: int
  TRANSACTION_BATCH_SIZE :: int
  OUTPUT_FORMAT :: string
  COMPRESSION :: string
  REGIONS :: "string list"
  COUNTRIES :: "string list"
  PRODUCT_CATEGORIES :: "string list"
  CUSTOMER_SEGMENTS :: "string list"

definition config_py :: config where
  "config_py = \<lparr>
     NUM_CUSTOMERS = 2000000, NUM_PRODUCTS = 200000, NUM_SALES_REPS = 20000,
     NUM_TRANSACTIONS = 85000000,
     START_DATE = ''2023-01-01'', END_DATE = ''2024-12-31'',
     CUSTOMER_BATCH_SIZE = 200000, PRODUCT_BATCH_SIZE = 50000,
     TRANSACTION_BATCH_SIZE = 1000000,
     OUTPUT_FORMAT = ''parquet'', COMPRESSION = ''snappy'',
     REGIONS = [''North'', ''South'', ''East'', ''West'', ''Central''],
     COUNTRIES = [''USA'', ''Canada'', ''UK'', ''Germany'', ''France'', ''Australia''],
     PRODUCT_CATEGORIES = [''Electronics'', ''Clothing'', ''Home & Garden'', ''Sports'', ''Books''],
     CUSTOMER_SEGMENTS = [''Bronze'', ''Silver'', ''Gold'', ''Platinum'']\<rparr>"

text \<open>
  What the libraries and the operating system contribute is a parameter of the model:
  the outcome of the k-th draw from the seeded \<open>random\<close> stream, the k-th value the seeded
  Faker instance produces (a string, or for \<open>date_between\<close> a day number that also depends
  on the requested span), the k-th reading of the clock, the day number
  \<open>datetime.strptime(s, '%Y-%m-%d')\<close> parses (\<open>None\<close> where it raises), and which
  directory creations, file writes and directory scans fail.
\<close>

record env =
  rand_raw :: "nat \<Rightarrow> nat"
  fake_str :: "nat \<Rightarrow> string"
  fake_date :: "nat \<Rightarrow> string \<Rightarrow> string \<Rightarrow> int"
  clock :: "nat \<Rightarrow> nat"
  strptime :: "string \<Rightarrow> int option"
  makedirs_fails :: "string \<Rightarrow> bool"
  write_fails :: "string \<Rightarrow> bool"
  scandir_fails :: bool

text \<open>How far the program has read each stream.\<close>

record rng =
  rpos :: nat
  fpos :: nat
  tick :: nat

text \<open>
  A field value of a generated record: a string, an integer, a float rounded to \<open>d\<close> decimal
  places kept as the integer number of units of \<open>10^-d\<close>, a calendar day, a clock reading.
  A record is the Python dict literal, keys in order; a batch is the list of its records.
\<close>

datatype val = Str string | Num int | Dec nat int | Day int | Time nat

type_synonym row = "(string \<times> val) list"

text \<open>
  What the program does to the outside, in order: directories created, tables written
  (file name and rows), and on failure the banner on the output stream and the traceback
  on the error stream.
\<close>

datatype event = Mkdir string | Write string "row list" | Banner exn | Traceback exn

record world =
  gen_state :: rng
  events :: "event list"

definition initial_world :: world where
  "initial_world = \<lparr>gen_state = \<lparr>rpos = 0, fpos = 0, tick = 0\<rparr>, events = []\<rparr>"

definition lift_gen :: "(rng, 'a) comp \<Rightarrow> (world, 'a) comp" where
  "lift_gen m w = (case m (gen_state w) of (r, g) \<Rightarrow> (r, w\<lparr>gen_state := g\<rparr>))"

section \<open>Library calls\<close>

text \<open>\<open>random.randint(a, b)\<close>: an integer of \<open>[a, b]\<close>; \<open>ValueError\<close> on an empty range.\<close>

definition randint :: "env \<Rightarrow> int \<Rightarrow> int \<Rightarrow> (rng, int) comp" where
  "randint E a b g =
     (if b < a then (Inl ValueError, g)
      else (Inr (a + int (rand_raw E (rpos g)) mod (b - a + 1)), g\<lparr>rpos := rpos g + 1\<rparr>))"

text \<open>
  \<open>round(random.uniform(a, b), d)\<close> with \<open>a \<le> b\<close>: \<open>lo\<close> and \<open>hi\<close> are the two bounds in
  units of \<open>10^-d\<close>, and so is the result.
\<close>

definition uniform_round :: "env \<Rightarrow> nat \<Rightarrow> int \<Rightarrow> int \<Rightarrow> (rng, val) comp" where
  "uniform_round E d lo hi g =
     (Inr (Dec d (lo + int (rand_raw E (rpos g)) mod (hi - lo + 1))), g\<lparr>rpos := rpos g + 1\<rparr>)"

text \<open>\<open>random.choice(seq)\<close>: \<open>IndexError\<close> on an empty sequence.\<close>

definition choice :: "env \<Rightarrow> 'a list \<Rightarrow> (rng, 'a) comp" where
  "choice E xs g =
     (if xs = [] then (Inl IndexError, g)
      else (Inr (xs ! (rand_raw E (rpos g) mod length xs)), g\<lparr>rpos := rpos g + 1\<rparr>))"

text \<open>A Faker provider returning text (\<open>name\<close>, \<open>email\<close>, \<open>word\<close>, ...).\<close>

definition fake_text :: "env \<Rightarrow> (rng, string) comp" where
  "fake_text E g = (Inr (fake_str E (fpos g)), g\<lparr>fpos := fpos g + 1\<rparr>)"

definition fake :: "env \<Rightarrow> (rng, val) comp" where
  "fake E = fmap Str (fake_text E)"

definition date_between :: "env \<Rightarrow> string \<Rightarrow> string \<Rightarrow> (rng, val) comp" where
  "date_between E start_date end_date g =
     (Inr (Day (fake_date E (fpos g) start_date end_date)), g\<lparr>fpos := fpos g + 1\<rparr>)"

definition now :: "env \<Rightarrow> (rng, val) comp" where
  "now E g = (Inr (Time (clock E (tick g))), g\<lparr>tick := tick g + 1\<rparr>)"

definition parse_date :: "env \<Rightarrow> string \<Rightarrow> (world, int) comp" where
  "parse_date E s = (case strptime E s of None \<Rightarrow> raise ValueError | Some d \<Rightarrow> ret d)"

text \<open>\<open>os.makedirs(d, exist_ok=True)\<close>.\<close>

definition makedirs :: "env \<Rightarrow> string \<Rightarrow> (world, unit) comp" where
  "makedirs E d w =
     (if makedirs_fails E d then (Inl OSError, w)
      else (Inr (), w\<lparr>events := events w @ [Mkdir d]\<rparr>))"

text \<open>\<open>pd.DataFrame(rows).to_parquet(filename, ...)\<close> or \<open>.to_csv(filename, ...)\<close>.\<close>

definition write_table :: "env \<Rightarrow> string \<Rightarrow> row list \<Rightarrow> (world, unit) comp" where
  "write_table E filename rows w =
     (if write_fails E filename then (Inl OSError, w)
      else (Inr (), w\<lparr>events := events w @ [Write filename rows]\<rparr>))"

text \<open>A dict literal evaluates its value expressions in order.\<close>

primrec dict_literal :: "(string \<times> ('s, val) comp) list \<Rightarrow> ('s, row) comp" where
  "dict_literal [] = ret []"
| "dict_literal (kv # kvs) =
     bind (snd kv) (\<lambda>v. bind (dict_literal kvs) (\<lambda>rest. ret ((fst kv, v) # rest)))"

text \<open>
  \<open>rows = []; for i in range(batch_size): rows.append(record(start_id + i))\<close>, the inner
  loop of every batch.
\<close>

definition rows_loop :: "(int \<Rightarrow> (rng, row) comp) \<Rightarrow> int \<Rightarrow> int \<Rightarrow> (rng, row list) comp" where
  "rows_loop record start_id batch_size =
     for_range (nat batch_size)
       (\<lambda>i rows. bind (record (start_id + i)) (\<lambda>r. ret (rows @ [r]))) []"

text \<open>The file name of a batch: \<open>f"{output_dir}/{stem}{batch_num:0wd}.parquet"\<close> or \<open>.csv\<close>.\<close>

definition extension :: "string \<Rightarrow> string" where
  "extension output_format = (if output_format = ''parquet'' then ''.parquet'' else ''.csv'')"

definition batch_filename :: "string \<Rightarrow> string \<Rightarrow> nat \<Rightarrow> string \<Rightarrow> int \<Rightarrow> string" where
  "batch_filename output_dir stem w output_format batch_num =
     output_dir @ ''/'' @ stem @ fmt_d w batch_num @ extension output_format"

text \<open>
  The batch loop that the seven batched pipelines share word for word, from
  \<open>num_batches = ...\<close> to the end of the \<open>for\<close>; they differ in the counts, the directory,
  the file stem, the padding width of the batch index and the record generator.
  The value is \<open>all_files\<close>.
\<close>

definition batch_loop ::
  "env \<Rightarrow> string \<Rightarrow> string \<Rightarrow> nat \<Rightarrow> string \<Rightarrow> int \<Rightarrow> int \<Rightarrow>
   (int \<Rightarrow> int \<Rightarrow> (rng, row list) comp) \<Rightarrow> (world, string list) comp" where
  "batch_loop E output_dir stem w output_format N B generate_batch =
     (if B = 0 then raise ZeroDivisionError
      else for_range (nat (num_batches N B))
        (\<lambda>batch_num all_files.
           bind (lift_gen (generate_batch (batch_start B batch_num) (current_batch_size N B batch_num)))
             (\<lambda>df_batch.
           bind (write_table E (batch_filename output_dir stem w output_format batch_num) df_batch)
             (\<lambda>_. ret (all_files @ [batch_filename output_dir stem w output_format batch_num]))))
        [])"

section \<open>complete_generator.py, first definitions\<close>

subsection \<open>Customers\<close>

definition customer_record :: "env \<Rightarrow> config \<Rightarrow> int \<Rightarrow> (rng, row) comp" where
  "customer_record E cfg customer_id =
     bind (date_between E ''-5y'' ''today'') (\<lambda>acquisition_date.
     dict_literal
       [(''customer_id'', ret (Str (''CUST'' @ fmt_d 8 customer_id))),
        (''customer_name'', fake E),
        (''email'', fake E),
        (''phone'', fake E),
        (''segment'', fmap Str (choice E (CUSTOMER_SEGMENTS cfg))),
        (''region'', fmap Str (choice E (REGIONS cfg))),
        (''country'', fmap Str (choice E (COUNTRIES cfg))),
        (''city'', fake E),
        (''state'', fake E),
        (''zip_code'', fake E),
        (''acquisition_date'', ret acquisition_date),
        (''lifetime_value'', uniform_round E 2 (100 * 100) (500000 * 100)),
        (''created_at'', now E)])"

definition generate_customer_batch :: "env \<Rightarrow> config \<Rightarrow> int \<Rightarrow> int \<Rightarrow> (rng, row list) comp" where
  "generate_customer_batch E cfg start_id batch_size =
     rows_loop (customer_record E cfg) start_id batch_size"

definition generate_all_customers :: "env \<Rightarrow> config \<Rightarrow> (world, string list) comp" where
  "generate_all_customers E cfg =
     bind (makedirs E ''generated-data/customers'') (\<lambda>_.
     batch_loop E ''generated-data/customers'' ''customers_batch_'' 5 (OUTPUT_FORMAT cfg)
       (NUM_CUSTOMERS cfg) (CUSTOMER_BATCH_SIZE cfg) (generate_customer_batch E cfg))"

subsection \<open>Products\<close>

definition product_record :: "env \<Rightarrow> config \<Rightarrow> int \<Rightarrow> (rng, row) comp" where
  "product_record E cfg product_id =
     dict_literal
       [(''product_id'', ret (Str (''PROD'' @ fmt_d 8 product_id))),
        (''product_name'',
           bind (fake_text E) (\<lambda>a. bind (fake_text E) (\<lambda>b. ret (Str (a @ '' '' @ b))))),
        (''category'', fmap Str (choice E (PRODUCT_CATEGORIES cfg))),
        (''subcategory'', fake E),
        (''unit_price'', uniform_round E 2 (10 * 100) (1000 * 100)),
        (''cost_price'', uniform_round E 2 (5 * 100) (500 * 100)),
        (''supplier_id'', fmap (\<lambda>n. Str (''SUPP'' @ fmt_d 6 n)) (randint E 1 1000)),
        (''stock_quantity'', fmap Num (randint E 0 10000)),
        (''reorder_point'', fmap Num (randint E 50 500)),
        (''created_at'', now E)]"

definition generate_products :: "env \<Rightarrow> config \<Rightarrow> (world, string list) comp" where
  "generate_products E cfg =
     bind (makedirs E ''generated-data/products'') (\<lambda>_.
     batch_loop E ''generated-data/products'' ''products_batch_'' 5 (OUTPUT_FORMAT cfg)
       (NUM_PRODUCTS cfg) (PRODUCT_BATCH_SIZE cfg) (rows_loop (product_record E cfg)))"

subsection \<open>Sales representatives\<close>

definition sales_rep_record :: "env \<Rightarrow> config \<Rightarrow> int \<Rightarrow> (rng, row) comp" where
  "sales_rep_record E cfg rep_id =
     dict_literal
       [(''sales_rep_id'', ret (Str (''SREP'' @ fmt_d 8 rep_id))),
        (''name'', fake E),
        (''email'', fake E),
        (''phone'', fake E),
        (''region'', fmap Str (choice E (REGIONS cfg))),
        (''territory'', fake E),
        (''hire_date'', date_between E ''-15y'' ''today''),
        (''commission_rate'', uniform_round E 4 100 2500),
        (''created_at'', now E)]"

text \<open>The sales representatives are chunked with \<open>PRODUCT_BATCH_SIZE\<close>.\<close>

definition generate_sales_reps :: "env \<Rightarrow> config \<Rightarrow> (world, string list) comp" where
  "generate_sales_reps E cfg =
     bind (makedirs E ''generated-data/sales-reps'') (\<lambda>_.
     batch_loop E ''generated-data/sales-reps'' ''sales_reps_batch_'' 5 (OUTPUT_FORMAT cfg)
       (NUM_SALES_REPS cfg) (PRODUCT_BATCH_SIZE cfg) (rows_loop (sales_rep_record E cfg)))"

subsection \<open>Transactions\<close>

definition transaction_record :: "env \<Rightarrow> config \<Rightarrow> int \<Rightarrow> int \<Rightarrow> int \<Rightarrow> (rng, row) comp" where
  "transaction_record E cfg start num_days transaction_id =
     bind (randint E 0 num_days) (\<lambda>days.
     dict_literal
       [(''transaction_id'', ret (Str (''TXN'' @ fmt_d 12 transaction_id))),
        (''customer_id'',
           fmap (\<lambda>n. Str (''CUST'' @ fmt_d 8 n)) (randint E 0 (NUM_CUSTOMERS cfg - 1))),
        (''product_id'',
           fmap (\<lambda>n. Str (''PROD'' @ fmt_d 8 n)) (randint E 0 (NUM_PRODUCTS cfg - 1))),
        (''sales_rep_id'',
           fmap (\<lambda>n. Str (''SREP'' @ fmt_d 8 n)) (randint E 0 (NUM_SALES_REPS cfg - 1))),
        (''transaction_date'', ret (Day (start + days))),
        (''quantity'', fmap Num (randint E 1 500)),
        (''unit_price'', uniform_round E 2 (10 * 100) (1000 * 100)),
        (''discount_percent'', uniform_round E 2 0 (50 * 100)),
        (''tax_amount'', uniform_round E 2 (10 * 100) (1000 * 100)),
        (''total_amount'', uniform_round E 2 (50 * 100) (50000 * 100)),
        (''payment_method'',
           fmap Str (choice E [''Credit Card'', ''Debit Card'', ''Check'', ''Bank Transfer'',
                               ''Online Payment''])),
        (''region'', fmap Str (choice E (REGIONS cfg))),
        (''created_at'', now E)])"

definition generate_all_transactions :: "env \<Rightarrow> config \<Rightarrow> (world, string list) comp" where
  "generate_all_transactions E cfg =
     bind (makedirs E ''generated-data/transactions'') (\<lambda>_.
     bind (parse_date E (START_DATE cfg)) (\<lambda>start.
     bind (parse_date E (END_DATE cfg)) (\<lambda>end.
     batch_loop E ''generated-data/transactions'' ''transactions_batch_'' 5 (OUTPUT_FORMAT cfg)
       (NUM_TRANSACTIONS cfg) (TRANSACTION_BATCH_SIZE cfg)
       (rows_loop (transaction_record E cfg start (end - start))))))"

subsection \<open>First main block\<close>

text \<open>
  After the four pipelines the block sums the sizes of the files below \<open>generated-data\<close>
  (\<open>os.scandir\<close>) and prints a summary. Console output, memory reporting and garbage
  collection are left out; the divisions in the summary have a divisor that the pipelines
  have already divided by.
\<close>

definition scan_sizes :: "env \<Rightarrow> (world, unit) comp" where
  "scan_sizes E = (if scandir_fails E then raise OSError else ret ())"

definition first_main_block :: "env \<Rightarrow> config \<Rightarrow> (world, unit) comp" where
  "first_main_block E cfg =
     bind (generate_all_customers E cfg) (\<lambda>_.
     bind (generate_products E cfg) (\<lambda>_.
     bind (generate_sales_reps E cfg) (\<lambda>_.
     bind (generate_all_transactions E cfg) (\<lambda>_.
     scan_sizes E))))"

section \<open>complete_generator.py, the redefinitions in its second half\<close>

subsection \<open>Customers\<close>

definition customer_record_legacy :: "env \<Rightarrow> config \<Rightarrow> int \<Rightarrow> (rng, row) comp" where
  "customer_record_legacy E cfg customer_id =
     bind (date_between E ''-3y'' ''today'') (\<lambda>acquisition_date.
     dict_literal
       [(''customer_id'', ret (Str (''CUST'' @ fmt_d 6 customer_id))),
        (''customer_name'', fake E),
        (''email'', fake E),
        (''phone'', fake E),
        (''segment'', fmap Str (choice E (CUSTOMER_SEGMENTS cfg))),
        (''region'', fmap Str (choice E (REGIONS cfg))),
        (''country'', fmap Str (choice E (COUNTRIES cfg))),
        (''city'', fake E),
        (''state'', fake E),
        (''zip_code'', fake E),
        (''acquisition_date'', ret acquisition_date),
        (''lifetime_value'', uniform_round E 2 (100 * 100) (50000 * 100)),
        (''created_at'', now E)])"

definition generate_customer_batch_legacy ::
  "env \<Rightarrow> config \<Rightarrow> int \<Rightarrow> int \<Rightarrow> (rng, row list) comp" where
  "generate_customer_batch_legacy E cfg start_id batch_size =
     rows_loop (customer_record_legacy E cfg) start_id batch_size"

definition generate_all_customers_legacy :: "env \<Rightarrow> config \<Rightarrow> (world, string list) comp" where
  "generate_all_customers_legacy E cfg =
     bind (makedirs E ''generated-data/customers'') (\<lambda>_.
     batch_loop E ''generated-data/customers'' ''customers_batch_'' 3 (OUTPUT_FORMAT cfg)
       (NUM_CUSTOMERS cfg) (CUSTOMER_BATCH_SIZE cfg) (generate_customer_batch_legacy E cfg))"

subsection \<open>Products\<close>

definition product_record_legacy :: "env \<Rightarrow> config \<Rightarrow> int \<Rightarrow> (rng, row) comp" where
  "product_record_legacy E cfg product_id =
     dict_literal
       [(''product_id'', ret (Str (''PROD'' @ fmt_d 6 product_id))),
        (''product_name'',
           bind (fake_text E) (\<lambda>a. bind (fake_text E) (\<lambda>b. ret (Str (a @ '' '' @ b))))),
        (''category'', fmap Str (choice E (PRODUCT_CATEGORIES cfg))),
        (''subcategory'', fake E),
        (''unit_price'', uniform_round E 2 (10 * 100) (1000 * 100)),
        (''cost_price'', uniform_round E 2 (5 * 100) (500 * 100)),
        (''supplier_id'', fmap (\<lambda>n. Str (''SUPP'' @ fmt_d 4 n)) (randint E 1 100)),
        (''stock_quantity'', fmap Num (randint E 0 1000)),
        (''reorder_point'', fmap Num (randint E 50 200)),
        (''created_at'', now E)]"

definition generate_products_legacy :: "env \<Rightarrow> config \<Rightarrow> (world, string list) comp" where
  "generate_products_legacy E cfg =
     bind (makedirs E ''generated-data/products'') (\<lambda>_.
     batch_loop E ''generated-data/products'' ''products_batch_'' 3 (OUTPUT_FORMAT cfg)
       (NUM_PRODUCTS cfg) (PRODUCT_BATCH_SIZE cfg) (rows_loop (product_record_legacy E cfg)))"

subsection \<open>Sales representatives\<close>

text \<open>Here the identifier is \<open>i + 1\<close>, and all records go to one file.\<close>

definition sales_rep_record_legacy :: "env \<Rightarrow> config \<Rightarrow> int \<Rightarrow> (rng, row) comp" where
  "sales_rep_record_legacy E cfg i =
     dict_literal
       [(''sales_rep_id'', ret (Str (''SREP'' @ fmt_d 4 (i + 1)))),
        (''name'', fake E),
        (''email'', fake E),
        (''phone'', fake E),
        (''region'', fmap Str (choice E (REGIONS cfg))),
        (''territory'', fake E),
        (''hire_date'', date_between E ''-10y'' ''today''),
        (''commission_rate'', uniform_round E 4 100 1500),
        (''created_at'', now E)]"

definition sales_reps_filename :: "string \<Rightarrow> string" where
  "sales_reps_filename output_format =
     ''generated-data/sales-reps'' @ ''/sales_reps'' @ extension output_format"

definition generate_sales_reps_legacy :: "env \<Rightarrow> config \<Rightarrow> (world, unit) comp" where
  "generate_sales_reps_legacy E cfg =
     bind (makedirs E ''generated-data/sales-reps'') (\<lambda>_.
     bind (lift_gen (rows_loop (sales_rep_record_legacy E cfg) 0 (NUM_SALES_REPS cfg))) (\<lambda>df.
     write_table E (sales_reps_filename (OUTPUT_FORMAT cfg)) df))"

subsection \<open>Transactions\<close>

definition transaction_record_legacy ::
  "env \<Rightarrow> config \<Rightarrow> int \<Rightarrow> int \<Rightarrow> int \<Rightarrow> (rng, row) comp" where
  "transaction_record_legacy E cfg start num_days transaction_id =
     bind (randint E 0 num_days) (\<lambda>days.
     dict_literal
       [(''transaction_id'', ret (Str (''TXN'' @ fmt_d 9 transaction_id))),
        (''customer_id'',
           fmap (\<lambda>n. Str (''CUST'' @ fmt_d 6 n)) (randint E 0 (NUM_CUSTOMERS cfg - 1))),
        (''product_id'',
           fmap (\<lambda>n. Str (''PROD'' @ fmt_d 6 n)) (randint E 0 (NUM_PRODUCTS cfg - 1))),
        (''sales_rep_id'',
           fmap (\<lambda>n. Str (''SREP'' @ fmt_d 4 n)) (randint E 1 (NUM_SALES_REPS cfg))),
        (''transaction_date'', ret (Day (start + days))),
        (''quantity'', fmap Num (randint E 1 100)),
        (''unit_price'', uniform_round E 2 (10 * 100) (1000 * 100)),
        (''discount_percent'', uniform_round E 2 0 (50 * 100)),
        (''tax_amount'', uniform_round E 2 (10 * 100) (500 * 100)),
        (''total_amount'', uniform_round E 2 (50 * 100) (10000 * 100)),
        (''payment_method'',
           fmap Str (choice E [''Credit Card'', ''Debit Card'', ''Check'', ''Bank Transfer''])),
        (''region'', fmap Str (choice E (REGIONS cfg))),
        (''created_at'', now E)])"

definition generate_all_transactions_legacy :: "env \<Rightarrow> config \<Rightarrow> (world, string list) comp" where
  "generate_all_transactions_legacy E cfg =
     bind (makedirs E ''generated-data/transactions'') (\<lambda>_.
     bind (parse_date E (START_DATE cfg)) (\<lambda>start.
     bind (parse_date E (END_DATE cfg)) (\<lambda>end.
     batch_loop E ''generated-data/transactions'' ''transactions_batch_'' 3 (OUTPUT_FORMAT cfg)
       (NUM_TRANSACTIONS cfg) (TRANSACTION_BATCH_SIZE cfg)
       (rows_loop (transaction_record_legacy E cfg start (end - start))))))"

subsection \<open>Second main block\<close>

definition second_main_block :: "env \<Rightarrow> config \<Rightarrow> (world, unit) comp" where
  "second_main_block E cfg =
     bind (generate_all_customers_legacy E cfg) (\<lambda>_.
     bind (generate_products_legacy E cfg) (\<lambda>_.
     bind (generate_sales_reps_legacy E cfg) (\<lambda>_.
     bind (generate_all_transactions_legacy E cfg) (\<lambda>_.
     ret ()))))"

section \<open>The scripts as processes\<close>

text \<open>
  \<open>try: block  except Exception as e: print(banner); traceback.print_exc(); sys.exit(1)\<close>.
  The value is the exit status \<open>sys.exit\<close> was called with, or \<open>None\<close> when the block ended
  and the script goes on.
\<close>

definition try_block :: "(world, 'a) comp \<Rightarrow> world \<Rightarrow> nat option \<times> world" where
  "try_block block w =
     (case block w of
        (Inr _, w') \<Rightarrow> (None, w')
      | (Inl e, w') \<Rightarrow> (Some 1, w'\<lparr>events := events w' @ [Banner e, Traceback e]\<rparr>))"

text \<open>
  \<open>complete_generator.py\<close> runs its first main block, then (the functions redefined) its
  second; a script that reaches its end exits with status 0.
\<close>

definition complete_generator :: "env \<Rightarrow> config \<Rightarrow> world \<Rightarrow> nat \<times> world" where
  "complete_generator E cfg w =
     (case try_block (first_main_block E cfg) w of
        (Some status, w1) \<Rightarrow> (status, w1)
      | (None, w1) \<Rightarrow>
          (case try_block (second_main_block E cfg) w1 of
             (Some status, w2) \<Rightarrow> (status, w2)
           | (None, w2) \<Rightarrow> (0, w2)))"

text \<open>
  \<open>quick_gen.py\<close> holds the same customer functions as the second half of
  \<open>complete_generator.py\<close> and runs the customer pipeline only.
\<close>

definition quick_gen :: "env \<Rightarrow> config \<Rightarrow> world \<Rightarrow> nat \<times> world" where
  "quick_gen E cfg w =
     (case try_block (generate_all_customers_legacy E cfg) w of
        (Some status, w1) \<Rightarrow> (status, w1)
      | (None, w1) \<Rightarrow> (0, w1))"

section \<open>Reading the event trace\<close>

text \<open>The events a computation added, the tables among them, and one column of a table.\<close>

definition new_events :: "world \<Rightarrow> world \<Rightarrow> event list" where
  "new_events w w' = drop (length (events w)) (events w')"

fun written :: "event list \<Rightarrow> (string \<times> row list) list" where
  "written [] = []"
| "written (Write f rows # evs) = (f, rows) # written evs"
| "written (Mkdir d # evs) = written evs"
| "written (Banner e # evs) = written evs"
| "written (Traceback e # evs) = written evs"

definition written_rows :: "event list \<Rightarrow> row list" where
  "written_rows evs = concat (map snd (written evs))"

definition column :: "string \<Rightarrow> row list \<Rightarrow> val option list" where
  "column key rows = map (\<lambda>r. map_of r key) rows"


text \<open>
  The rows of the tables written below a directory, and whether an event is the creation
  of that directory or a write below it.
\<close>

definition table_rows :: "string \<Rightarrow> event list \<Rightarrow> row list" where
  "table_rows dir evs =
     concat (map snd (filter (\<lambda>t. prefix (dir @ ''/'') (fst t)) (written evs)))"

fun under :: "string \<Rightarrow> event \<Rightarrow> bool" where
  "under dir (Mkdir d) = (d = dir)"
| "under dir (Write f rows) = prefix (dir @ ''/'') f"
| "under dir (Banner e) = False"
| "under dir (Traceback e) = False"

text \<open>
  What \<open>quantity * unit_price * (1 - discount) + tax\<close> would be, in hundredths: the
  quantity \<open>q\<close>, the unit price \<open>u\<close> and the tax \<open>t\<close> in hundredths, the discount \<open>d\<close> in
  hundredths of a percent.
\<close>

definition derived_total :: "int \<Rightarrow> int \<Rightarrow> int \<Rightarrow> int \<Rightarrow> rat" where
  "derived_total q u d t = of_int (q * u) * (1 - of_int d / 10000) + of_int t"

section \<open>Sample inputs\<close>

text \<open>
  A small configuration (five customers in batches of two, and a few records of the other
  entities) and an environment in which nothing fails, used to run the model.
\<close>

definition small_config :: config where
  "small_config = \<lparr>
     NUM_CUSTOMERS = 5, NUM_PRODUCTS = 3, NUM_SALES_REPS = 2, NUM_TRANSACTIONS = 3,
     START_DATE = ''2023-01-01'', END_DATE = ''2024-12-31'',
     CUSTOMER_BATCH_SIZE = 2, PRODUCT_BATCH_SIZE = 2, TRANSACTION_BATCH_SIZE = 2,
     OUTPUT_FORMAT = ''parquet'', COMPRESSION = ''snappy'',
     REGIONS = [''North'', ''South'', ''East'', ''West'', ''Central''],
     COUNTRIES = [''USA'', ''Canada'', ''UK'', ''Germany'', ''France'', ''Australia''],
     PRODUCT_CATEGORIES = [''Electronics'', ''Clothing'', ''Home & Garden'', ''Sports'', ''Books''],
     CUSTOMER_SEGMENTS = [''Bronze'', ''Silver'', ''Gold'', ''Platinum'']\<rparr>"

definition sample_env :: env where
  "sample_env = \<lparr>
     rand_raw = (\<lambda>k. 7 * k + 3),
     fake_str = (\<lambda>k. ''w''),
     fake_date = (\<lambda>k a b. int k),
     clock = (\<lambda>k. k),
     strptime = (\<lambda>s. if s = ''2023-01-01'' then Some 738521
                     else if s = ''2024-12-31'' then Some 739251 else None),
     makedirs_fails = (\<lambda>d. False),
     write_fails = (\<lambda>f. False),
     scandir_fails = False\<rparr>"

text \<open>The same configuration with a single sales representative.\<close>

definition one_rep_config :: config where
  "one_rep_config = small_config\<lparr>NUM_SALES_REPS := 1\<rparr>"

text \<open>The same configuration with a customer batch size of zero, and with no records at all.\<close>

definition zero_batch_config :: config where
  "zero_batch_config = small_config\<lparr>CUSTOMER_BATCH_SIZE := 0\<rparr>"


text \<open>
  An environment in which writing the second product batch of the first pass fails, and one
  in which the directory of the sales representatives cannot be created.
\<close>

definition failing_env :: env where
  "failing_env = sample_env\<lparr>write_fails :=
     (\<lambda>f. f = ''generated-data/products/products_batch_00001.parquet'')\<rparr>"

definition no_dir_env :: env where
  "no_dir_env = sample_env\<lparr>makedirs_fails := (\<lambda>d. d = ''generated-data/sales-reps'')\<rparr>"

text \<open>A configuration whose customers need 10001 batches.\<close>

definition many_batches_config :: config where
  "many_batches_config = small_config\<lparr>NUM_CUSTOMERS := 10001, CUSTOMER_BATCH_SIZE := 1\<rparr>"

text \<open>A configuration with 10000001 customers, generated as a single batch.\<close>

definition ten_million_config :: config where
  "ten_million_config =
     small_config\<lparr>NUM_CUSTOMERS := 10000001, CUSTOMER_BATCH_SIZE := 10000001\<rparr>"

text \<open>
  The names of the batch files a pipeline writes, and the names the whole of
  \<open>complete_generator.py\<close> writes when nothing fails: those of the first main block, then
  those of the second.
\<close>

definition batch_files :: "string \<Rightarrow> string \<Rightarrow> nat \<Rightarrow> string \<Rightarrow> int \<Rightarrow> int \<Rightarrow> string list" where
  "batch_files output_dir stem w output_format N B =
     map (\<lambda>k. batch_filename output_dir stem w output_format (int k)) [0..<nat (num_batches N B)]"

definition first_pass_files :: "config \<Rightarrow> string list" where
  "first_pass_files cfg =
     batch_files ''generated-data/customers'' ''customers_batch_'' 5 (OUTPUT_FORMAT cfg)
       (NUM_CUSTOMERS cfg) (CUSTOMER_BATCH_SIZE cfg)
     @ batch_files ''generated-data/products'' ''products_batch_'' 5 (OUTPUT_FORMAT cfg)
       (NUM_PRODUCTS cfg) (PRODUCT_BATCH_SIZE cfg)
     @ batch_files ''generated-data/sales-reps'' ''sales_reps_batch_'' 5 (OUTPUT_FORMAT cfg)
       (NUM_SALES_REPS cfg) (PRODUCT_BATCH_SIZE cfg)
     @ batch_files ''generated-data/transactions'' ''transactions_batch_'' 5 (OUTPUT_FORMAT cfg)
       (NUM_TRANSACTIONS cfg) (TRANSACTION_BATCH_SIZE cfg)"

definition second_pass_files :: "config \<Rightarrow> string list" where
  "second_pass_files cfg =
     batch_files ''generated-data/customers'' ''customers_batch_'' 3 (OUTPUT_FORMAT cfg)
       (NUM_CUSTOMERS cfg) (CUSTOMER_BATCH_SIZE cfg)
     @ batch_files ''generated-data/products'' ''products_batch_'' 3 (OUTPUT_FORMAT cfg)
       (NUM_PRODUCTS cfg) (PRODUCT_BATCH_SIZE cfg)
     @ [sales_reps_filename (OUTPUT_FORMAT cfg)]
     @ batch_files ''generated-data/transactions'' ''transactions_batch_'' 3 (OUTPUT_FORMAT cfg)
       (NUM_TRANSACTIONS cfg) (TRANSACTION_BATCH_SIZE cfg)"

declare digits.simps [simp del]

section \<open>Basic facts about computations and loops\<close>

lemma ret_apply [simp]: "ret a s = (Inr a, s)" by (simp add: ret_def)
lemma raise_apply [simp]: "raise e s = (Inl e, s)" by (simp add: raise_def)

lemma bind_Inr: "m s = (Inr a, s1) \<Longrightarrow> bind m f s = f a s1" by (simp add: bind_def)
lemma bind_Inl: "m s = (Inl e, s1) \<Longrightarrow> bind m f s = (Inl e, s1)" by (simp add: bind_def)

lemma bind_Inr_elim:
  assumes "bind m f s = (Inr b, s')"
  obtains a s1 where "m s = (Inr a, s1)" "f a s1 = (Inr b, s')"
  using assms by (auto simp: bind_def split: prod.splits sum.splits)

lemma bind_cases:
  assumes "bind m f s = (r, s')"
  obtains (fail) e where "m s = (Inl e, s')" "r = Inl e"
        | (ok) a s1 where "m s = (Inr a, s1)" "f a s1 = (r, s')"
  using assms by (auto simp: bind_def split: prod.splits sum.splits)

lemma fmap_Inr_elim:
  assumes "fmap f m s = (Inr b, s')"
  obtains a where "m s = (Inr a, s')" "b = f a"
  using assms by (auto simp: fmap_def elim!: bind_Inr_elim)

lemma for_range_invariant:
  assumes "for_range n body acc s = (Inr acc', s')"
    and "I 0 acc s"
    and "\<And>i a t a' t'. i < n \<Longrightarrow> I i a t \<Longrightarrow> body (int i) a t = (Inr a', t') \<Longrightarrow> I (Suc i) a' t'"
  shows "I n acc' s'"
  using assms
proof (induction n arbitrary: acc' s')
  case 0
  then show ?case by simp
next
  case (Suc n)
  from Suc.prems(1) obtain a t where a: "for_range n body acc s = (Inr a, t)"
    and b: "body (int n) a t = (Inr acc', s')"
    by (auto elim: bind_Inr_elim)
  have "I n a t" using Suc.IH[OF a Suc.prems(2)] Suc.prems(3) by simp
  then show ?case using Suc.prems(3)[of n a t acc' s'] b by simp
qed

lemma for_range_state:
  assumes "for_range n body acc s = (r, s')"
    and "P s"
    and "\<And>i a t r' t'. i < n \<Longrightarrow> P t \<Longrightarrow> body (int i) a t = (r', t') \<Longrightarrow> P t'"
  shows "P s'"
  using assms
proof (induction n arbitrary: r s')
  case 0
  then show ?case by simp
next
  case (Suc n)
  have step: "\<And>i a t r' t'. i < n \<Longrightarrow> P t \<Longrightarrow> body (int i) a t = (r', t') \<Longrightarrow> P t'"
    using Suc.prems(3) less_SucI by blast
  from Suc.prems(1) have "bind (for_range n body acc) (body (int n)) s = (r, s')" by simp
  then show ?case
  proof (cases rule: bind_cases)
    case (fail e)
    show ?thesis using Suc.IH[OF fail(1) Suc.prems(2) step] .
  next
    case (ok a s1)
    have "P s1" using Suc.IH[OF ok(1) Suc.prems(2) step] .
    then show ?thesis using Suc.prems(3)[of n s1 a r s'] ok(2) by simp
  qed
qed

subsection \<open>digits\<close>

lemma digit_cases: "d < 10 \<Longrightarrow> d \<in> {0, 1, 2, 3, 4, 5, 6, 7, 8, 9::nat}"
  by auto

lemma of_char_digit: "d < 10 \<Longrightarrow> (of_char (digit_char d) :: nat) = 48 + d"
  by (drule digit_cases) (auto simp: digit_char_def)

lemma zfill_unfold: "zfill w s = (if length s < w then zfill w (CHR ''0'' # s) else s)"
proof (cases "length s < w")
  case True
  then have "w - length s = Suc (w - Suc (length s))" by simp
  then show ?thesis using True by (simp add: zfill_def replicate_app_Cons_same)
next
  case False
  then show ?thesis by (simp add: zfill_def)
qed

lemmas format_eval = fmt_d_def zfill_unfold digits.simps digit_char_def

lemma undigits_snoc: "undigits (s @ [c]) = 10 * undigits s + (of_char c - 48)"
  by (simp add: undigits_def)

lemma undigits_digits: "undigits (digits n) = n"
proof (induction n rule: digits.induct)
  case (1 n)
  show ?case
  proof (cases "n < 10")
    case True
    then show ?thesis by (subst digits.simps) (simp add: undigits_def of_char_digit)
  next
    case False
    have "undigits (digits n) = 10 * undigits (digits (n div 10)) + (of_char (char_of (48 + n mod 10)) - 48)"
      using False by (subst digits.simps) (simp add: undigits_snoc of_char_digit)
    also have "\<dots> = 10 * (n div 10) + n mod 10" using 1[OF False] by (simp add: of_char_digit)
    finally show ?thesis by simp
  qed
qed

lemma undigits_zeros: "foldl (\<lambda>a c. 10 * a + (of_char c - 48)) 0 (replicate k CHR ''0'') = (0::nat)"
  by (induction k) simp_all

lemma undigits_zfill: "undigits (zfill w s) = undigits s"
  by (simp add: undigits_def zfill_def undigits_zeros)

lemma undigits_fmt_d: "0 \<le> x \<Longrightarrow> undigits (fmt_d w x) = nat x"
  by (simp add: fmt_d_def undigits_zfill undigits_digits)

lemma fmt_d_inj: "0 \<le> x \<Longrightarrow> 0 \<le> y \<Longrightarrow> fmt_d w x = fmt_d w y \<Longrightarrow> x = y"
  by (metis undigits_fmt_d nat_eq_iff2)

lemma digits_nonempty: "digits n \<noteq> []"
  by (subst digits.simps) simp

lemma length_digits_pos: "0 < length (digits n)"
  using digits_nonempty by simp

lemma length_digits_le: "n < 10 ^ Suc k \<Longrightarrow> length (digits n) \<le> Suc k"
proof (induction k arbitrary: n)
  case 0
  then show ?case by (subst digits.simps) simp
next
  case (Suc k)
  show ?case
  proof (cases "n < 10")
    case True
    then show ?thesis by (subst digits.simps) simp
  next
    case False
    have "n div 10 < 10 ^ Suc k" using Suc.prems by (simp add: less_mult_imp_div_less mult.commute)
    then have "length (digits (n div 10)) \<le> Suc k" by (rule Suc.IH)
    then show ?thesis using False by (subst digits.simps) simp
  qed
qed

lemma length_digits_gt: "10 ^ k \<le> n \<Longrightarrow> k < length (digits n)"
proof (induction k arbitrary: n)
  case 0
  then show ?case by (simp add: digits_nonempty)
next
  case (Suc k)
  have "(10::nat) \<le> 10 ^ Suc k" by simp
  then have n10: "\<not> n < 10" using Suc.prems by linarith
  have "10 ^ k \<le> n div 10" using Suc.prems by (simp add: less_eq_div_iff_mult_less_eq mult.commute)
  then have "k < length (digits (n div 10))" by (rule Suc.IH)
  then show ?case using n10 by (subst digits.simps) simp
qed

section \<open>The batch chunker\<close>

lemma nb_bounds: assumes "0 < B" shows "(num_batches N B - 1) * B < N" "N \<le> num_batches N B * B"
proof -
  define q where "q = (N + B - 1) div B"
  define r where "r = (N + B - 1) mod B"
  have e: "N + B - 1 = q * B + r" unfolding q_def r_def by simp
  have r: "0 \<le> r" "r < B" unfolding r_def using assms by simp_all
  have "q * B = N + B - 1 - r" using e by simp
  then have 1: "N \<le> q * B" using r by simp
  have "(q - 1) * B = N - 1 - r" using e by (simp add: algebra_simps)
  then have 2: "(q - 1) * B < N" using r by simp
  show "(num_batches N B - 1) * B < N" "N \<le> num_batches N B * B"
    using 1 2 unfolding num_batches_def q_def by simp_all
qed

lemma nb_ceiling: assumes "0 < B" shows "num_batches N B = \<lceil>real_of_int N / real_of_int B\<rceil>"
proof -
  have b: "0 < real_of_int B" using assms by simp
  have "real_of_int ((num_batches N B - 1) * B) < real_of_int N"
    using nb_bounds(1)[OF assms, of N] by (simp only: of_int_less_iff)
  then have 1: "real_of_int (num_batches N B) - 1 < real_of_int N / real_of_int B"
    using b by (simp add: pos_less_divide_eq)
  have "real_of_int N \<le> real_of_int (num_batches N B * B)"
    using nb_bounds(2)[OF assms, of N] by (simp only: of_int_le_iff)
  then have 2: "real_of_int N / real_of_int B \<le> real_of_int (num_batches N B)"
    using b by (simp add: pos_divide_le_eq)
  show ?thesis using 1 2 by (simp add: ceiling_unique)
qed

lemma nb_pos: assumes "0 < B" "0 < N" shows "0 < num_batches N B"
proof (rule ccontr)
  assume "\<not> 0 < num_batches N B"
  then have "num_batches N B \<le> 0" by simp
  then have "num_batches N B * B \<le> 0" using assms(1) by (simp add: mult_le_0_iff)
  then show False using nb_bounds(2)[OF assms(1), of N] assms(2) by simp
qed

lemma cbs_full: assumes "0 < B" "0 \<le> k" "k < num_batches N B - 1"
  shows "current_batch_size N B k = B"
proof -
  have "k + 1 \<le> num_batches N B - 1" using assms by simp
  then have "(k + 1) * B \<le> (num_batches N B - 1) * B" using assms(1) by (simp only: mult_right_mono)
  then have "(k + 1) * B < N" using nb_bounds(1)[OF assms(1), of N] by simp
  then show ?thesis unfolding current_batch_size_def batch_start_def by (simp add: algebra_simps)
qed

lemma cbs_last: assumes "0 < B"
  shows "current_batch_size N B (num_batches N B - 1) = N - (num_batches N B - 1) * B"
  using nb_bounds(2)[OF assms, of N]
  unfolding current_batch_size_def batch_start_def by (simp add: algebra_simps)

lemma cbs_pos: assumes "0 < B" "0 \<le> k" "k < num_batches N B"
  shows "0 < current_batch_size N B k" "current_batch_size N B k \<le> B"
proof -
  have "k \<le> num_batches N B - 1" using assms by simp
  then have "k * B \<le> (num_batches N B - 1) * B" using assms(1) by (simp only: mult_right_mono)
  then have "k * B < N" using nb_bounds(1)[OF assms(1), of N] by simp
  then show "0 < current_batch_size N B k" using assms(1)
    unfolding current_batch_size_def batch_start_def by simp
  show "current_batch_size N B k \<le> B" unfolding current_batch_size_def by simp
qed

lemma cbs_end: assumes "0 < B" "0 \<le> k" "k < num_batches N B"
  shows "batch_start B k + current_batch_size N B k = min N (batch_start B (k + 1))"
  unfolding current_batch_size_def batch_start_def by (simp add: algebra_simps min_def)

lemma cbs_contig: assumes "0 < B" "0 \<le> k" "k + 1 < num_batches N B"
  shows "batch_start B k + current_batch_size N B k = batch_start B (k + 1)"
  using cbs_full[of B k N] assms unfolding batch_start_def by (simp add: algebra_simps)

lemma ranges_union: assumes "0 < B" "0 < N"
  shows "(\<Union>k\<in>{0..<num_batches N B}. {batch_start B k ..< batch_start B k + current_batch_size N B k}) = {0..<N}"
proof (rule set_eqI)
  fix x
  show "x \<in> (\<Union>k\<in>{0..<num_batches N B}. {batch_start B k ..< batch_start B k + current_batch_size N B k}) \<longleftrightarrow> x \<in> {0..<N}"
  proof
    assume "x \<in> (\<Union>k\<in>{0..<num_batches N B}. {batch_start B k ..< batch_start B k + current_batch_size N B k})"
    then obtain k where k: "0 \<le> k" "k < num_batches N B" "batch_start B k \<le> x" "x < batch_start B k + current_batch_size N B k"
      by auto
    have "0 \<le> batch_start B k" using k(1) assms(1) unfolding batch_start_def by simp
    moreover have "batch_start B k + current_batch_size N B k \<le> N"
      unfolding current_batch_size_def by simp
    ultimately show "x \<in> {0..<N}" using k by simp
  next
    assume x: "x \<in> {0..<N}"
    define k where "k = x div B"
    have k0: "0 \<le> k" unfolding k_def using x assms(1) by (simp add: pos_imp_zdiv_nonneg_iff)
    have xe: "x = k * B + x mod B" unfolding k_def by simp
    have m: "0 \<le> x mod B" "x mod B < B" using assms(1) by simp_all
    have lo: "k * B \<le> x" using xe m by linarith
    have hi: "x < (k + 1) * B" using xe m by (simp add: algebra_simps) 
    have "k < num_batches N B"
    proof (rule ccontr)
      assume "\<not> k < num_batches N B"
      then have "num_batches N B \<le> k" by simp
      then have "num_batches N B * B \<le> k * B" using assms(1) by (simp only: mult_right_mono)
      then show False using nb_bounds(2)[OF assms(1), of N] lo x by simp
    qed
    moreover have "x < batch_start B k + current_batch_size N B k"
      using hi x unfolding current_batch_size_def batch_start_def by (auto simp: algebra_simps min_def)
    ultimately show "x \<in> (\<Union>k\<in>{0..<num_batches N B}. {batch_start B k ..< batch_start B k + current_batch_size N B k})"
      using k0 lo unfolding batch_start_def by auto
  qed
qed


lemma batch_ranges_length: "length (batch_ranges N B) = nat (num_batches N B)"
  by (simp add: batch_ranges_def)

lemma batch_ranges_nth:
  "k < nat (num_batches N B) \<Longrightarrow>
   batch_ranges N B ! k = (batch_start B (int k), current_batch_size N B (int k))"
  by (simp add: batch_ranges_def)

lemma batch_ranges_last:
  assumes "0 < B" "0 < N"
  shows "last (batch_ranges N B) =
    (batch_start B (num_batches N B - 1), current_batch_size N B (num_batches N B - 1))"
proof -
  have p: "0 < num_batches N B" using nb_pos assms by simp
  then have ne: "batch_ranges N B \<noteq> []" by (simp add: batch_ranges_def)
  have "last (batch_ranges N B) = batch_ranges N B ! (nat (num_batches N B) - 1)"
    using ne by (simp add: last_conv_nth batch_ranges_length)
  also have "\<dots> = (batch_start B (int (nat (num_batches N B) - 1)),
      current_batch_size N B (int (nat (num_batches N B) - 1)))"
    using p by (intro batch_ranges_nth) simp
  also have "int (nat (num_batches N B) - 1) = num_batches N B - 1" using p by simp
  finally show ?thesis .
qed

lemma batch_ranges_set:
  "set (batch_ranges N B) =
   (\<lambda>k. (batch_start B k, current_batch_size N B k)) ` {0..<num_batches N B}"
proof -
  have "int ` {0..<nat (num_batches N B)} = {0..<num_batches N B}"
    by (metis image_int_atLeastLessThan int_nat_eq nat_0_iff nat_le_0 atLeastLessThan_empty_iff2 image_is_empty linorder_not_le order_less_imp_le)
  moreover have "set (batch_ranges N B) =
      (\<lambda>k. (batch_start B k, current_batch_size N B k)) ` int ` {0..<nat (num_batches N B)}"
    by (simp add: batch_ranges_def image_image)
  ultimately show ?thesis by (simp only:)
qed

lemma batch_ranges_properties:
  assumes "0 < N" and "0 < B"
  shows "length (batch_ranges N B) = nat \<lceil>real_of_int N / real_of_int B\<rceil>
    \<and> (\<forall>k < length (batch_ranges N B).
          fst (batch_ranges N B ! k) = int k * B
        \<and> 0 < snd (batch_ranges N B ! k) \<and> snd (batch_ranges N B ! k) \<le> B)
    \<and> (\<forall>k. Suc k < length (batch_ranges N B) \<longrightarrow>
          snd (batch_ranges N B ! k) = B
        \<and> fst (batch_ranges N B ! Suc k) = fst (batch_ranges N B ! k) + snd (batch_ranges N B ! k))
    \<and> fst (batch_ranges N B ! 0) = 0
    \<and> snd (last (batch_ranges N B)) = N - (num_batches N B - 1) * B
    \<and> fst (last (batch_ranges N B)) + snd (last (batch_ranges N B)) = N
    \<and> (\<Union>(s, l) \<in> set (batch_ranges N B). {s..<s + l}) = {0..<N}
    \<and> (N < B \<longrightarrow> batch_ranges N B = [(0, N)])
    \<and> (B dvd N \<longrightarrow> (\<forall>(s, l) \<in> set (batch_ranges N B). l = B))"
proof -
  let ?nb = "num_batches N B"
  have p: "0 < ?nb" using nb_pos assms by simp
  have c1: "length (batch_ranges N B) = nat \<lceil>real_of_int N / real_of_int B\<rceil>"
    using nb_ceiling[OF assms(2), of N] by (simp add: batch_ranges_length)
  have c2: "\<forall>k < length (batch_ranges N B).
          fst (batch_ranges N B ! k) = int k * B
        \<and> 0 < snd (batch_ranges N B ! k) \<and> snd (batch_ranges N B ! k) \<le> B"
  proof (intro allI impI)
    fix k assume "k < length (batch_ranges N B)"
    then have k: "k < nat ?nb" by (simp add: batch_ranges_length)
    then have "0 \<le> int k" "int k < ?nb" by simp_all
    then show "fst (batch_ranges N B ! k) = int k * B
        \<and> 0 < snd (batch_ranges N B ! k) \<and> snd (batch_ranges N B ! k) \<le> B"
      using cbs_pos[OF assms(2), of "int k" N] batch_ranges_nth[OF k]
      by (simp add: batch_start_def)
  qed
  have c3: "\<forall>k. Suc k < length (batch_ranges N B) \<longrightarrow>
          snd (batch_ranges N B ! k) = B
        \<and> fst (batch_ranges N B ! Suc k) = fst (batch_ranges N B ! k) + snd (batch_ranges N B ! k)"
  proof (intro allI impI)
    fix k assume "Suc k < length (batch_ranges N B)"
    then have k: "Suc k < nat ?nb" by (simp add: batch_ranges_length)
    then have k': "k < nat ?nb" by simp
    have lt: "int k < ?nb - 1" using k by linarith
    have "current_batch_size N B (int k) = B"
      using cbs_full[OF assms(2) _ lt] by simp
    then show "snd (batch_ranges N B ! k) = B
        \<and> fst (batch_ranges N B ! Suc k) = fst (batch_ranges N B ! k) + snd (batch_ranges N B ! k)"
      using batch_ranges_nth[OF k] batch_ranges_nth[OF k']
      by (simp add: batch_start_def algebra_simps)
  qed
  have c4: "fst (batch_ranges N B ! 0) = 0"
    using batch_ranges_nth[of 0 N B] p by (simp add: batch_start_def)
  have c5: "snd (last (batch_ranges N B)) = N - (?nb - 1) * B"
    using batch_ranges_last[OF assms(2) assms(1)] cbs_last[OF assms(2), of N] by simp
  have c6: "fst (last (batch_ranges N B)) + snd (last (batch_ranges N B)) = N"
    using batch_ranges_last[OF assms(2) assms(1)] cbs_last[OF assms(2), of N]
    by (simp add: batch_start_def)
  have c7: "(\<Union>(s, l) \<in> set (batch_ranges N B). {s..<s + l}) = {0..<N}"
    using ranges_union[OF assms(2) assms(1)] by (simp add: batch_ranges_set)
  have c8: "N < B \<longrightarrow> batch_ranges N B = [(0, N)]"
  proof
    assume lt: "N < B"
    have "?nb = 1" unfolding num_batches_def using lt assms
      by (simp add: div_pos_pos_trivial int_div_pos_eq)
    then show "batch_ranges N B = [(0, N)]" using lt
      by (simp add: batch_ranges_def batch_start_def current_batch_size_def)
  qed
  have c9: "B dvd N \<longrightarrow> (\<forall>(s, l) \<in> set (batch_ranges N B). l = B)"
  proof
    assume "B dvd N"
    then obtain q where q: "N = B * q" by (auto simp: dvd_def)
    have nbq: "?nb = q"
    proof -
      have "(?nb - 1) * B < q * B" "q * B \<le> ?nb * B"
        using nb_bounds[OF assms(2), of N] q by (simp_all add: mult.commute)
      then have "?nb - 1 < q" "q \<le> ?nb"
        using assms(2) by (simp_all add: mult_less_cancel_right mult_le_cancel_right)
      then show ?thesis by simp
    qed
    show "\<forall>(s, l) \<in> set (batch_ranges N B). l = B"
    proof (clarsimp simp: batch_ranges_set)
      fix k assume k: "0 \<le> k" "k < ?nb"
      show "current_batch_size N B k = B"
      proof (cases "k < ?nb - 1")
        case True
        then show ?thesis using cbs_full[OF assms(2) k(1)] by simp
      next
        case False
        then have ke: "k = ?nb - 1" using k by simp
        have "current_batch_size N B (?nb - 1) = N - (q - 1) * B"
          using cbs_last[OF assms(2), of N] nbq by simp
        also have "\<dots> = B" using q by (simp add: algebra_simps)
        finally show ?thesis using ke by simp
      qed
    qed
  qed
  show ?thesis using c1 c2 c3 c4 c5 c6 c7 c8 c9 by (intro conjI)
qed

section \<open>Loops of the pipelines\<close>

lemma lift_gen_cases:
  assumes "lift_gen m w = (r, w')"
  obtains g' where "m (gen_state w) = (r, g')" "w' = w\<lparr>gen_state := g'\<rparr>"
  using assms by (auto simp: lift_gen_def split: prod.splits)

lemma lift_gen_events: "lift_gen m w = (r, w') \<Longrightarrow> events w' = events w"
  by (auto elim: lift_gen_cases)

lemma write_table_cases:
  assumes "write_table E f rows w = (r, w')"
  obtains (ok) "r = Inr ()" "\<not> write_fails E f" "w' = w\<lparr>events := events w @ [Write f rows]\<rparr>"
        | (fail) "r = Inl OSError" "write_fails E f" "w' = w"
  using assms by (auto simp: write_table_def split: if_splits)

lemma makedirs_cases:
  assumes "makedirs E d w = (r, w')"
  obtains (ok) "r = Inr ()" "\<not> makedirs_fails E d" "w' = w\<lparr>events := events w @ [Mkdir d]\<rparr>"
        | (fail) "r = Inl OSError" "makedirs_fails E d" "w' = w"
  using assms by (auto simp: makedirs_def split: if_splits)

lemma rows_loop_Inr:
  assumes run: "rows_loop record s n g = (Inr rows, g')"
    and rec: "\<And>i g r g'. record i g = (Inr r, g') \<Longrightarrow> Q i r"
  shows "list_all2 Q (map (\<lambda>j. s + int j) [0..<nat n]) rows"
proof -
  let ?I = "\<lambda>k rs (t::rng). list_all2 Q (map (\<lambda>j. s + int j) [0..<k]) rs"
  show ?thesis
  proof (rule for_range_invariant[where I = ?I, OF run[unfolded rows_loop_def]])
    show "?I 0 [] g" by simp
  next
    fix i a t a' t'
    assume inv: "?I i a t"
      and step: "bind (record (s + int i)) (\<lambda>r. ret (a @ [r])) t = (Inr a', t')"
    from step obtain r where r: "record (s + int i) t = (Inr r, t')" and a': "a' = a @ [r]"
      by (auto elim!: bind_Inr_elim)
    have "Q (s + int i) r" using rec[OF r] .
    then show "?I (Suc i) a' t'" using inv a' by (simp add: list_all2_appendI)
  qed
qed

lemma batch_loop_nonzero:
  "batch_loop E dir stem wd fmt N B gb w = (Inr files, w') \<Longrightarrow> B \<noteq> 0"
  by (auto simp: batch_loop_def)

lemma batch_loop_zero:
  "batch_loop E dir stem wd fmt N 0 gb w = (Inl ZeroDivisionError, w)"
  by (simp add: batch_loop_def)

lemma batch_loop_Inr:
  assumes run: "batch_loop E dir stem wd fmt N B gb w = (Inr files, w')"
    and gb: "\<And>s n g rows g'. gb s n g = (Inr rows, g') \<Longrightarrow> R s n rows"
  shows "files = map (\<lambda>k. batch_filename dir stem wd fmt (int k)) [0..<nat (num_batches N B)]
    \<and> (\<exists>new. events w' = events w @ new
        \<and> list_all2 (\<lambda>k ev. \<exists>rows. ev = Write (batch_filename dir stem wd fmt (int k)) rows
              \<and> R (batch_start B (int k)) (current_batch_size N B (int k)) rows
              \<and> \<not> write_fails E (batch_filename dir stem wd fmt (int k)))
            [0..<nat (num_batches N B)] new)"
proof -
  let ?fn = "\<lambda>k. batch_filename dir stem wd fmt (int k)"
  let ?P = "\<lambda>k ev. \<exists>rows. ev = Write (?fn k) rows
              \<and> R (batch_start B (int k)) (current_batch_size N B (int k)) rows
              \<and> \<not> write_fails E (?fn k)"
  let ?I = "\<lambda>k fs t. fs = map ?fn [0..<k]
      \<and> (\<exists>new. events t = events w @ new \<and> list_all2 ?P [0..<k] new)"
  let ?body = "\<lambda>batch_num all_files.
           bind (lift_gen (gb (batch_start B batch_num) (current_batch_size N B batch_num)))
             (\<lambda>df_batch.
           bind (write_table E (batch_filename dir stem wd fmt batch_num) df_batch)
             (\<lambda>_. ret (all_files @ [batch_filename dir stem wd fmt batch_num])))"
  have nz: "B \<noteq> 0" using run by (rule batch_loop_nonzero)
  have loop: "for_range (nat (num_batches N B)) ?body [] w = (Inr files, w')"
    using run nz by (simp add: batch_loop_def)
  show ?thesis
  proof (rule for_range_invariant[where I = ?I, OF loop])
    show "?I 0 [] w" by simp
  next
    fix i a t a' t'
    assume inv: "?I i a t" and step: "?body (int i) a t = (Inr a', t')"
    from step obtain df t1 where
      g: "lift_gen (gb (batch_start B (int i)) (current_batch_size N B (int i))) t = (Inr df, t1)"
      and wr: "write_table E (?fn i) df t1 = (Inr (), t')"
      and a': "a' = a @ [?fn i]"
      by (auto elim!: bind_Inr_elim)
    from g have R: "R (batch_start B (int i)) (current_batch_size N B (int i)) df"
      by (auto elim!: lift_gen_cases intro: gb)
    have e1: "events t1 = events t" using g by (rule lift_gen_events)
    from wr have ok: "\<not> write_fails E (?fn i)" and e2: "events t' = events t1 @ [Write (?fn i) df]"
      by (auto elim!: write_table_cases)
    from inv obtain new where new: "events t = events w @ new" "list_all2 ?P [0..<i] new"
      by blast
    have "list_all2 ?P ([0..<i] @ [i]) (new @ [Write (?fn i) df])"
      using new(2) R ok by (intro list_all2_appendI) simp_all
    then have "\<exists>new'. events t' = events w @ new' \<and> list_all2 ?P [0..<Suc i] new'"
      using new(1) e1 e2 by (intro exI[of _ "new @ [Write (?fn i) df]"]) simp
    then show "?I (Suc i) a' t'" using inv a' by simp
  qed
qed

text \<open>Whatever the outcome, a batch loop only adds writes of its own batch files.\<close>

lemma batch_loop_events:
  assumes run: "batch_loop E dir stem wd fmt N B gb w = (r, w')"
  shows "\<exists>new. events w' = events w @ new
     \<and> (\<forall>ev \<in> set new. \<exists>k rows. ev = Write (batch_filename dir stem wd fmt k) rows)"
proof (cases "B = 0")
  case True
  then show ?thesis using run by (simp add: batch_loop_def)
next
  case False
  let ?P = "\<lambda>t. \<exists>new. events t = events w @ new
     \<and> (\<forall>ev \<in> set new. \<exists>k rows. ev = Write (batch_filename dir stem wd fmt k) rows)"
  let ?body = "\<lambda>batch_num all_files.
           bind (lift_gen (gb (batch_start B batch_num) (current_batch_size N B batch_num)))
             (\<lambda>df_batch.
           bind (write_table E (batch_filename dir stem wd fmt batch_num) df_batch)
             (\<lambda>_. ret (all_files @ [batch_filename dir stem wd fmt batch_num])))"
  have loop: "for_range (nat (num_batches N B)) ?body [] w = (r, w')"
    using run False by (simp add: batch_loop_def)
  show ?thesis
  proof (rule for_range_state[where P = ?P, OF loop])
    show "?P w" by simp
  next
    fix i a t r' t'
    assume P: "?P t" and step: "?body (int i) a t = (r', t')"
    from step show "?P t'"
    proof (cases rule: bind_cases)
      case (fail e)
      have "events t' = events t" using fail(1) by (rule lift_gen_events)
      then show ?thesis using P by simp
    next
      case (ok df t1)
      have e1: "events t1 = events t" using ok(1) by (rule lift_gen_events)
      from ok(2) show ?thesis
      proof (cases rule: bind_cases)
        case (fail e)
        have "events t' = events t1" using fail(1) by (auto elim!: write_table_cases)
        then show ?thesis using P e1 by simp
      next
        case (ok u t2)
        have "events t' = events t @ [Write (batch_filename dir stem wd fmt (int i)) df]"
          using ok e1 by (auto elim!: write_table_cases)
        then show ?thesis using P by auto
      qed
    qed
  qed
qed

section \<open>Library calls and records\<close>

lemma randint_Inr_elim:
  assumes "randint E a b g = (Inr n, g')"
  obtains "a \<le> n" "n \<le> b" "n = a + int (rand_raw E (rpos g)) mod (b - a + 1)"
    "g' = g\<lparr>rpos := rpos g + 1\<rparr>"
proof -
  from assms have ab: "a \<le> b" and n: "n = a + int (rand_raw E (rpos g)) mod (b - a + 1)"
    and g': "g' = g\<lparr>rpos := rpos g + 1\<rparr>"
    by (auto simp: randint_def split: if_splits)
  have "0 \<le> int (rand_raw E (rpos g)) mod (b - a + 1)"
    using ab by (intro pos_mod_sign) simp
  moreover have "int (rand_raw E (rpos g)) mod (b - a + 1) < b - a + 1"
    using ab by (intro pos_mod_bound) simp
  ultimately have "a \<le> n" "n \<le> b" using n by linarith+
  then show ?thesis using that n g' by blast
qed

lemma randint_succeeds: "a \<le> b \<Longrightarrow> \<exists>n g'. randint E a b g = (Inr n, g')"
  by (simp add: randint_def)

lemma choice_succeeds: "xs \<noteq> [] \<Longrightarrow> \<exists>x g'. choice E xs g = (Inr x, g')"
  by (simp add: choice_def)

lemma uniform_round_succeeds: "\<exists>v g'. uniform_round E d lo hi g = (Inr v, g')"
  by (simp add: uniform_round_def)

lemma fake_text_succeeds: "\<exists>v g'. fake_text E g = (Inr v, g')"
  by (simp add: fake_text_def)

lemma fake_succeeds: "\<exists>v g'. fake E g = (Inr v, g')"
  by (simp add: fake_def fmap_def bind_def fake_text_def)

lemma date_between_succeeds: "\<exists>v g'. date_between E a b g = (Inr v, g')"
  by (simp add: date_between_def)

lemma now_succeeds: "\<exists>v g'. now E g = (Inr v, g')"
  by (simp add: now_def)

lemma ret_succeeds: "\<exists>v g'. ret a g = (Inr v, g')"
  by simp

lemma bind_succeeds:
  assumes "\<exists>a s1. m s = (Inr a, s1)" and "\<And>a s1. \<exists>b s'. f a s1 = (Inr b, s')"
  shows "\<exists>b s'. bind m f s = (Inr b, s')"
proof -
  from assms(1) obtain a s1 where "m s = (Inr a, s1)" by blast
  then have "bind m f s = f a s1" by (rule bind_Inr)
  then show ?thesis using assms(2)[of a s1] by simp
qed

lemma fmap_succeeds:
  "\<exists>a s1. m s = (Inr a, s1) \<Longrightarrow> \<exists>b s'. fmap f m s = (Inr b, s')"
  unfolding fmap_def by (rule bind_succeeds) simp_all

lemma for_range_succeeds:
  assumes "\<And>i a t. i < n \<Longrightarrow> \<exists>a' t'. body (int i) a t = (Inr a', t')"
  shows "\<exists>acc' s'. for_range n body acc s = (Inr acc', s')"
  using assms
proof (induction n)
  case 0
  show ?case by simp
next
  case (Suc n)
  have "\<exists>a t. for_range n body acc s = (Inr a, t)" using Suc by simp
  then obtain a t where a: "for_range n body acc s = (Inr a, t)" by blast
  obtain a' t' where "body (int n) a t = (Inr a', t')" using Suc.prems[of n a t] by auto
  then show ?case using a by (simp add: bind_Inr)
qed

lemma dict_literal_succeeds:
  assumes "\<And>k m g. (k, m) \<in> set kvs \<Longrightarrow> \<exists>v g'. m g = (Inr v, g')"
  shows "\<exists>row g'. dict_literal kvs g = (Inr row, g')"
  using assms
proof (induction kvs arbitrary: g)
  case Nil
  show ?case by simp
next
  case (Cons kv kvs)
  obtain v g1 where v: "snd kv g = (Inr v, g1)"
    using Cons.prems[of "fst kv" "snd kv" g] by auto
  have "\<And>k m g. (k, m) \<in> set kvs \<Longrightarrow> \<exists>v g'. m g = (Inr v, g')"
    using Cons.prems by (meson list.set_intros(2))
  then have "\<exists>rest g2. dict_literal kvs g1 = (Inr rest, g2)" by (rule Cons.IH)
  then obtain rest g2 where r: "dict_literal kvs g1 = (Inr rest, g2)" by blast
  show ?case using v r by (simp add: bind_Inr)
qed

lemma dict_literal_Cons_elim:
  assumes "dict_literal ((k, m) # kvs) g = (Inr row, g')"
  obtains v g1 rest where "m g = (Inr v, g1)" "dict_literal kvs g1 = (Inr rest, g')"
    "row = (k, v) # rest"
  using assms by (auto elim!: bind_Inr_elim)

lemma dict_literal_head:
  assumes "dict_literal ((k, ret v) # kvs) g = (Inr row, g')"
  shows "map_of row k = Some v"
  using assms by (auto elim!: bind_Inr_elim)

lemma rows_loop_succeeds:
  assumes "\<And>i g. \<exists>r g'. record i g = (Inr r, g')"
  shows "\<exists>rows g'. rows_loop record s n g = (Inr rows, g')"
  unfolding rows_loop_def
  by (rule for_range_succeeds, rule bind_succeeds, rule assms) simp

lemma lift_gen_succeeds:
  "\<exists>a g'. m (gen_state w) = (Inr a, g') \<Longrightarrow> \<exists>a w'. lift_gen m w = (Inr a, w')"
  by (auto simp: lift_gen_def)

lemma batch_loop_succeeds:
  assumes "B \<noteq> 0"
    and "\<And>k. \<not> write_fails E (batch_filename dir stem wd fmt k)"
    and "\<And>s n g. \<exists>rows g'. gb s n g = (Inr rows, g')"
  shows "\<exists>files w'. batch_loop E dir stem wd fmt N B gb w = (Inr files, w')"
proof -
  have "\<exists>files w'. for_range (nat (num_batches N B))
        (\<lambda>batch_num all_files.
           bind (lift_gen (gb (batch_start B batch_num) (current_batch_size N B batch_num)))
             (\<lambda>df_batch.
           bind (write_table E (batch_filename dir stem wd fmt batch_num) df_batch)
             (\<lambda>_. ret (all_files @ [batch_filename dir stem wd fmt batch_num]))))
        [] w = (Inr files, w')"
  proof (rule for_range_succeeds, rule bind_succeeds)
    fix i a t
    show "\<exists>df t1. lift_gen (gb (batch_start B (int i)) (current_batch_size N B (int i))) t
        = (Inr df, t1)"
      by (rule lift_gen_succeeds) (rule assms(3))
  next
    fix i and a :: "string list" and df t1
    show "\<exists>b s'. bind (write_table E (batch_filename dir stem wd fmt (int i)) df)
                (\<lambda>_. ret (a @ [batch_filename dir stem wd fmt (int i)])) t1 = (Inr b, s')"
      by (rule bind_succeeds) (simp_all add: write_table_def assms(2))
  qed
  then show ?thesis using assms(1) by (simp add: batch_loop_def)
qed

subsection \<open>Identifiers of the generated records\<close>

lemma customer_record_id:
  "customer_record E cfg i g = (Inr r, g') \<Longrightarrow>
   map_of r ''customer_id'' = Some (Str (''CUST'' @ fmt_d 8 i))"
  unfolding customer_record_def by (auto elim!: bind_Inr_elim dest: dict_literal_head)

lemma customer_record_legacy_id:
  "customer_record_legacy E cfg i g = (Inr r, g') \<Longrightarrow>
   map_of r ''customer_id'' = Some (Str (''CUST'' @ fmt_d 6 i))"
  unfolding customer_record_legacy_def by (auto elim!: bind_Inr_elim dest: dict_literal_head)

lemma product_record_id:
  "product_record E cfg i g = (Inr r, g') \<Longrightarrow>
   map_of r ''product_id'' = Some (Str (''PROD'' @ fmt_d 8 i))"
  unfolding product_record_def by (rule dict_literal_head)

lemma product_record_legacy_id:
  "product_record_legacy E cfg i g = (Inr r, g') \<Longrightarrow>
   map_of r ''product_id'' = Some (Str (''PROD'' @ fmt_d 6 i))"
  unfolding product_record_legacy_def by (rule dict_literal_head)

lemma sales_rep_record_id:
  "sales_rep_record E cfg i g = (Inr r, g') \<Longrightarrow>
   map_of r ''sales_rep_id'' = Some (Str (''SREP'' @ fmt_d 8 i))"
  unfolding sales_rep_record_def by (rule dict_literal_head)

lemma sales_rep_record_legacy_id:
  "sales_rep_record_legacy E cfg i g = (Inr r, g') \<Longrightarrow>
   map_of r ''sales_rep_id'' = Some (Str (''SREP'' @ fmt_d 4 (i + 1)))"
  unfolding sales_rep_record_legacy_def by (rule dict_literal_head)

lemma transaction_record_id:
  "transaction_record E cfg st nd i g = (Inr r, g') \<Longrightarrow>
   map_of r ''transaction_id'' = Some (Str (''TXN'' @ fmt_d 12 i))"
  unfolding transaction_record_def by (auto elim!: bind_Inr_elim dest: dict_literal_head)

lemma transaction_record_legacy_id:
  "transaction_record_legacy E cfg st nd i g = (Inr r, g') \<Longrightarrow>
   map_of r ''transaction_id'' = Some (Str (''TXN'' @ fmt_d 9 i))"
  unfolding transaction_record_legacy_def by (auto elim!: bind_Inr_elim dest: dict_literal_head)

subsection \<open>When a record is produced\<close>

lemma customer_record_succeeds:
  assumes "CUSTOMER_SEGMENTS cfg \<noteq> []" "REGIONS cfg \<noteq> []" "COUNTRIES cfg \<noteq> []"
  shows "\<exists>r g'. customer_record E cfg i g = (Inr r, g')"
  unfolding customer_record_def
  by (rule bind_succeeds, rule date_between_succeeds, rule dict_literal_succeeds)
     (auto intro!: fake_succeeds fmap_succeeds choice_succeeds uniform_round_succeeds
        now_succeeds simp: assms)

lemma customer_record_legacy_succeeds:
  assumes "CUSTOMER_SEGMENTS cfg \<noteq> []" "REGIONS cfg \<noteq> []" "COUNTRIES cfg \<noteq> []"
  shows "\<exists>r g'. customer_record_legacy E cfg i g = (Inr r, g')"
  unfolding customer_record_legacy_def
  by (rule bind_succeeds, rule date_between_succeeds, rule dict_literal_succeeds)
     (auto intro!: fake_succeeds fmap_succeeds choice_succeeds uniform_round_succeeds
        now_succeeds simp: assms)

lemma product_name_succeeds:
  "\<exists>v g'. bind (fake_text E) (\<lambda>a. bind (fake_text E) (\<lambda>b. ret (F a b))) g = (Inr v, g')"
  by (simp add: bind_def fake_text_def)

lemma product_record_succeeds:
  assumes "PRODUCT_CATEGORIES cfg \<noteq> []"
  shows "\<exists>r g'. product_record E cfg i g = (Inr r, g')"
  unfolding product_record_def
  by (rule dict_literal_succeeds)
     (auto intro!: fake_succeeds fmap_succeeds choice_succeeds uniform_round_succeeds
        now_succeeds randint_succeeds product_name_succeeds simp: assms)

lemma product_record_legacy_succeeds:
  assumes "PRODUCT_CATEGORIES cfg \<noteq> []"
  shows "\<exists>r g'. product_record_legacy E cfg i g = (Inr r, g')"
  unfolding product_record_legacy_def
  by (rule dict_literal_succeeds)
     (auto intro!: fake_succeeds fmap_succeeds choice_succeeds uniform_round_succeeds
        now_succeeds randint_succeeds product_name_succeeds simp: assms)

lemma sales_rep_record_succeeds:
  assumes "REGIONS cfg \<noteq> []"
  shows "\<exists>r g'. sales_rep_record E cfg i g = (Inr r, g')"
  unfolding sales_rep_record_def
  by (rule dict_literal_succeeds)
     (auto intro!: fake_succeeds fmap_succeeds choice_succeeds uniform_round_succeeds
        now_succeeds date_between_succeeds simp: assms)

lemma sales_rep_record_legacy_succeeds:
  assumes "REGIONS cfg \<noteq> []"
  shows "\<exists>r g'. sales_rep_record_legacy E cfg i g = (Inr r, g')"
  unfolding sales_rep_record_legacy_def
  by (rule dict_literal_succeeds)
     (auto intro!: fake_succeeds fmap_succeeds choice_succeeds uniform_round_succeeds
        now_succeeds date_between_succeeds simp: assms)

lemma transaction_record_succeeds:
  assumes "REGIONS cfg \<noteq> []" "0 \<le> nd" "0 < NUM_CUSTOMERS cfg" "0 < NUM_PRODUCTS cfg"
    "0 < NUM_SALES_REPS cfg"
  shows "\<exists>r g'. transaction_record E cfg st nd i g = (Inr r, g')"
  unfolding transaction_record_def
  by (rule bind_succeeds, rule randint_succeeds, rule assms, rule dict_literal_succeeds)
     (auto intro!: fmap_succeeds choice_succeeds uniform_round_succeeds
        now_succeeds randint_succeeds simp: assms)

lemma transaction_record_legacy_succeeds:
  assumes "REGIONS cfg \<noteq> []" "0 \<le> nd" "0 < NUM_CUSTOMERS cfg" "0 < NUM_PRODUCTS cfg"
    "0 < NUM_SALES_REPS cfg"
  shows "\<exists>r g'. transaction_record_legacy E cfg st nd i g = (Inr r, g')"
proof -
  have "1 \<le> NUM_SALES_REPS cfg" using assms(5) by simp
  then show ?thesis
    unfolding transaction_record_legacy_def
    by (intro bind_succeeds randint_succeeds assms dict_literal_succeeds)
       (auto intro!: fmap_succeeds choice_succeeds uniform_round_succeeds
          now_succeeds randint_succeeds simp: assms)
qed

section \<open>What a pipeline writes\<close>

lemma map_upt_upto: "map (\<lambda>j. s + int j) [0..<n] = [s..s + int n - 1]"
proof (induction n)
  case 0
  show ?case by simp
next
  case (Suc n)
  have "[s..s + int (Suc n) - 1] = [s..s + int n - 1] @ [s + int n]"
    using upto_rec2[of s "s + int n"] by simp
  then show ?case using Suc by simp
qed

lemma map_upt_upto_nat: "map (\<lambda>j. s + int j) [0..<nat n] = [s..s + n - 1]"
proof (cases "0 \<le> n")
  case True
  then show ?thesis using map_upt_upto[of s "nat n"] by simp
next
  case False
  then show ?thesis by simp
qed

lemma ranges_concat_prefix:
  assumes B: "0 < B" and m: "m \<le> nat (num_batches N B)"
  shows "concat (map (\<lambda>k. [batch_start B (int k) ..
            batch_start B (int k) + current_batch_size N B (int k) - 1]) [0..<m])
       = [0 .. min N (int m * B) - 1]"
  using m
proof (induction m)
  case 0
  show ?case by simp
next
  case (Suc m)
  have lt: "int m < num_batches N B" using Suc.prems by linarith
  then have "int m \<le> num_batches N B - 1" by simp
  then have "int m * B \<le> (num_batches N B - 1) * B" using B by (simp only: mult_right_mono)
  then have mB: "int m * B < N" using nb_bounds(1)[OF B, of N] by simp
  have e: "batch_start B (int m) + current_batch_size N B (int m) = min N (int (Suc m) * B)"
    using cbs_end[OF B _ lt] by (simp add: batch_start_def algebra_simps)
  have pos: "int m * B < min N (int (Suc m) * B)" using mB B by (simp add: algebra_simps)
  have "concat (map (\<lambda>k. [batch_start B (int k) ..
            batch_start B (int k) + current_batch_size N B (int k) - 1]) [0..<Suc m])
      = [0 .. min N (int m * B) - 1] @ [int m * B .. min N (int (Suc m) * B) - 1]"
    using Suc e by (simp add: batch_start_def)
  also have "\<dots> = [0 .. int m * B - 1] @ [int m * B .. min N (int (Suc m) * B) - 1]"
    using mB by simp
  also have "\<dots> = [0 .. min N (int (Suc m) * B) - 1]"
    using upto_split1[of 0 "int m * B" "min N (int (Suc m) * B) - 1"] pos B by simp
  finally show ?case .
qed

lemma ranges_concat:
  assumes B: "0 < B"
  shows "concat (map (\<lambda>k. [batch_start B (int k) ..
            batch_start B (int k) + current_batch_size N B (int k) - 1])
          [0..<nat (num_batches N B)])
       = [0 .. N - 1]"
proof (cases "0 < num_batches N B")
  case True
  have "N \<le> num_batches N B * B" using nb_bounds(2)[OF B] .
  then have "min N (int (nat (num_batches N B)) * B) = N" using True by simp
  then show ?thesis using ranges_concat_prefix[OF B order_refl, of N] by simp
next
  case False
  then have nb: "num_batches N B \<le> 0" by simp
  have "N \<le> num_batches N B * B" using nb_bounds(2)[OF B] .
  moreover have "num_batches N B * B \<le> 0" using nb B by (simp add: mult_le_0_iff)
  ultimately have "N \<le> 0" by simp
  then show ?thesis using nb by simp
qed

lemma list_all2_map_eq: "list_all2 (\<lambda>x y. f x = g y) xs ys \<Longrightarrow> map f xs = map g ys"
  by (induction rule: list_all2_induct) simp_all

lemma rows_loop_column:
  assumes run: "rows_loop record s n g = (Inr rows, g')"
    and rec: "\<And>i g r g'. record i g = (Inr r, g') \<Longrightarrow> map_of r key = Some (f i)"
  shows "column key rows = map (\<lambda>i. Some (f i)) [s..s + n - 1]"
proof -
  have "list_all2 (\<lambda>i r. map_of r key = Some (f i)) (map (\<lambda>j. s + int j) [0..<nat n]) rows"
    using run rec by (rule rows_loop_Inr)
  then have "list_all2 (\<lambda>i r. Some (f i) = map_of r key) [s..s + n - 1] rows"
    by (simp only: map_upt_upto_nat eq_commute)
  then have "map (\<lambda>i. Some (f i)) [s..s + n - 1] = map (\<lambda>r. map_of r key) rows"
    by (rule list_all2_map_eq)
  then show ?thesis by (simp add: column_def)
qed

lemma rows_loop_length:
  assumes run: "rows_loop record s n g = (Inr rows, g')"
  shows "length rows = nat n"
proof -
  have "list_all2 (\<lambda>i r. True) (map (\<lambda>j. s + int j) [0..<nat n]) rows"
    using run by (rule rows_loop_Inr) simp
  then show ?thesis by (auto dest: list_all2_lengthD)
qed

lemma written_append [simp]: "written (xs @ ys) = written xs @ written ys"
  by (induction xs rule: written.induct) simp_all

lemma written_rows_append [simp]: "written_rows (xs @ ys) = written_rows xs @ written_rows ys"
  by (simp add: written_rows_def)

lemma column_append [simp]: "column key (xs @ ys) = column key xs @ column key ys"
  by (simp add: column_def)

lemma new_events_append: "events w' = events w @ new \<Longrightarrow> new_events w w' = new"
  by (simp add: new_events_def)

lemma writes_column:
  assumes "list_all2 (\<lambda>k ev. \<exists>rows. ev = Write (fn k) rows
      \<and> (column key rows = map f (rg k) \<and> length rows = len k) \<and> X k) ks new"
  shows "column key (written_rows new) = map f (concat (map rg ks))
     \<and> map fst (written new) = map fn ks
     \<and> map (\<lambda>t. length (snd t)) (written new) = map len ks
     \<and> map (\<lambda>t. column key (snd t)) (written new) = map (\<lambda>k. map f (rg k)) ks"
  using assms
proof (induction rule: list_all2_induct)
  case Nil
  show ?case by (simp add: written_rows_def column_def)
next
  case (Cons k ks ev new)
  then obtain rows where "ev = Write (fn k) rows" "column key rows = map f (rg k)"
    "length rows = len k" by blast
  then show ?case using Cons.IH by (simp add: written_rows_def column_def)
qed

text \<open>A batch loop that ends normally has written, batch after batch, the identifiers
  of the positions \<open>0 .. N - 1\<close> in order.\<close>

lemma batch_loop_column:
  assumes run: "batch_loop E dir stem wd fmt N B (rows_loop record) w = (Inr files, w')"
    and B: "0 < B"
    and rec: "\<forall>i g r g'. record i g = (Inr r, g') \<longrightarrow> map_of r key = Some (f i)"
  shows "column key (written_rows (new_events w w')) = map (\<lambda>i. Some (f i)) [0..N - 1]
     \<and> map fst (written (new_events w w'))
         = map (\<lambda>k. batch_filename dir stem wd fmt (int k)) [0..<nat (num_batches N B)]
     \<and> map (\<lambda>t. int (length (snd t))) (written (new_events w w'))
         = map snd (batch_ranges N B)
     \<and> map (\<lambda>t. column key (snd t)) (written (new_events w w'))
         = map (\<lambda>(s, n). map (\<lambda>i. Some (f i)) [s..s + n - 1]) (batch_ranges N B)
     \<and> files = map fst (written (new_events w w'))
     \<and> (\<forall>ev \<in> set (new_events w w'). \<exists>k rows. ev = Write (batch_filename dir stem wd fmt k) rows)"
proof -
  let ?R = "\<lambda>s n rows. column key rows = map (\<lambda>i. Some (f i)) [s..s + n - 1]
              \<and> length rows = nat n"
  have R: "?R s n rows" if r: "rows_loop record s n g = (Inr rows, g')" for s n g rows g'
  proof
    show "column key rows = map (\<lambda>i. Some (f i)) [s..s + n - 1]"
      using r by (rule rows_loop_column) (simp add: rec)
    show "length rows = nat n" using r by (rule rows_loop_length)
  qed
  have "files = map (\<lambda>k. batch_filename dir stem wd fmt (int k)) [0..<nat (num_batches N B)]
    \<and> (\<exists>new. events w' = events w @ new
        \<and> list_all2 (\<lambda>k ev. \<exists>rows. ev = Write (batch_filename dir stem wd fmt (int k)) rows
              \<and> ?R (batch_start B (int k)) (current_batch_size N B (int k)) rows
              \<and> \<not> write_fails E (batch_filename dir stem wd fmt (int k)))
            [0..<nat (num_batches N B)] new)"
  proof (rule batch_loop_Inr[where R = ?R, OF run])
    fix s n g rows g' assume "rows_loop record s n g = (Inr rows, g')"
    then show "?R s n rows" by (rule R)
  qed
  then obtain new where files: "files = map (\<lambda>k. batch_filename dir stem wd fmt (int k))
        [0..<nat (num_batches N B)]"
    and ev: "events w' = events w @ new"
    and all: "list_all2 (\<lambda>k ev. \<exists>rows. ev = Write (batch_filename dir stem wd fmt (int k)) rows
              \<and> ?R (batch_start B (int k)) (current_batch_size N B (int k)) rows
              \<and> \<not> write_fails E (batch_filename dir stem wd fmt (int k)))
            [0..<nat (num_batches N B)] new"
    by blast
  have ne: "new_events w w' = new" using ev by (rule new_events_append)
  from writes_column[OF all]
  have c: "column key (written_rows new) = map (\<lambda>i. Some (f i))
        (concat (map (\<lambda>k. [batch_start B (int k) ..
            batch_start B (int k) + current_batch_size N B (int k) - 1])
          [0..<nat (num_batches N B)]))"
    and n: "map fst (written new) = map (\<lambda>k. batch_filename dir stem wd fmt (int k))
        [0..<nat (num_batches N B)]"
    and l: "map (\<lambda>t. length (snd t)) (written new)
        = map (\<lambda>k. nat (current_batch_size N B (int k))) [0..<nat (num_batches N B)]"
    and pc: "map (\<lambda>t. column key (snd t)) (written new)
        = map (\<lambda>k. map (\<lambda>i. Some (f i)) [batch_start B (int k) ..
            batch_start B (int k) + current_batch_size N B (int k) - 1])
          [0..<nat (num_batches N B)]"
    by blast+
  have pc': "map (\<lambda>t. column key (snd t)) (written new)
         = map (\<lambda>(s, n). map (\<lambda>i. Some (f i)) [s..s + n - 1]) (batch_ranges N B)"
    by (simp add: pc batch_ranges_def comp_def)
  have pos: "0 \<le> current_batch_size N B (int k)" if "k < nat (num_batches N B)" for k
  proof -
    have "int k < num_batches N B" using that by simp
    then have "0 < current_batch_size N B (int k)" using cbs_pos(1)[OF B, of "int k" N] by simp
    then show ?thesis by simp
  qed
  have "map (\<lambda>t. int (length (snd t))) (written new)
      = map int (map (\<lambda>t. length (snd t)) (written new))" by simp
  also have "\<dots> = map (\<lambda>k. current_batch_size N B (int k)) [0..<nat (num_batches N B)]"
    using pos by (simp add: l)
  also have "\<dots> = map snd (batch_ranges N B)" by (simp add: batch_ranges_def comp_def)
  finally have l': "map (\<lambda>t. int (length (snd t))) (written new) = map snd (batch_ranges N B)" .
  have w: "\<forall>ev \<in> set new. \<exists>k rows. ev = Write (batch_filename dir stem wd fmt k) rows"
    using all by (auto simp: list_all2_conv_all_nth in_set_conv_nth) blast
  show ?thesis using c n l' pc' files w by (simp add: ne ranges_concat[OF B])
qed

lemma ids_distinct: "distinct (map (\<lambda>i. Some (Str (pfx @ fmt_d wd (i + c)))) [0..n])" if "0 \<le> c"
proof -
  have "inj_on (\<lambda>i. Some (Str (pfx @ fmt_d wd (i + c)))) (set [0..n])"
  proof (rule inj_onI)
    fix x y assume x: "x \<in> set [0..n]" and y: "y \<in> set [0..n]"
      and eq: "Some (Str (pfx @ fmt_d wd (x + c))) = Some (Str (pfx @ fmt_d wd (y + c)))"
    have "0 \<le> x + c" "0 \<le> y + c" using x y that by simp_all
    then have "x + c = y + c" using eq by (auto dest: fmt_d_inj)
    then show "x = y" by simp
  qed
  then show ?thesis by (simp add: distinct_map)
qed

section \<open>The pipelines\<close>

lemma generate_customer_batch_eq: "generate_customer_batch E cfg = rows_loop (customer_record E cfg)"
  by (intro ext) (simp add: generate_customer_batch_def)

lemma generate_customer_batch_legacy_eq:
  "generate_customer_batch_legacy E cfg = rows_loop (customer_record_legacy E cfg)"
  by (intro ext) (simp add: generate_customer_batch_legacy_def)

lemma only_writes:
  "\<forall>ev \<in> set evs. \<exists>f rows. ev = Write f rows \<Longrightarrow>
   map (\<lambda>t. Write (fst t) (snd t)) (written evs) = evs"
  by (induction evs rule: written.induct) auto

text \<open>A batched pipeline is \<open>makedirs\<close>, possibly some steps that leave the world
  alone, and the batch loop.\<close>

lemma pipeline_Inr:
  assumes run: "bind (makedirs E dir) (\<lambda>_. batch_loop E dir stem wd fmt N B (rows_loop record)) w
      = (Inr files, w')"
    and B: "0 < B"
    and rec: "\<forall>i g r g'. record i g = (Inr r, g') \<longrightarrow> map_of r key = Some (f i)"
  shows "column key (written_rows (new_events w w')) = map (\<lambda>i. Some (f i)) [0..N - 1]
     \<and> map fst (written (new_events w w'))
         = map (\<lambda>k. batch_filename dir stem wd fmt (int k)) [0..<nat (num_batches N B)]
     \<and> map (\<lambda>t. int (length (snd t))) (written (new_events w w')) = map snd (batch_ranges N B)
     \<and> map (\<lambda>t. column key (snd t)) (written (new_events w w'))
         = map (\<lambda>(s, n). map (\<lambda>i. Some (f i)) [s..s + n - 1]) (batch_ranges N B)
     \<and> files = map fst (written (new_events w w'))
     \<and> new_events w w' = Mkdir dir # map (\<lambda>t. Write (fst t) (snd t)) (written (new_events w w'))"
proof -
  from run obtain w1 where m: "makedirs E dir w = (Inr (), w1)"
    and l: "batch_loop E dir stem wd fmt N B (rows_loop record) w1 = (Inr files, w')"
    by (auto elim!: bind_Inr_elim)
  from m have e1: "events w1 = events w @ [Mkdir dir]" by (auto elim!: makedirs_cases)
  from batch_loop_events[OF l] obtain new where e2: "events w' = events w1 @ new" by blast
  have n1: "new_events w1 w' = new" using e2 by (rule new_events_append)
  have n2: "new_events w w' = Mkdir dir # new" using e1 e2 by (simp add: new_events_def)
  note blc = batch_loop_column[where f = f and key = key, OF l B rec, unfolded n1]
  have "\<forall>ev \<in> set new. \<exists>f rows. ev = Write f rows" using blc by blast
  then have "map (\<lambda>t. Write (fst t) (snd t)) (written new) = new" by (rule only_writes)
  then show ?thesis using blc by (simp add: n2 written_rows_def)
qed

lemma parse_date_cases:
  assumes "parse_date E s w = (r, w')"
  obtains (ok) d where "strptime E s = Some d" "r = Inr d" "w' = w"
        | (fail) "strptime E s = None" "r = Inl ValueError" "w' = w"
  using assms by (auto simp: parse_date_def split: option.splits)

lemma transactions_pipeline_Inr:
  assumes run: "bind (makedirs E dir) (\<lambda>_.
       bind (parse_date E sd) (\<lambda>start. bind (parse_date E ed) (\<lambda>end.
         batch_loop E dir stem wd fmt N B (rows_loop (record start (end - start)))))) w
      = (Inr files, w')"
    and B: "0 < B"
    and rec: "\<forall>st nd i g r g'. record st nd i g = (Inr r, g') \<longrightarrow> map_of r key = Some (f i)"
  shows "column key (written_rows (new_events w w')) = map (\<lambda>i. Some (f i)) [0..N - 1]
     \<and> map fst (written (new_events w w'))
         = map (\<lambda>k. batch_filename dir stem wd fmt (int k)) [0..<nat (num_batches N B)]
     \<and> map (\<lambda>t. int (length (snd t))) (written (new_events w w')) = map snd (batch_ranges N B)
     \<and> map (\<lambda>t. column key (snd t)) (written (new_events w w'))
         = map (\<lambda>(s, n). map (\<lambda>i. Some (f i)) [s..s + n - 1]) (batch_ranges N B)
     \<and> files = map fst (written (new_events w w'))
     \<and> new_events w w' = Mkdir dir # map (\<lambda>t. Write (fst t) (snd t)) (written (new_events w w'))"
proof -
  from run obtain w1 st en where m: "makedirs E dir w = (Inr (), w1)"
    and l: "batch_loop E dir stem wd fmt N B (rows_loop (record st (en - st))) w1 = (Inr files, w')"
    by (auto elim!: bind_Inr_elim parse_date_cases)
  from m have e1: "events w1 = events w @ [Mkdir dir]" by (auto elim!: makedirs_cases)
  from batch_loop_events[OF l] obtain new where e2: "events w' = events w1 @ new" by blast
  have n1: "new_events w1 w' = new" using e2 by (rule new_events_append)
  have n2: "new_events w w' = Mkdir dir # new" using e1 e2 by (simp add: new_events_def)
  have "\<forall>i g r g'. record st (en - st) i g = (Inr r, g') \<longrightarrow> map_of r key = Some (f i)"
    using rec by blast
  note blc = batch_loop_column[where f = f and key = key, OF l B this, unfolded n1]
  have "\<forall>ev \<in> set new. \<exists>f rows. ev = Write f rows" using blc by blast
  then have "map (\<lambda>t. Write (fst t) (snd t)) (written new) = new" by (rule only_writes)
  then show ?thesis using blc by (simp add: n2 written_rows_def)
qed

lemma sales_reps_legacy_Inr:
  assumes run: "generate_sales_reps_legacy E cfg w = (Inr u, w')"
  shows "\<exists>df. new_events w w' = [Mkdir ''generated-data/sales-reps'',
            Write (sales_reps_filename (OUTPUT_FORMAT cfg)) df]
     \<and> column ''sales_rep_id'' df
        = map (\<lambda>i. Some (Str (''SREP'' @ fmt_d 4 (i + 1)))) [0..NUM_SALES_REPS cfg - 1]"
proof -
  from run obtain w1 w2 df where m: "makedirs E ''generated-data/sales-reps'' w = (Inr (), w1)"
    and g: "lift_gen (rows_loop (sales_rep_record_legacy E cfg) 0 (NUM_SALES_REPS cfg)) w1
        = (Inr df, w2)"
    and wr: "write_table E (sales_reps_filename (OUTPUT_FORMAT cfg)) df w2 = (Inr u, w')"
    unfolding generate_sales_reps_legacy_def by (auto elim!: bind_Inr_elim)
  from m have e1: "events w1 = events w @ [Mkdir ''generated-data/sales-reps'']"
    by (auto elim!: makedirs_cases)
  have e2: "events w2 = events w1" using g by (rule lift_gen_events)
  from wr have e3: "events w' = events w2 @ [Write (sales_reps_filename (OUTPUT_FORMAT cfg)) df]"
    by (auto elim!: write_table_cases)
  from g obtain g1 g2 where
    "rows_loop (sales_rep_record_legacy E cfg) 0 (NUM_SALES_REPS cfg) g1 = (Inr df, g2)"
    by (auto elim!: lift_gen_cases)
  then have "column ''sales_rep_id'' df
        = map (\<lambda>i. Some (Str (''SREP'' @ fmt_d 4 (i + 1)))) [0..0 + NUM_SALES_REPS cfg - 1]"
    by (rule rows_loop_column) (rule sales_rep_record_legacy_id)
  then show ?thesis using e1 e2 e3 by (simp add: new_events_def)
qed

subsection \<open>When a pipeline runs to its end\<close>

lemma pipeline_succeeds:
  assumes "\<not> makedirs_fails E dir" "B \<noteq> 0"
    and "\<And>k. \<not> write_fails E (batch_filename dir stem wd fmt k)"
    and "\<And>i g. \<exists>r g'. record i g = (Inr r, g')"
  shows "\<exists>files w'. bind (makedirs E dir)
      (\<lambda>_. batch_loop E dir stem wd fmt N B (rows_loop record)) w = (Inr files, w')"
proof (rule bind_succeeds)
  show "\<exists>a s1. makedirs E dir w = (Inr a, s1)" using assms(1) by (simp add: makedirs_def)
next
  fix a s1
  show "\<exists>b s'. batch_loop E dir stem wd fmt N B (rows_loop record) s1 = (Inr b, s')"
    using assms(2) assms(3) by (rule batch_loop_succeeds) (rule rows_loop_succeeds, rule assms(4))
qed

lemma generate_all_customers_succeeds:
  assumes "\<not> makedirs_fails E ''generated-data/customers''" "CUSTOMER_BATCH_SIZE cfg \<noteq> 0"
    and "\<And>f. \<not> write_fails E f"
    and "CUSTOMER_SEGMENTS cfg \<noteq> []" "REGIONS cfg \<noteq> []" "COUNTRIES cfg \<noteq> []"
  shows "\<exists>files w'. generate_all_customers E cfg w = (Inr files, w')"
  unfolding generate_all_customers_def generate_customer_batch_eq
  using assms by (intro pipeline_succeeds customer_record_succeeds)

lemma generate_all_customers_legacy_succeeds:
  assumes "\<not> makedirs_fails E ''generated-data/customers''" "CUSTOMER_BATCH_SIZE cfg \<noteq> 0"
    and "\<And>f. \<not> write_fails E f"
    and "CUSTOMER_SEGMENTS cfg \<noteq> []" "REGIONS cfg \<noteq> []" "COUNTRIES cfg \<noteq> []"
  shows "\<exists>files w'. generate_all_customers_legacy E cfg w = (Inr files, w')"
  unfolding generate_all_customers_legacy_def generate_customer_batch_legacy_eq
  using assms by (intro pipeline_succeeds customer_record_legacy_succeeds)

lemma generate_products_succeeds:
  assumes "\<not> makedirs_fails E ''generated-data/products''" "PRODUCT_BATCH_SIZE cfg \<noteq> 0"
    and "\<And>f. \<not> write_fails E f"
    and "PRODUCT_CATEGORIES cfg \<noteq> []"
  shows "\<exists>files w'. generate_products E cfg w = (Inr files, w')"
  unfolding generate_products_def
  using assms by (intro pipeline_succeeds product_record_succeeds)

lemma generate_products_legacy_succeeds:
  assumes "\<not> makedirs_fails E ''generated-data/products''" "PRODUCT_BATCH_SIZE cfg \<noteq> 0"
    and "\<And>f. \<not> write_fails E f"
    and "PRODUCT_CATEGORIES cfg \<noteq> []"
  shows "\<exists>files w'. generate_products_legacy E cfg w = (Inr files, w')"
  unfolding generate_products_legacy_def
  using assms by (intro pipeline_succeeds product_record_legacy_succeeds)

lemma generate_sales_reps_succeeds:
  assumes "\<not> makedirs_fails E ''generated-data/sales-reps''" "PRODUCT_BATCH_SIZE cfg \<noteq> 0"
    and "\<And>f. \<not> write_fails E f"
    and "REGIONS cfg \<noteq> []"
  shows "\<exists>files w'. generate_sales_reps E cfg w = (Inr files, w')"
  unfolding generate_sales_reps_def
  using assms by (intro pipeline_succeeds sales_rep_record_succeeds)

lemma generate_sales_reps_legacy_succeeds:
  assumes "\<not> makedirs_fails E ''generated-data/sales-reps''"
    and "\<And>f. \<not> write_fails E f"
    and "REGIONS cfg \<noteq> []"
  shows "\<exists>u w'. generate_sales_reps_legacy E cfg w = (Inr u, w')"
  unfolding generate_sales_reps_legacy_def
proof (intro bind_succeeds)
  show "\<exists>a s1. makedirs E ''generated-data/sales-reps'' w = (Inr a, s1)"
    using assms(1) by (simp add: makedirs_def)
next
  fix a :: unit and s1
  show "\<exists>a s1a. lift_gen (rows_loop (sales_rep_record_legacy E cfg) 0 (NUM_SALES_REPS cfg)) s1
      = (Inr a, s1a)"
    using assms(3) by (intro lift_gen_succeeds rows_loop_succeeds sales_rep_record_legacy_succeeds)
next
  fix a :: unit and s1 aa s1a
  show "\<exists>b s'. write_table E (sales_reps_filename (OUTPUT_FORMAT cfg)) aa s1a = (Inr b, s')"
    using assms(2) by (simp add: write_table_def)
qed

lemma transactions_pipeline_succeeds:
  assumes "\<not> makedirs_fails E dir" "B \<noteq> 0"
    and "\<And>k. \<not> write_fails E (batch_filename dir stem wd fmt k)"
    and "strptime E sd = Some a" "strptime E ed = Some b"
    and "\<And>i g. \<exists>r g'. record a (b - a) i g = (Inr r, g')"
  shows "\<exists>files w'. bind (makedirs E dir) (\<lambda>_.
       bind (parse_date E sd) (\<lambda>start. bind (parse_date E ed) (\<lambda>end.
         batch_loop E dir stem wd fmt N B (rows_loop (record start (end - start)))))) w
      = (Inr files, w')"
proof -
  have l: "\<exists>files w'. batch_loop E dir stem wd fmt N B (rows_loop (record a (b - a))) s
      = (Inr files, w')" for s
    using assms(2) assms(3) by (rule batch_loop_succeeds) (rule rows_loop_succeeds, rule assms(6))
  have "makedirs E dir w = (Inr (), w\<lparr>events := events w @ [Mkdir dir]\<rparr>)"
    using assms(1) by (simp add: makedirs_def)
  then show ?thesis using l assms(4,5) by (simp add: bind_def parse_date_def)
qed

lemma generate_all_transactions_succeeds:
  assumes "\<not> makedirs_fails E ''generated-data/transactions''" "TRANSACTION_BATCH_SIZE cfg \<noteq> 0"
    and "\<And>f. \<not> write_fails E f"
    and "strptime E (START_DATE cfg) = Some a" "strptime E (END_DATE cfg) = Some b" "a \<le> b"
    and "REGIONS cfg \<noteq> []" "0 < NUM_CUSTOMERS cfg" "0 < NUM_PRODUCTS cfg" "0 < NUM_SALES_REPS cfg"
  shows "\<exists>files w'. generate_all_transactions E cfg w = (Inr files, w')"
proof -
  have "\<exists>r g'. transaction_record E cfg a (b - a) i g = (Inr r, g')" for i g
    using assms by (intro transaction_record_succeeds) simp_all
  then show ?thesis
    unfolding generate_all_transactions_def
    using assms(1-5) by (intro transactions_pipeline_succeeds)
qed

lemma generate_all_transactions_legacy_succeeds:
  assumes "\<not> makedirs_fails E ''generated-data/transactions''" "TRANSACTION_BATCH_SIZE cfg \<noteq> 0"
    and "\<And>f. \<not> write_fails E f"
    and "strptime E (START_DATE cfg) = Some a" "strptime E (END_DATE cfg) = Some b" "a \<le> b"
    and "REGIONS cfg \<noteq> []" "0 < NUM_CUSTOMERS cfg" "0 < NUM_PRODUCTS cfg" "0 < NUM_SALES_REPS cfg"
  shows "\<exists>files w'. generate_all_transactions_legacy E cfg w = (Inr files, w')"
proof -
  have "\<exists>r g'. transaction_record_legacy E cfg a (b - a) i g = (Inr r, g')" for i g
    using assms by (intro transaction_record_legacy_succeeds) simp_all
  then show ?thesis
    unfolding generate_all_transactions_legacy_def
    using assms(1-5) by (intro transactions_pipeline_succeeds)
qed

subsection \<open>What each pipeline has written when it ends normally\<close>

lemma generate_all_customers_Inr:
  assumes "generate_all_customers E cfg w = (Inr files, w')" and "0 < CUSTOMER_BATCH_SIZE cfg"
  shows "column ''customer_id'' (written_rows (new_events w w'))
         = map (\<lambda>i. Some (Str (''CUST'' @ fmt_d 8 i))) [0..NUM_CUSTOMERS cfg - 1]
     \<and> map fst (written (new_events w w'))
         = map (\<lambda>k. batch_filename ''generated-data/customers'' ''customers_batch_'' 5 (OUTPUT_FORMAT cfg) (int k))
             [0..<nat (num_batches (NUM_CUSTOMERS cfg) (CUSTOMER_BATCH_SIZE cfg))]
     \<and> map (\<lambda>t. int (length (snd t))) (written (new_events w w'))
         = map snd (batch_ranges (NUM_CUSTOMERS cfg) (CUSTOMER_BATCH_SIZE cfg))
     \<and> map (\<lambda>t. column ''customer_id'' (snd t)) (written (new_events w w'))
         = map (\<lambda>(s, n). map (\<lambda>i. Some (Str (''CUST'' @ fmt_d 8 i))) [s..s + n - 1])
             (batch_ranges (NUM_CUSTOMERS cfg) (CUSTOMER_BATCH_SIZE cfg))
     \<and> files = map fst (written (new_events w w'))
     \<and> new_events w w' = Mkdir ''generated-data/customers''
           # map (\<lambda>t. Write (fst t) (snd t)) (written (new_events w w'))"
  using assms unfolding generate_all_customers_def generate_customer_batch_eq
  by (rule pipeline_Inr[where f = "\<lambda>i. Str (''CUST'' @ fmt_d 8 i)"]) (blast intro: customer_record_id)

lemma generate_products_Inr:
  assumes "generate_products E cfg w = (Inr files, w')" and "0 < PRODUCT_BATCH_SIZE cfg"
  shows "column ''product_id'' (written_rows (new_events w w'))
         = map (\<lambda>i. Some (Str (''PROD'' @ fmt_d 8 i))) [0..NUM_PRODUCTS cfg - 1]
     \<and> map fst (written (new_events w w'))
         = map (\<lambda>k. batch_filename ''generated-data/products'' ''products_batch_'' 5 (OUTPUT_FORMAT cfg) (int k))
             [0..<nat (num_batches (NUM_PRODUCTS cfg) (PRODUCT_BATCH_SIZE cfg))]
     \<and> map (\<lambda>t. int (length (snd t))) (written (new_events w w'))
         = map snd (batch_ranges (NUM_PRODUCTS cfg) (PRODUCT_BATCH_SIZE cfg))
     \<and> map (\<lambda>t. column ''product_id'' (snd t)) (written (new_events w w'))
         = map (\<lambda>(s, n). map (\<lambda>i. Some (Str (''PROD'' @ fmt_d 8 i))) [s..s + n - 1])
             (batch_ranges (NUM_PRODUCTS cfg) (PRODUCT_BATCH_SIZE cfg))
     \<and> files = map fst (written (new_events w w'))
     \<and> new_events w w' = Mkdir ''generated-data/products''
           # map (\<lambda>t. Write (fst t) (snd t)) (written (new_events w w'))"
  using assms unfolding generate_products_def
  by (rule pipeline_Inr[where f = "\<lambda>i. Str (''PROD'' @ fmt_d 8 i)"]) (blast intro: product_record_id)

lemma generate_sales_reps_Inr:
  assumes "generate_sales_reps E cfg w = (Inr files, w')" and "0 < PRODUCT_BATCH_SIZE cfg"
  shows "column ''sales_rep_id'' (written_rows (new_events w w'))
         = map (\<lambda>i. Some (Str (''SREP'' @ fmt_d 8 i))) [0..NUM_SALES_REPS cfg - 1]
     \<and> map fst (written (new_events w w'))
         = map (\<lambda>k. batch_filename ''generated-data/sales-reps'' ''sales_reps_batch_'' 5 (OUTPUT_FORMAT cfg) (int k))
             [0..<nat (num_batches (NUM_SALES_REPS cfg) (PRODUCT_BATCH_SIZE cfg))]
     \<and> map (\<lambda>t. int (length (snd t))) (written (new_events w w'))
         = map snd (batch_ranges (NUM_SALES_REPS cfg) (PRODUCT_BATCH_SIZE cfg))
     \<and> map (\<lambda>t. column ''sales_rep_id'' (snd t)) (written (new_events w w'))
         = map (\<lambda>(s, n). map (\<lambda>i. Some (Str (''SREP'' @ fmt_d 8 i))) [s..s + n - 1])
             (batch_ranges (NUM_SALES_REPS cfg) (PRODUCT_BATCH_SIZE cfg))
     \<and> files = map fst (written (new_events w w'))
     \<and> new_events w w' = Mkdir ''generated-data/sales-reps''
           # map (\<lambda>t. Write (fst t) (snd t)) (written (new_events w w'))"
  using assms unfolding generate_sales_reps_def
  by (rule pipeline_Inr[where f = "\<lambda>i. Str (''SREP'' @ fmt_d 8 i)"]) (blast intro: sales_rep_record_id)

lemma generate_all_transactions_Inr:
  assumes "generate_all_transactions E cfg w = (Inr files, w')" and "0 < TRANSACTION_BATCH_SIZE cfg"
  shows "column ''transaction_id'' (written_rows (new_events w w'))
         = map (\<lambda>i. Some (Str (''TXN'' @ fmt_d 12 i))) [0..NUM_TRANSACTIONS cfg - 1]
     \<and> map fst (written (new_events w w'))
         = map (\<lambda>k. batch_filename ''generated-data/transactions'' ''transactions_batch_'' 5 (OUTPUT_FORMAT cfg) (int k))
             [0..<nat (num_batches (NUM_TRANSACTIONS cfg) (TRANSACTION_BATCH_SIZE cfg))]
     \<and> map (\<lambda>t. int (length (snd t))) (written (new_events w w'))
         = map snd (batch_ranges (NUM_TRANSACTIONS cfg) (TRANSACTION_BATCH_SIZE cfg))
     \<and> map (\<lambda>t. column ''transaction_id'' (snd t)) (written (new_events w w'))
         = map (\<lambda>(s, n). map (\<lambda>i. Some (Str (''TXN'' @ fmt_d 12 i))) [s..s + n - 1])
             (batch_ranges (NUM_TRANSACTIONS cfg) (TRANSACTION_BATCH_SIZE cfg))
     \<and> files = map fst (written (new_events w w'))
     \<and> new_events w w' = Mkdir ''generated-data/transactions''
           # map (\<lambda>t. Write (fst t) (snd t)) (written (new_events w w'))"
  using assms unfolding generate_all_transactions_def
  by (rule transactions_pipeline_Inr[where f = "\<lambda>i. Str (''TXN'' @ fmt_d 12 i)"]) (blast intro: transaction_record_id)

lemma generate_all_customers_legacy_Inr:
  assumes "generate_all_customers_legacy E cfg w = (Inr files, w')" and "0 < CUSTOMER_BATCH_SIZE cfg"
  shows "column ''customer_id'' (written_rows (new_events w w'))
         = map (\<lambda>i. Some (Str (''CUST'' @ fmt_d 6 i))) [0..NUM_CUSTOMERS cfg - 1]
     \<and> map fst (written (new_events w w'))
         = map (\<lambda>k. batch_filename ''generated-data/customers'' ''customers_batch_'' 3 (OUTPUT_FORMAT cfg) (int k))
             [0..<nat (num_batches (NUM_CUSTOMERS cfg) (CUSTOMER_BATCH_SIZE cfg))]
     \<and> map (\<lambda>t. int (length (snd t))) (written (new_events w w'))
         = map snd (batch_ranges (NUM_CUSTOMERS cfg) (CUSTOMER_BATCH_SIZE cfg))
     \<and> map (\<lambda>t. column ''customer_id'' (snd t)) (written (new_events w w'))
         = map (\<lambda>(s, n). map (\<lambda>i. Some (Str (''CUST'' @ fmt_d 6 i))) [s..s + n - 1])
             (batch_ranges (NUM_CUSTOMERS cfg) (CUSTOMER_BATCH_SIZE cfg))
     \<and> files = map fst (written (new_events w w'))
     \<and> new_events w w' = Mkdir ''generated-data/customers''
           # map (\<lambda>t. Write (fst t) (snd t)) (written (new_events w w'))"
  using assms unfolding generate_all_customers_legacy_def generate_customer_batch_legacy_eq
  by (rule pipeline_Inr[where f = "\<lambda>i. Str (''CUST'' @ fmt_d 6 i)"]) (blast intro: customer_record_legacy_id)

lemma generate_products_legacy_Inr:
  assumes "generate_products_legacy E cfg w = (Inr files, w')" and "0 < PRODUCT_BATCH_SIZE cfg"
  shows "column ''product_id'' (written_rows (new_events w w'))
         = map (\<lambda>i. Some (Str (''PROD'' @ fmt_d 6 i))) [0..NUM_PRODUCTS cfg - 1]
     \<and> map fst (written (new_events w w'))
         = map (\<lambda>k. batch_filename ''generated-data/products'' ''products_batch_'' 3 (OUTPUT_FORMAT cfg) (int k))
             [0..<nat (num_batches (NUM_PRODUCTS cfg) (PRODUCT_BATCH_SIZE cfg))]
     \<and> map (\<lambda>t. int (length (snd t))) (written (new_events w w'))
         = map snd (batch_ranges (NUM_PRODUCTS cfg) (PRODUCT_BATCH_SIZE cfg))
     \<and> map (\<lambda>t. column ''product_id'' (snd t)) (written (new_events w w'))
         = map (\<lambda>(s, n). map (\<lambda>i. Some (Str (''PROD'' @ fmt_d 6 i))) [s..s + n - 1])
             (batch_ranges (NUM_PRODUCTS cfg) (PRODUCT_BATCH_SIZE cfg))
     \<and> files = map fst (written (new_events w w'))
     \<and> new_events w w' = Mkdir ''generated-data/products''
           # map (\<lambda>t. Write (fst t) (snd t)) (written (new_events w w'))"
  using assms unfolding generate_products_legacy_def
  by (rule pipeline_Inr[where f = "\<lambda>i. Str (''PROD'' @ fmt_d 6 i)"]) (blast intro: product_record_legacy_id)

lemma generate_all_transactions_legacy_Inr:
  assumes "generate_all_transactions_legacy E cfg w = (Inr files, w')" and "0 < TRANSACTION_BATCH_SIZE cfg"
  shows "column ''transaction_id'' (written_rows (new_events w w'))
         = map (\<lambda>i. Some (Str (''TXN'' @ fmt_d 9 i))) [0..NUM_TRANSACTIONS cfg - 1]
     \<and> map fst (written (new_events w w'))
         = map (\<lambda>k. batch_filename ''generated-data/transactions'' ''transactions_batch_'' 3 (OUTPUT_FORMAT cfg) (int k))
             [0..<nat (num_batches (NUM_TRANSACTIONS cfg) (TRANSACTION_BATCH_SIZE cfg))]
     \<and> map (\<lambda>t. int (length (snd t))) (written (new_events w w'))
         = map snd (batch_ranges (NUM_TRANSACTIONS cfg) (TRANSACTION_BATCH_SIZE cfg))
     \<and> map (\<lambda>t. column ''transaction_id'' (snd t)) (written (new_events w w'))
         = map (\<lambda>(s, n). map (\<lambda>i. Some (Str (''TXN'' @ fmt_d 9 i))) [s..s + n - 1])
             (batch_ranges (NUM_TRANSACTIONS cfg) (TRANSACTION_BATCH_SIZE cfg))
     \<and> files = map fst (written (new_events w w'))
     \<and> new_events w w' = Mkdir ''generated-data/transactions''
           # map (\<lambda>t. Write (fst t) (snd t)) (written (new_events w w'))"
  using assms unfolding generate_all_transactions_legacy_def
  by (rule transactions_pipeline_Inr[where f = "\<lambda>i. Str (''TXN'' @ fmt_d 9 i)"]) (blast intro: transaction_record_legacy_id)

section \<open>Identifiers\<close>

lemma ids_distinct0: "distinct (map (\<lambda>i. Some (Str (pfx @ fmt_d wd i))) [0..n])"
  using ids_distinct[of 0 pfx wd n] by simp

lemma sample_simps:
  "makedirs_fails sample_env d = False" "write_fails sample_env f = False"
  "scandir_fails sample_env = False"
  "strptime sample_env ''2023-01-01'' = Some 738521"
  "strptime sample_env ''2024-12-31'' = Some 739251"
  "NUM_CUSTOMERS small_config = 5" "NUM_PRODUCTS small_config = 3"
  "NUM_SALES_REPS small_config = 2" "NUM_TRANSACTIONS small_config = 3"
  "CUSTOMER_BATCH_SIZE small_config = 2" "PRODUCT_BATCH_SIZE small_config = 2"
  "TRANSACTION_BATCH_SIZE small_config = 2"
  "START_DATE small_config = ''2023-01-01''" "END_DATE small_config = ''2024-12-31''"
  "OUTPUT_FORMAT small_config = ''parquet''"
  "REGIONS small_config \<noteq> []" "COUNTRIES small_config \<noteq> []"
  "PRODUCT_CATEGORIES small_config \<noteq> []" "CUSTOMER_SEGMENTS small_config \<noteq> []"
  by (simp_all add: sample_env_def small_config_def)

section \<open>Five customers in batches of two\<close>

lemma five_by_two:
  "nat (num_batches 5 2) = 3" "[0..<3] = [0, 1, 2]"
  "batch_ranges 5 2 = [(0, 2), (2, 2), (4, 1)]"
  by (simp_all add: batch_ranges_def num_batches_def batch_start_def current_batch_size_def
      upt_conv_Cons)

lemma try_block_None:
  "try_block block w = (None, w') \<Longrightarrow> \<exists>a. block w = (Inr a, w')"
  by (auto simp: try_block_def split: prod.splits sum.splits)

lemma try_block_Some:
  "try_block block w = (Some status, w') \<Longrightarrow>
   status = 1 \<and> (\<exists>e w1. block w = (Inl e, w1)
      \<and> w' = w1\<lparr>events := events w1 @ [Banner e, Traceback e]\<rparr>)"
  by (auto simp: try_block_def split: prod.splits sum.splits)

lemma quick_gen_0:
  assumes "quick_gen E cfg w = (0, w')"
  shows "\<exists>files. generate_all_customers_legacy E cfg w = (Inr files, w')"
  using assms
  by (auto simp: quick_gen_def try_block_def split: prod.splits sum.splits option.splits)

lemma quick_gen_succeeds:
  assumes "generate_all_customers_legacy E cfg w = (Inr files, w')"
  shows "quick_gen E cfg w = (0, w')"
  using assms by (simp add: quick_gen_def try_block_def)

lemma five_customers_legacy:
  assumes run: "generate_all_customers_legacy E cfg w = (Inr files, w')"
    and N: "NUM_CUSTOMERS cfg = 5" and B: "CUSTOMER_BATCH_SIZE cfg = 2"
  shows "map fst (written (new_events w w'))
        = [''generated-data/customers/customers_batch_000'' @ extension (OUTPUT_FORMAT cfg),
           ''generated-data/customers/customers_batch_001'' @ extension (OUTPUT_FORMAT cfg),
           ''generated-data/customers/customers_batch_002'' @ extension (OUTPUT_FORMAT cfg)]
    \<and> map (\<lambda>t. column ''customer_id'' (snd t)) (written (new_events w w'))
        = [[Some (Str ''CUST000000''), Some (Str ''CUST000001'')],
           [Some (Str ''CUST000002''), Some (Str ''CUST000003'')],
           [Some (Str ''CUST000004'')]]
    \<and> map (\<lambda>t. length (snd t)) (written (new_events w w')) = [2, 2, 1]
    \<and> files = map fst (written (new_events w w'))"
proof -
  have pos: "0 < CUSTOMER_BATCH_SIZE cfg" using B by simp
  note f = generate_all_customers_legacy_Inr[OF run pos, unfolded N B five_by_two]
  have l: "map (\<lambda>t. length (snd t)) (written (new_events w w')) = [2, 2, 1]"
    using f by (auto simp: map_eq_Cons_conv)
  show ?thesis using f l by (simp add: batch_filename_def format_eval upto_rec1)
qed

lemma five_customers_first:
  assumes run: "generate_all_customers E cfg w = (Inr files, w')"
    and N: "NUM_CUSTOMERS cfg = 5" and B: "CUSTOMER_BATCH_SIZE cfg = 2"
  shows "map fst (written (new_events w w'))
        = [''generated-data/customers/customers_batch_00000'' @ extension (OUTPUT_FORMAT cfg),
           ''generated-data/customers/customers_batch_00001'' @ extension (OUTPUT_FORMAT cfg),
           ''generated-data/customers/customers_batch_00002'' @ extension (OUTPUT_FORMAT cfg)]
    \<and> map (\<lambda>t. column ''customer_id'' (snd t)) (written (new_events w w'))
        = [[Some (Str ''CUST00000000''), Some (Str ''CUST00000001'')],
           [Some (Str ''CUST00000002''), Some (Str ''CUST00000003'')],
           [Some (Str ''CUST00000004'')]]
    \<and> map (\<lambda>t. length (snd t)) (written (new_events w w')) = [2, 2, 1]
    \<and> files = map fst (written (new_events w w'))"
proof -
  have pos: "0 < CUSTOMER_BATCH_SIZE cfg" using B by simp
  note f = generate_all_customers_Inr[OF run pos, unfolded N B five_by_two]
  have l: "map (\<lambda>t. length (snd t)) (written (new_events w w')) = [2, 2, 1]"
    using f by (auto simp: map_eq_Cons_conv)
  show ?thesis using f l by (simp add: batch_filename_def format_eval upto_rec1)
qed

text \<open>
  Claim C4, as amended. With \<open>NUM_CUSTOMERS = 5\<close> and \<open>CUSTOMER_BATCH_SIZE = 2\<close> the batch
  ranges are \<open>[0,2), [2,4), [4,5)\<close>. When \<open>quick_gen.py\<close> exits with status 0, and when the
  redefined customer pipeline of \<open>complete_generator.py\<close> ends normally, exactly three
  tables have been written, named \<open>customers_batch_000\<close>, \<open>_001\<close>, \<open>_002\<close> plus the extension,
  holding the customers 0-1, 2-3 and 4 (2, 2 and 1 records). The first customer pipeline of
  \<open>complete_generator.py\<close> writes the same three batches, but under the names
  \<open>customers_batch_00000\<close>, \<open>_00001\<close>, \<open>_00002\<close> and with eight-digit identifiers.
\<close>

theorem C4_five_customers:
  assumes "NUM_CUSTOMERS cfg = 5" and "CUSTOMER_BATCH_SIZE cfg = 2"
  shows "batch_ranges (NUM_CUSTOMERS cfg) (CUSTOMER_BATCH_SIZE cfg) = [(0, 2), (2, 2), (4, 1)]
   \<and> (\<forall>w'. quick_gen E cfg w = (0, w') \<longrightarrow>
      map fst (written (new_events w w'))
        = [''generated-data/customers/customers_batch_000'' @ extension (OUTPUT_FORMAT cfg),
           ''generated-data/customers/customers_batch_001'' @ extension (OUTPUT_FORMAT cfg),
           ''generated-data/customers/customers_batch_002'' @ extension (OUTPUT_FORMAT cfg)]
    \<and> map (\<lambda>t. column ''customer_id'' (snd t)) (written (new_events w w'))
        = [[Some (Str ''CUST000000''), Some (Str ''CUST000001'')],
           [Some (Str ''CUST000002''), Some (Str ''CUST000003'')],
           [Some (Str ''CUST000004'')]]
    \<and> map (\<lambda>t. length (snd t)) (written (new_events w w')) = [2, 2, 1])
   \<and> (\<forall>files w'. generate_all_customers_legacy E cfg w = (Inr files, w') \<longrightarrow>
      map fst (written (new_events w w'))
        = [''generated-data/customers/customers_batch_000'' @ extension (OUTPUT_FORMAT cfg),
           ''generated-data/customers/customers_batch_001'' @ extension (OUTPUT_FORMAT cfg),
           ''generated-data/customers/customers_batch_002'' @ extension (OUTPUT_FORMAT cfg)]
    \<and> map (\<lambda>t. column ''customer_id'' (snd t)) (written (new_events w w'))
        = [[Some (Str ''CUST000000''), Some (Str ''CUST000001'')],
           [Some (Str ''CUST000002''), Some (Str ''CUST000003'')],
           [Some (Str ''CUST000004'')]]
    \<and> map (\<lambda>t. length (snd t)) (written (new_events w w')) = [2, 2, 1])
   \<and> (\<forall>files w'. generate_all_customers E cfg w = (Inr files, w') \<longrightarrow>
      map fst (written (new_events w w'))
        = [''generated-data/customers/customers_batch_00000'' @ extension (OUTPUT_FORMAT cfg),
           ''generated-data/customers/customers_batch_00001'' @ extension (OUTPUT_FORMAT cfg),
           ''generated-data/customers/customers_batch_00002'' @ extension (OUTPUT_FORMAT cfg)]
    \<and> map (\<lambda>t. column ''customer_id'' (snd t)) (written (new_events w w'))
        = [[Some (Str ''CUST00000000''), Some (Str ''CUST00000001'')],
           [Some (Str ''CUST00000002''), Some (Str ''CUST00000003'')],
           [Some (Str ''CUST00000004'')]]
    \<and> map (\<lambda>t. length (snd t)) (written (new_events w w')) = [2, 2, 1])"
proof (intro conjI allI impI)
  show "batch_ranges (NUM_CUSTOMERS cfg) (CUSTOMER_BATCH_SIZE cfg) = [(0, 2), (2, 2), (4, 1)]"
    using assms by (simp add: five_by_two)
next
  fix w' assume "quick_gen E cfg w = (0, w')"
  then obtain files where r: "generate_all_customers_legacy E cfg w = (Inr files, w')"
    using quick_gen_0 by blast
  note f = five_customers_legacy[OF r assms]
  show "map fst (written (new_events w w'))
        = [''generated-data/customers/customers_batch_000'' @ extension (OUTPUT_FORMAT cfg),
           ''generated-data/customers/customers_batch_001'' @ extension (OUTPUT_FORMAT cfg),
           ''generated-data/customers/customers_batch_002'' @ extension (OUTPUT_FORMAT cfg)]"
    using f by blast
  show "map (\<lambda>t. column ''customer_id'' (snd t)) (written (new_events w w'))
        = [[Some (Str ''CUST000000''), Some (Str ''CUST000001'')],
           [Some (Str ''CUST000002''), Some (Str ''CUST000003'')],
           [Some (Str ''CUST000004'')]]"
    using f by blast
  show "map (\<lambda>t. length (snd t)) (written (new_events w w')) = [2, 2, 1]"
    using f by blast
next
  fix files w' assume r: "generate_all_customers_legacy E cfg w = (Inr files, w')"
  note f = five_customers_legacy[OF r assms]
  show "map fst (written (new_events w w'))
        = [''generated-data/customers/customers_batch_000'' @ extension (OUTPUT_FORMAT cfg),
           ''generated-data/customers/customers_batch_001'' @ extension (OUTPUT_FORMAT cfg),
           ''generated-data/customers/customers_batch_002'' @ extension (OUTPUT_FORMAT cfg)]"
    using f by blast
  show "map (\<lambda>t. column ''customer_id'' (snd t)) (written (new_events w w'))
        = [[Some (Str ''CUST000000''), Some (Str ''CUST000001'')],
           [Some (Str ''CUST000002''), Some (Str ''CUST000003'')],
           [Some (Str ''CUST000004'')]]"
    using f by blast
  show "map (\<lambda>t. length (snd t)) (written (new_events w w')) = [2, 2, 1]"
    using f by blast
next
  fix files w' assume r: "generate_all_customers E cfg w = (Inr files, w')"
  note f = five_customers_first[OF r assms]
  show "map fst (written (new_events w w'))
        = [''generated-data/customers/customers_batch_00000'' @ extension (OUTPUT_FORMAT cfg),
           ''generated-data/customers/customers_batch_00001'' @ extension (OUTPUT_FORMAT cfg),
           ''generated-data/customers/customers_batch_00002'' @ extension (OUTPUT_FORMAT cfg)]"
    using f by blast
  show "map (\<lambda>t. column ''customer_id'' (snd t)) (written (new_events w w'))
        = [[Some (Str ''CUST00000000''), Some (Str ''CUST00000001'')],
           [Some (Str ''CUST00000002''), Some (Str ''CUST00000003'')],
           [Some (Str ''CUST00000004'')]]"
    using f by blast
  show "map (\<lambda>t. length (snd t)) (written (new_events w w')) = [2, 2, 1]"
    using f by blast
qed

theorem C4_five_customers_witness:
  "NUM_CUSTOMERS small_config = 5 \<and> CUSTOMER_BATCH_SIZE small_config = 2
   \<and> (\<exists>w'. quick_gen sample_env small_config initial_world = (0, w')
      \<and> map fst (written (new_events initial_world w'))
        = [''generated-data/customers/customers_batch_000.parquet'',
           ''generated-data/customers/customers_batch_001.parquet'',
           ''generated-data/customers/customers_batch_002.parquet'']
    \<and> map (\<lambda>t. column ''customer_id'' (snd t)) (written (new_events initial_world w'))
        = [[Some (Str ''CUST000000''), Some (Str ''CUST000001'')],
           [Some (Str ''CUST000002''), Some (Str ''CUST000003'')],
           [Some (Str ''CUST000004'')]]
    \<and> map (\<lambda>t. length (snd t)) (written (new_events initial_world w')) = [2, 2, 1])
   \<and> (\<exists>files w'. generate_all_customers sample_env small_config initial_world = (Inr files, w')
      \<and> map fst (written (new_events initial_world w'))
        = [''generated-data/customers/customers_batch_00000.parquet'',
           ''generated-data/customers/customers_batch_00001.parquet'',
           ''generated-data/customers/customers_batch_00002.parquet'']
    \<and> map (\<lambda>t. column ''customer_id'' (snd t)) (written (new_events initial_world w'))
        = [[Some (Str ''CUST00000000''), Some (Str ''CUST00000001'')],
           [Some (Str ''CUST00000002''), Some (Str ''CUST00000003'')],
           [Some (Str ''CUST00000004'')]]
    \<and> map (\<lambda>t. length (snd t)) (written (new_events initial_world w')) = [2, 2, 1])"
proof -
  have N: "NUM_CUSTOMERS small_config = 5" and B: "CUSTOMER_BATCH_SIZE small_config = 2"
    by (simp_all add: sample_simps)
  note th = C4_five_customers[OF N B, of sample_env initial_world]
  obtain files w' where "generate_all_customers_legacy sample_env small_config initial_world
      = (Inr files, w')"
    using generate_all_customers_legacy_succeeds[where E = sample_env and cfg = small_config
        and w = initial_world]
    by (auto simp: sample_simps)
  then have q: "quick_gen sample_env small_config initial_world = (0, w')"
    by (rule quick_gen_succeeds)
  have c1: "\<exists>w'. quick_gen sample_env small_config initial_world = (0, w')
      \<and> map fst (written (new_events initial_world w'))
        = [''generated-data/customers/customers_batch_000.parquet'',
           ''generated-data/customers/customers_batch_001.parquet'',
           ''generated-data/customers/customers_batch_002.parquet'']
    \<and> map (\<lambda>t. column ''customer_id'' (snd t)) (written (new_events initial_world w'))
        = [[Some (Str ''CUST000000''), Some (Str ''CUST000001'')],
           [Some (Str ''CUST000002''), Some (Str ''CUST000003'')],
           [Some (Str ''CUST000004'')]]
    \<and> map (\<lambda>t. length (snd t)) (written (new_events initial_world w')) = [2, 2, 1]"
    using th q by (intro exI[of _ w']) (simp add: sample_simps extension_def)
  obtain files2 w2 where r: "generate_all_customers sample_env small_config initial_world
      = (Inr files2, w2)"
    using generate_all_customers_succeeds[where E = sample_env and cfg = small_config
        and w = initial_world]
    by (auto simp: sample_simps)
  have c2: "\<exists>files w'. generate_all_customers sample_env small_config initial_world = (Inr files, w')
      \<and> map fst (written (new_events initial_world w'))
        = [''generated-data/customers/customers_batch_00000.parquet'',
           ''generated-data/customers/customers_batch_00001.parquet'',
           ''generated-data/customers/customers_batch_00002.parquet'']
    \<and> map (\<lambda>t. column ''customer_id'' (snd t)) (written (new_events initial_world w'))
        = [[Some (Str ''CUST00000000''), Some (Str ''CUST00000001'')],
           [Some (Str ''CUST00000002''), Some (Str ''CUST00000003'')],
           [Some (Str ''CUST00000004'')]]
    \<and> map (\<lambda>t. length (snd t)) (written (new_events initial_world w')) = [2, 2, 1]"
    using th r by (intro exI[of _ files2] exI[of _ w2]) (simp add: sample_simps extension_def)
  show ?thesis using N B c1 c2 by (intro conjI)
qed

text \<open>
  The claim as stated fails on the first customer pipeline of \<open>complete_generator.py\<close>: with
  five customers in batches of two it ends normally, and the files it has written are
  \<open>customers_batch_00000.parquet\<close>, \<open>_00001\<close>, \<open>_00002\<close>, none of which is named
  \<open>customers_batch_000.*\<close>, \<open>_001.*\<close> or \<open>_002.*\<close>.
\<close>

theorem C4_first_pipeline_counterexample:
  "NUM_CUSTOMERS small_config = 5 \<and> CUSTOMER_BATCH_SIZE small_config = 2
   \<and> fst (generate_all_customers sample_env small_config initial_world)
       = Inr [''generated-data/customers/customers_batch_00000.parquet'',
              ''generated-data/customers/customers_batch_00001.parquet'',
              ''generated-data/customers/customers_batch_00002.parquet'']
   \<and> map fst (written (events (snd (generate_all_customers sample_env small_config initial_world))))
       = [''generated-data/customers/customers_batch_00000.parquet'',
          ''generated-data/customers/customers_batch_00001.parquet'',
          ''generated-data/customers/customers_batch_00002.parquet'']
   \<and> \<not> prefix ''generated-data/customers/customers_batch_000.''
         ''generated-data/customers/customers_batch_00000.parquet''
   \<and> \<not> prefix ''generated-data/customers/customers_batch_001.''
         ''generated-data/customers/customers_batch_00001.parquet''
   \<and> \<not> prefix ''generated-data/customers/customers_batch_002.''
         ''generated-data/customers/customers_batch_00002.parquet''"
proof -
  have N: "NUM_CUSTOMERS small_config = 5" and B: "CUSTOMER_BATCH_SIZE small_config = 2"
    by (simp_all add: sample_simps)
  obtain files w' where r: "generate_all_customers sample_env small_config initial_world
      = (Inr files, w')"
    using generate_all_customers_succeeds[where E = sample_env and cfg = small_config
        and w = initial_world]
    by (auto simp: sample_simps)
  have ne: "new_events initial_world w' = events w'"
    by (simp add: new_events_def initial_world_def)
  note f = five_customers_first[OF r N B, unfolded ne]
  show ?thesis using f r N B by (simp add: sample_simps extension_def)
qed

section \<open>The footprint of a pipeline, whatever its outcome\<close>

lemma rows_loop_all:
  assumes run: "rows_loop record s n g = (Inr rows, g')"
    and rec: "\<forall>i g r g'. record i g = (Inr r, g') \<longrightarrow> P r"
  shows "\<forall>r \<in> set rows. P r"
proof -
  have "list_all2 (\<lambda>i r. P r) (map (\<lambda>j. s + int j) [0..<nat n]) rows"
    using run by (rule rows_loop_Inr) (simp add: rec)
  then show ?thesis by (auto simp: list_all2_conv_all_nth in_set_conv_nth)
qed

lemma batch_loop_footprint:
  assumes run: "batch_loop E dir stem wd fmt N B (rows_loop record) w = (r, w')"
    and rec: "\<forall>i g r g'. record i g = (Inr r, g') \<longrightarrow> P r"
  shows "\<exists>new. events w' = events w @ new
     \<and> (\<forall>ev \<in> set new. \<exists>f rows. ev = Write f rows \<and> prefix (dir @ ''/'') f
           \<and> (\<forall>row \<in> set rows. P row))"
proof (cases "B = 0")
  case True
  then show ?thesis using run by (simp add: batch_loop_def)
next
  case False
  let ?Q = "\<lambda>t. \<exists>new. events t = events w @ new
     \<and> (\<forall>ev \<in> set new. \<exists>f rows. ev = Write f rows \<and> prefix (dir @ ''/'') f
           \<and> (\<forall>row \<in> set rows. P row))"
  let ?body = "\<lambda>batch_num all_files.
           bind (lift_gen (rows_loop record (batch_start B batch_num)
                   (current_batch_size N B batch_num)))
             (\<lambda>df_batch.
           bind (write_table E (batch_filename dir stem wd fmt batch_num) df_batch)
             (\<lambda>_. ret (all_files @ [batch_filename dir stem wd fmt batch_num])))"
  have loop: "for_range (nat (num_batches N B)) ?body [] w = (r, w')"
    using run False by (simp add: batch_loop_def)
  show ?thesis
  proof (rule for_range_state[where P = ?Q, OF loop])
    show "?Q w" by simp
  next
    fix i a t r' t'
    assume Q: "?Q t" and step: "?body (int i) a t = (r', t')"
    from step show "?Q t'"
    proof (cases rule: bind_cases)
      case (fail e)
      have "events t' = events t" using fail(1) by (rule lift_gen_events)
      then show ?thesis using Q by simp
    next
      case (ok df t1)
      have e1: "events t1 = events t" using ok(1) by (rule lift_gen_events)
      from ok(1) obtain g1 g2 where
        "rows_loop record (batch_start B (int i)) (current_batch_size N B (int i)) g1 = (Inr df, g2)"
        by (auto elim!: lift_gen_cases)
      then have df: "\<forall>row \<in> set df. P row" using rec by (rule rows_loop_all)
      from ok(2) show ?thesis
      proof (cases rule: bind_cases)
        case (fail e)
        have "events t' = events t1" using fail(1) by (auto elim!: write_table_cases)
        then show ?thesis using Q e1 by simp
      next
        case (ok u t2)
        have "events t' = events t @ [Write (batch_filename dir stem wd fmt (int i)) df]"
          using ok e1 by (auto elim!: write_table_cases)
        moreover have "prefix (dir @ ''/'') (batch_filename dir stem wd fmt (int i))"
          by (simp add: batch_filename_def)
        ultimately show ?thesis using Q df by auto
      qed
    qed
  qed
qed

lemma pipeline_footprint:
  assumes run: "bind (makedirs E dir) (\<lambda>_. batch_loop E dir stem wd fmt N B (rows_loop record)) w
      = (r, w')"
    and rec: "\<forall>i g r g'. record i g = (Inr r, g') \<longrightarrow> P r"
  shows "\<exists>new. events w' = events w @ new
     \<and> (\<forall>ev \<in> set new. ev = Mkdir dir \<or> (\<exists>f rows. ev = Write f rows \<and> prefix (dir @ ''/'') f
           \<and> (\<forall>row \<in> set rows. P row)))"
  using run
proof (cases rule: bind_cases)
  case (fail e)
  then have "events w' = events w" by (auto elim!: makedirs_cases)
  then show ?thesis by simp
next
  case (ok a w1)
  from ok(1) have e1: "events w1 = events w @ [Mkdir dir]" by (auto elim!: makedirs_cases)
  from batch_loop_footprint[OF ok(2) rec] obtain new where "events w' = events w1 @ new"
    "\<forall>ev \<in> set new. \<exists>f rows. ev = Write f rows \<and> prefix (dir @ ''/'') f
           \<and> (\<forall>row \<in> set rows. P row)" by blast
  then show ?thesis using e1 by (intro exI[of _ "Mkdir dir # new"]) auto
qed

lemma transactions_pipeline_footprint:
  assumes run: "bind (makedirs E dir) (\<lambda>_.
       bind (parse_date E sd) (\<lambda>start. bind (parse_date E ed) (\<lambda>end.
         batch_loop E dir stem wd fmt N B (rows_loop (record start (end - start)))))) w
      = (r, w')"
    and rec: "\<forall>st nd i g r g'. record st nd i g = (Inr r, g') \<longrightarrow> P r"
  shows "\<exists>new. events w' = events w @ new
     \<and> (\<forall>ev \<in> set new. ev = Mkdir dir \<or> (\<exists>f rows. ev = Write f rows \<and> prefix (dir @ ''/'') f
           \<and> (\<forall>row \<in> set rows. P row)))"
  using run
proof (cases rule: bind_cases)
  case (fail e)
  then have "events w' = events w" by (auto elim!: makedirs_cases)
  then show ?thesis by simp
next
  case (ok a w1)
  from ok(1) have e1: "events w1 = events w @ [Mkdir dir]" by (auto elim!: makedirs_cases)
  from ok(2) show ?thesis
  proof (cases rule: bind_cases)
    case (fail e)
    then have "w' = w1" by (auto elim!: parse_date_cases)
    then show ?thesis using e1 by simp
  next
    case (ok st w2)
    then have w2: "w2 = w1" by (auto elim!: parse_date_cases)
    from ok(2) show ?thesis
    proof (cases rule: bind_cases)
      case (fail e)
      then have "w' = w2" by (auto elim!: parse_date_cases)
      then show ?thesis using e1 w2 by simp
    next
      case (ok en w3)
      then have w3: "w3 = w1" using w2 by (auto elim!: parse_date_cases)
      have rec': "\<forall>i g r g'. record st (en - st) i g = (Inr r, g') \<longrightarrow> P r" using rec by blast
      from batch_loop_footprint[OF ok(2) rec'] obtain new where "events w' = events w3 @ new"
        "\<forall>ev \<in> set new. \<exists>f rows. ev = Write f rows \<and> prefix (dir @ ''/'') f
           \<and> (\<forall>row \<in> set rows. P row)" by blast
      then show ?thesis using e1 w3 by (intro exI[of _ "Mkdir dir # new"]) auto
    qed
  qed
qed

lemma sales_reps_legacy_footprint:
  assumes run: "generate_sales_reps_legacy E cfg w = (r, w')"
  shows "\<exists>new. events w' = events w @ new
     \<and> (\<forall>ev \<in> set new. ev = Mkdir ''generated-data/sales-reps''
          \<or> (\<exists>f rows. ev = Write f rows \<and> prefix (''generated-data/sales-reps'' @ ''/'') f))"
  using run unfolding generate_sales_reps_legacy_def
proof (cases rule: bind_cases)
  case (fail e)
  then have "events w' = events w" by (auto elim!: makedirs_cases)
  then show ?thesis by simp
next
  case (ok a w1)
  from ok(1) have e1: "events w1 = events w @ [Mkdir ''generated-data/sales-reps'']"
    by (auto elim!: makedirs_cases)
  from ok(2) show ?thesis
  proof (cases rule: bind_cases)
    case (fail e)
    have "events w' = events w1" using fail(1) by (rule lift_gen_events)
    then show ?thesis using e1 by simp
  next
    case (ok df w2)
    have e2: "events w2 = events w1" using ok(1) by (rule lift_gen_events)
    from ok(2) have "events w' = events w2
        \<or> events w' = events w2 @ [Write (sales_reps_filename (OUTPUT_FORMAT cfg)) df]"
      by (auto elim!: write_table_cases)
    then show ?thesis using e1 e2 by (auto simp: sales_reps_filename_def)
  qed
qed

section \<open>References of a transaction\<close>

lemma dict_literal_lookup:
  assumes "dict_literal kvs g = (Inr row, g')" and "distinct (map fst kvs)"
    and "k \<in> fst ` set kvs"
  shows "\<exists>g1 g2 v. the (map_of kvs k) g1 = (Inr v, g2) \<and> map_of row k = Some v"
  using assms
proof (induction kvs arbitrary: g row)
  case Nil
  then show ?case by simp
next
  case (Cons kv kvs)
  obtain k0 m0 where kv: "kv = (k0, m0)" by (cases kv)
  from Cons.prems(1) obtain v g1 rest where
    m: "m0 g = (Inr v, g1)" and rest: "dict_literal kvs g1 = (Inr rest, g')"
    and row: "row = (k0, v) # rest"
    unfolding kv by (erule dict_literal_Cons_elim)
  show ?case
  proof (cases "k = k0")
    case True
    then show ?thesis using m row kv by auto
  next
    case False
    then have "k \<in> fst ` set kvs" using Cons.prems(3) kv by auto
    moreover have "distinct (map fst kvs)" using Cons.prems(2) by simp
    ultimately have "\<exists>g1 g2 v. the (map_of kvs k) g1 = (Inr v, g2) \<and> map_of rest k = Some v"
      using Cons.IH[OF rest] by blast
    then show ?thesis using False row kv by simp
  qed
qed

lemma fmap_randint:
  "fmap f (randint E a b) g1 = (Inr v, g2) \<Longrightarrow> \<exists>n. v = f n \<and> a \<le> n \<and> n \<le> b"
  by (auto elim!: fmap_Inr_elim randint_Inr_elim)

lemma transaction_record_customer:
  "transaction_record E cfg st nd i g = (Inr r, g') \<Longrightarrow>
   \<exists>n. map_of r ''customer_id'' = Some (Str (''CUST'' @ fmt_d 8 n)) \<and> 0 \<le> n \<and> n \<le> NUM_CUSTOMERS cfg - 1"
  unfolding transaction_record_def
  apply (erule bind_Inr_elim)
  apply (drule dict_literal_lookup[where k = "''customer_id''"])
    apply simp
   apply simp
  apply (elim exE conjE)
  apply (simp del: append.simps)
  apply (drule fmap_randint)
  apply auto
  done

lemma transaction_record_product:
  "transaction_record E cfg st nd i g = (Inr r, g') \<Longrightarrow>
   \<exists>n. map_of r ''product_id'' = Some (Str (''PROD'' @ fmt_d 8 n)) \<and> 0 \<le> n \<and> n \<le> NUM_PRODUCTS cfg - 1"
  unfolding transaction_record_def
  apply (erule bind_Inr_elim)
  apply (drule dict_literal_lookup[where k = "''product_id''"])
    apply simp
   apply simp
  apply (elim exE conjE)
  apply (simp del: append.simps)
  apply (drule fmap_randint)
  apply auto
  done

lemma transaction_record_sales_rep:
  "transaction_record E cfg st nd i g = (Inr r, g') \<Longrightarrow>
   \<exists>n. map_of r ''sales_rep_id'' = Some (Str (''SREP'' @ fmt_d 8 n)) \<and> 0 \<le> n \<and> n \<le> NUM_SALES_REPS cfg - 1"
  unfolding transaction_record_def
  apply (erule bind_Inr_elim)
  apply (drule dict_literal_lookup[where k = "''sales_rep_id''"])
    apply simp
   apply simp
  apply (elim exE conjE)
  apply (simp del: append.simps)
  apply (drule fmap_randint)
  apply auto
  done

lemma transaction_record_legacy_customer:
  "transaction_record_legacy E cfg st nd i g = (Inr r, g') \<Longrightarrow>
   \<exists>n. map_of r ''customer_id'' = Some (Str (''CUST'' @ fmt_d 6 n)) \<and> 0 \<le> n \<and> n \<le> NUM_CUSTOMERS cfg - 1"
  unfolding transaction_record_legacy_def
  apply (erule bind_Inr_elim)
  apply (drule dict_literal_lookup[where k = "''customer_id''"])
    apply simp
   apply simp
  apply (elim exE conjE)
  apply (simp del: append.simps)
  apply (drule fmap_randint)
  apply auto
  done

lemma transaction_record_legacy_product:
  "transaction_record_legacy E cfg st nd i g = (Inr r, g') \<Longrightarrow>
   \<exists>n. map_of r ''product_id'' = Some (Str (''PROD'' @ fmt_d 6 n)) \<and> 0 \<le> n \<and> n \<le> NUM_PRODUCTS cfg - 1"
  unfolding transaction_record_legacy_def
  apply (erule bind_Inr_elim)
  apply (drule dict_literal_lookup[where k = "''product_id''"])
    apply simp
   apply simp
  apply (elim exE conjE)
  apply (simp del: append.simps)
  apply (drule fmap_randint)
  apply auto
  done

lemma transaction_record_legacy_sales_rep:
  "transaction_record_legacy E cfg st nd i g = (Inr r, g') \<Longrightarrow>
   \<exists>n. map_of r ''sales_rep_id'' = Some (Str (''SREP'' @ fmt_d 4 n)) \<and> 1 \<le> n \<and> n \<le> NUM_SALES_REPS cfg"
  unfolding transaction_record_legacy_def
  apply (erule bind_Inr_elim)
  apply (drule dict_literal_lookup[where k = "''sales_rep_id''"])
    apply simp
   apply simp
  apply (elim exE conjE)
  apply (simp del: append.simps)
  apply (drule fmap_randint)
  apply auto
  done

lemma transaction_record_references:
  assumes "transaction_record E cfg st nd i g = (Inr row, g')"
  shows "(\<exists>n. map_of row ''customer_id'' = Some (Str (''CUST'' @ fmt_d 8 n))
            \<and> 0 \<le> n \<and> n < NUM_CUSTOMERS cfg)
      \<and> (\<exists>n. map_of row ''product_id'' = Some (Str (''PROD'' @ fmt_d 8 n))
            \<and> 0 \<le> n \<and> n < NUM_PRODUCTS cfg)
      \<and> (\<exists>n. map_of row ''sales_rep_id'' = Some (Str (''SREP'' @ fmt_d 8 n))
            \<and> 0 \<le> n \<and> n < NUM_SALES_REPS cfg)"
proof -
  obtain c where c: "map_of row ''customer_id'' = Some (Str (''CUST'' @ fmt_d 8 c))"
    "0 \<le> c" "c \<le> NUM_CUSTOMERS cfg - 1"
    using transaction_record_customer[OF assms] by blast
  obtain p where p: "map_of row ''product_id'' = Some (Str (''PROD'' @ fmt_d 8 p))"
    "0 \<le> p" "p \<le> NUM_PRODUCTS cfg - 1"
    using transaction_record_product[OF assms] by blast
  obtain s where s: "map_of row ''sales_rep_id'' = Some (Str (''SREP'' @ fmt_d 8 s))"
    "0 \<le> s" "s \<le> NUM_SALES_REPS cfg - 1"
    using transaction_record_sales_rep[OF assms] by blast
  have "c < NUM_CUSTOMERS cfg" "p < NUM_PRODUCTS cfg" "s < NUM_SALES_REPS cfg"
    using c(3) p(3) s(3) by simp_all
  then show ?thesis using c(1,2) p(1,2) s(1,2) by blast
qed

lemma transaction_record_legacy_references:
  assumes "transaction_record_legacy E cfg st nd i g = (Inr row, g')"
  shows "(\<exists>n. map_of row ''customer_id'' = Some (Str (''CUST'' @ fmt_d 6 n))
            \<and> 0 \<le> n \<and> n < NUM_CUSTOMERS cfg)
      \<and> (\<exists>n. map_of row ''product_id'' = Some (Str (''PROD'' @ fmt_d 6 n))
            \<and> 0 \<le> n \<and> n < NUM_PRODUCTS cfg)
      \<and> (\<exists>n. map_of row ''sales_rep_id'' = Some (Str (''SREP'' @ fmt_d 4 n))
            \<and> 1 \<le> n \<and> n \<le> NUM_SALES_REPS cfg)"
proof -
  obtain c where c: "map_of row ''customer_id'' = Some (Str (''CUST'' @ fmt_d 6 c))"
    "0 \<le> c" "c \<le> NUM_CUSTOMERS cfg - 1"
    using transaction_record_legacy_customer[OF assms] by blast
  obtain p where p: "map_of row ''product_id'' = Some (Str (''PROD'' @ fmt_d 6 p))"
    "0 \<le> p" "p \<le> NUM_PRODUCTS cfg - 1"
    using transaction_record_legacy_product[OF assms] by blast
  obtain s where s: "map_of row ''sales_rep_id'' = Some (Str (''SREP'' @ fmt_d 4 s))"
    "1 \<le> s" "s \<le> NUM_SALES_REPS cfg"
    using transaction_record_legacy_sales_rep[OF assms] by blast
  have "c < NUM_CUSTOMERS cfg" "p < NUM_PRODUCTS cfg"
    using c(3) p(3) by simp_all
  then show ?thesis using c(1,2) p(1,2) s by blast
qed

lemma written_rows_footprint:
  assumes "\<forall>ev \<in> set new. ev = Mkdir d \<or> (\<exists>f rows. ev = Write f rows \<and> X f
           \<and> (\<forall>row \<in> set rows. P row))"
  shows "\<forall>row \<in> set (written_rows new). P row"
  using assms by (induction new rule: written.induct) (auto simp: written_rows_def)

lemma generate_all_transactions_rows:
  assumes "generate_all_transactions E cfg w = (r, w')"
  shows "\<forall>row \<in> set (written_rows (new_events w w')).
      (\<exists>n. map_of row ''customer_id'' = Some (Str (''CUST'' @ fmt_d 8 n))
            \<and> 0 \<le> n \<and> n < NUM_CUSTOMERS cfg)
      \<and> (\<exists>n. map_of row ''product_id'' = Some (Str (''PROD'' @ fmt_d 8 n))
            \<and> 0 \<le> n \<and> n < NUM_PRODUCTS cfg)
      \<and> (\<exists>n. map_of row ''sales_rep_id'' = Some (Str (''SREP'' @ fmt_d 8 n))
            \<and> 0 \<le> n \<and> n < NUM_SALES_REPS cfg)"
proof -
  have "\<exists>new. events w' = events w @ new
     \<and> (\<forall>ev \<in> set new. ev = Mkdir ''generated-data/transactions''
        \<or> (\<exists>f rows. ev = Write f rows \<and> prefix (''generated-data/transactions'' @ ''/'') f
           \<and> (\<forall>row \<in> set rows. (\<exists>n. map_of row ''customer_id'' = Some (Str (''CUST'' @ fmt_d 8 n))
            \<and> 0 \<le> n \<and> n < NUM_CUSTOMERS cfg)
      \<and> (\<exists>n. map_of row ''product_id'' = Some (Str (''PROD'' @ fmt_d 8 n))
            \<and> 0 \<le> n \<and> n < NUM_PRODUCTS cfg)
      \<and> (\<exists>n. map_of row ''sales_rep_id'' = Some (Str (''SREP'' @ fmt_d 8 n))
            \<and> 0 \<le> n \<and> n < NUM_SALES_REPS cfg))))"
    using assms unfolding generate_all_transactions_def
    by (rule transactions_pipeline_footprint) (blast dest: transaction_record_references)
  then obtain new where e: "events w' = events w @ new"
    and a: "\<forall>ev \<in> set new. ev = Mkdir ''generated-data/transactions''
        \<or> (\<exists>f rows. ev = Write f rows \<and> prefix (''generated-data/transactions'' @ ''/'') f
           \<and> (\<forall>row \<in> set rows. (\<exists>n. map_of row ''customer_id'' = Some (Str (''CUST'' @ fmt_d 8 n))
            \<and> 0 \<le> n \<and> n < NUM_CUSTOMERS cfg)
      \<and> (\<exists>n. map_of row ''product_id'' = Some (Str (''PROD'' @ fmt_d 8 n))
            \<and> 0 \<le> n \<and> n < NUM_PRODUCTS cfg)
      \<and> (\<exists>n. map_of row ''sales_rep_id'' = Some (Str (''SREP'' @ fmt_d 8 n))
            \<and> 0 \<le> n \<and> n < NUM_SALES_REPS cfg)))"
    by blast
  have "new_events w w' = new" using e by (rule new_events_append)
  then show ?thesis using written_rows_footprint[OF a] by simp
qed

lemma generate_all_transactions_legacy_rows:
  assumes "generate_all_transactions_legacy E cfg w = (r, w')"
  shows "\<forall>row \<in> set (written_rows (new_events w w')).
      (\<exists>n. map_of row ''customer_id'' = Some (Str (''CUST'' @ fmt_d 6 n))
            \<and> 0 \<le> n \<and> n < NUM_CUSTOMERS cfg)
      \<and> (\<exists>n. map_of row ''product_id'' = Some (Str (''PROD'' @ fmt_d 6 n))
            \<and> 0 \<le> n \<and> n < NUM_PRODUCTS cfg)
      \<and> (\<exists>n. map_of row ''sales_rep_id'' = Some (Str (''SREP'' @ fmt_d 4 n))
            \<and> 1 \<le> n \<and> n \<le> NUM_SALES_REPS cfg)"
proof -
  have "\<exists>new. events w' = events w @ new
     \<and> (\<forall>ev \<in> set new. ev = Mkdir ''generated-data/transactions''
        \<or> (\<exists>f rows. ev = Write f rows \<and> prefix (''generated-data/transactions'' @ ''/'') f
           \<and> (\<forall>row \<in> set rows. (\<exists>n. map_of row ''customer_id'' = Some (Str (''CUST'' @ fmt_d 6 n))
            \<and> 0 \<le> n \<and> n < NUM_CUSTOMERS cfg)
      \<and> (\<exists>n. map_of row ''product_id'' = Some (Str (''PROD'' @ fmt_d 6 n))
            \<and> 0 \<le> n \<and> n < NUM_PRODUCTS cfg)
      \<and> (\<exists>n. map_of row ''sales_rep_id'' = Some (Str (''SREP'' @ fmt_d 4 n))
            \<and> 1 \<le> n \<and> n \<le> NUM_SALES_REPS cfg))))"
    using assms unfolding generate_all_transactions_legacy_def
    by (rule transactions_pipeline_footprint) (blast dest: transaction_record_legacy_references)
  then obtain new where e: "events w' = events w @ new"
    and a: "\<forall>ev \<in> set new. ev = Mkdir ''generated-data/transactions''
        \<or> (\<exists>f rows. ev = Write f rows \<and> prefix (''generated-data/transactions'' @ ''/'') f
           \<and> (\<forall>row \<in> set rows. (\<exists>n. map_of row ''customer_id'' = Some (Str (''CUST'' @ fmt_d 6 n))
            \<and> 0 \<le> n \<and> n < NUM_CUSTOMERS cfg)
      \<and> (\<exists>n. map_of row ''product_id'' = Some (Str (''PROD'' @ fmt_d 6 n))
            \<and> 0 \<le> n \<and> n < NUM_PRODUCTS cfg)
      \<and> (\<exists>n. map_of row ''sales_rep_id'' = Some (Str (''SREP'' @ fmt_d 4 n))
            \<and> 1 \<le> n \<and> n \<le> NUM_SALES_REPS cfg)))"
    by blast
  have "new_events w w' = new" using e by (rule new_events_append)
  then show ?thesis using written_rows_footprint[OF a] by simp
qed

text \<open>
  Claim C2, as amended. Every transaction written by the first transaction pipeline of
  \<open>complete_generator.py\<close>, whether it then ends normally or not, has as \<open>customer_id\<close>,
  \<open>product_id\<close> and \<open>sales_rep_id\<close> the strings \<open>CUST\<close>, \<open>PROD\<close> and \<open>SREP\<close> followed by
  the decimal digits, zero-padded to eight places, of a number of \<open>[0, NUM_CUSTOMERS)\<close>,
  \<open>[0, NUM_PRODUCTS)\<close> and \<open>[0, NUM_SALES_REPS)\<close>. Every transaction written by the
  redefined pipeline has \<open>CUST\<close> and \<open>PROD\<close> followed by a number of the same two ranges
  padded to six places, and \<open>SREP\<close> followed by a number of \<open>[1, NUM_SALES_REPS]\<close> padded to
  four places.
\<close>

theorem C2_transaction_references:
  "(\<forall>row \<in> set (written_rows (new_events w (snd (generate_all_transactions E cfg w)))).
      (\<exists>n. map_of row ''customer_id'' = Some (Str (''CUST'' @ fmt_d 8 n))
            \<and> 0 \<le> n \<and> n < NUM_CUSTOMERS cfg)
      \<and> (\<exists>n. map_of row ''product_id'' = Some (Str (''PROD'' @ fmt_d 8 n))
            \<and> 0 \<le> n \<and> n < NUM_PRODUCTS cfg)
      \<and> (\<exists>n. map_of row ''sales_rep_id'' = Some (Str (''SREP'' @ fmt_d 8 n))
            \<and> 0 \<le> n \<and> n < NUM_SALES_REPS cfg))
   \<and> (\<forall>row \<in> set (written_rows (new_events w (snd (generate_all_transactions_legacy E cfg w)))).
      (\<exists>n. map_of row ''customer_id'' = Some (Str (''CUST'' @ fmt_d 6 n))
            \<and> 0 \<le> n \<and> n < NUM_CUSTOMERS cfg)
      \<and> (\<exists>n. map_of row ''product_id'' = Some (Str (''PROD'' @ fmt_d 6 n))
            \<and> 0 \<le> n \<and> n < NUM_PRODUCTS cfg)
      \<and> (\<exists>n. map_of row ''sales_rep_id'' = Some (Str (''SREP'' @ fmt_d 4 n))
            \<and> 1 \<le> n \<and> n \<le> NUM_SALES_REPS cfg))"
proof (rule conjI)
  show "\<forall>row \<in> set (written_rows (new_events w (snd (generate_all_transactions E cfg w)))).
      (\<exists>n. map_of row ''customer_id'' = Some (Str (''CUST'' @ fmt_d 8 n))
            \<and> 0 \<le> n \<and> n < NUM_CUSTOMERS cfg)
      \<and> (\<exists>n. map_of row ''product_id'' = Some (Str (''PROD'' @ fmt_d 8 n))
            \<and> 0 \<le> n \<and> n < NUM_PRODUCTS cfg)
      \<and> (\<exists>n. map_of row ''sales_rep_id'' = Some (Str (''SREP'' @ fmt_d 8 n))
            \<and> 0 \<le> n \<and> n < NUM_SALES_REPS cfg)"
    by (rule generate_all_transactions_rows[of E cfg w "fst (generate_all_transactions E cfg w)"])
       simp
  show "\<forall>row \<in> set (written_rows (new_events w (snd (generate_all_transactions_legacy E cfg w)))).
      (\<exists>n. map_of row ''customer_id'' = Some (Str (''CUST'' @ fmt_d 6 n))
            \<and> 0 \<le> n \<and> n < NUM_CUSTOMERS cfg)
      \<and> (\<exists>n. map_of row ''product_id'' = Some (Str (''PROD'' @ fmt_d 6 n))
            \<and> 0 \<le> n \<and> n < NUM_PRODUCTS cfg)
      \<and> (\<exists>n. map_of row ''sales_rep_id'' = Some (Str (''SREP'' @ fmt_d 4 n))
            \<and> 1 \<le> n \<and> n \<le> NUM_SALES_REPS cfg)"
    by (rule generate_all_transactions_legacy_rows[of E cfg w
          "fst (generate_all_transactions_legacy E cfg w)"]) simp
qed

lemma column_length: "length (column key rows) = length rows"
  by (simp add: column_def)

lemma sample_transactions:
  "\<exists>files w'. generate_all_transactions sample_env small_config initial_world = (Inr files, w')
     \<and> length (written_rows (new_events initial_world w')) = 3"
proof -
  obtain files w' where
    r: "generate_all_transactions sample_env small_config initial_world = (Inr files, w')"
    using generate_all_transactions_succeeds[where E = sample_env and cfg = small_config
          and w = initial_world and a = 738521 and b = 739251]
    by (auto simp: sample_simps)
  have "length (column ''transaction_id'' (written_rows (new_events initial_world w'))) = 3"
    using generate_all_transactions_Inr[OF r] by (simp add: sample_simps)
  then show ?thesis using r by (simp add: column_length)
qed

lemma sample_transactions_legacy:
  "\<exists>files w'. generate_all_transactions_legacy sample_env small_config initial_world
       = (Inr files, w')
     \<and> length (written_rows (new_events initial_world w')) = 3"
proof -
  obtain files w' where
    r: "generate_all_transactions_legacy sample_env small_config initial_world = (Inr files, w')"
    using generate_all_transactions_legacy_succeeds[where E = sample_env and cfg = small_config
          and w = initial_world and a = 738521 and b = 739251]
    by (auto simp: sample_simps)
  have "length (column ''transaction_id'' (written_rows (new_events initial_world w'))) = 3"
    using generate_all_transactions_legacy_Inr[OF r] by (simp add: sample_simps)
  then show ?thesis using r by (simp add: column_length)
qed

theorem C2_transaction_references_witness:
  "length (written_rows (new_events initial_world
      (snd (generate_all_transactions sample_env small_config initial_world)))) = 3
   \<and> list_all (\<lambda>row.
      (\<exists>n. map_of row ''customer_id'' = Some (Str (''CUST'' @ fmt_d 8 n))
            \<and> 0 \<le> n \<and> n < NUM_CUSTOMERS small_config)
      \<and> (\<exists>n. map_of row ''product_id'' = Some (Str (''PROD'' @ fmt_d 8 n))
            \<and> 0 \<le> n \<and> n < NUM_PRODUCTS small_config)
      \<and> (\<exists>n. map_of row ''sales_rep_id'' = Some (Str (''SREP'' @ fmt_d 8 n))
            \<and> 0 \<le> n \<and> n < NUM_SALES_REPS small_config))
     (written_rows (new_events initial_world
        (snd (generate_all_transactions sample_env small_config initial_world))))
   \<and> length (written_rows (new_events initial_world
      (snd (generate_all_transactions_legacy sample_env small_config initial_world)))) = 3
   \<and> list_all (\<lambda>row.
      (\<exists>n. map_of row ''customer_id'' = Some (Str (''CUST'' @ fmt_d 6 n))
            \<and> 0 \<le> n \<and> n < NUM_CUSTOMERS small_config)
      \<and> (\<exists>n. map_of row ''product_id'' = Some (Str (''PROD'' @ fmt_d 6 n))
            \<and> 0 \<le> n \<and> n < NUM_PRODUCTS small_config)
      \<and> (\<exists>n. map_of row ''sales_rep_id'' = Some (Str (''SREP'' @ fmt_d 4 n))
            \<and> 1 \<le> n \<and> n \<le> NUM_SALES_REPS small_config))
     (written_rows (new_events initial_world
        (snd (generate_all_transactions_legacy sample_env small_config initial_world))))"
proof -
  note th = C2_transaction_references[of initial_world sample_env small_config]
  have l1: "length (written_rows (new_events initial_world
      (snd (generate_all_transactions sample_env small_config initial_world)))) = 3"
    using sample_transactions by auto
  have l2: "length (written_rows (new_events initial_world
      (snd (generate_all_transactions_legacy sample_env small_config initial_world)))) = 3"
    using sample_transactions_legacy by auto
  show ?thesis using th l1 l2 unfolding list_all_iff by (intro conjI) blast+
qed

section \<open>The redefined sales representatives and the transactions that refer to them\<close>

lemma one_rep_simps:
  "NUM_CUSTOMERS one_rep_config = 5" "NUM_PRODUCTS one_rep_config = 3"
  "NUM_SALES_REPS one_rep_config = 1" "NUM_TRANSACTIONS one_rep_config = 3"
  "TRANSACTION_BATCH_SIZE one_rep_config = 2"
  "START_DATE one_rep_config = ''2023-01-01''" "END_DATE one_rep_config = ''2024-12-31''"
  "REGIONS one_rep_config \<noteq> []"
  by (simp_all add: one_rep_config_def small_config_def)

text \<open>
  The claim as stated fails on the redefined transaction pipeline: with a single sales
  representative configured it ends normally, writes three transactions, and each has the
  \<open>sales_rep_id\<close> \<open>SREP0001\<close>, which is not \<open>SREP\<close> followed by a number of \<open>[0, 1)\<close>,
  whatever the padding.
\<close>

theorem C2_legacy_sales_rep_counterexample:
  "NUM_SALES_REPS one_rep_config = 1
   \<and> length (written_rows (events
        (snd (generate_all_transactions_legacy sample_env one_rep_config initial_world)))) = 3
   \<and> list_all (\<lambda>row. map_of row ''sales_rep_id'' = Some (Str ''SREP0001''))
       (written_rows (events
        (snd (generate_all_transactions_legacy sample_env one_rep_config initial_world))))
   \<and> \<not> (\<forall>row \<in> set (written_rows (events
        (snd (generate_all_transactions_legacy sample_env one_rep_config initial_world)))).
          \<exists>wd n. map_of row ''sales_rep_id'' = Some (Str (''SREP'' @ fmt_d wd n))
            \<and> 0 \<le> n \<and> n < NUM_SALES_REPS one_rep_config)"
proof -
  let ?rows = "written_rows (events
        (snd (generate_all_transactions_legacy sample_env one_rep_config initial_world)))"
  obtain files w' where
    r: "generate_all_transactions_legacy sample_env one_rep_config initial_world = (Inr files, w')"
    using generate_all_transactions_legacy_succeeds[where E = sample_env and cfg = one_rep_config
          and w = initial_world and a = 738521 and b = 739251]
    by (auto simp: sample_simps one_rep_simps)
  have ne: "new_events initial_world w' = events w'"
    by (simp add: new_events_def initial_world_def)
  have "length (column ''transaction_id'' (written_rows (new_events initial_world w'))) = 3"
    using generate_all_transactions_legacy_Inr[OF r] by (simp add: one_rep_simps)
  then have len: "length ?rows = 3" using r ne by (simp add: column_length)
  have f1: "fmt_d 4 1 = ''0001''" by (simp add: format_eval)
  have one: "\<forall>row \<in> set ?rows. map_of row ''sales_rep_id'' = Some (Str ''SREP0001'')"
  proof
    fix row assume "row \<in> set ?rows"
    then have "row \<in> set (written_rows (new_events initial_world w'))" using r ne by simp
    then obtain n where n: "map_of row ''sales_rep_id'' = Some (Str (''SREP'' @ fmt_d 4 n))"
      "1 \<le> n" "n \<le> NUM_SALES_REPS one_rep_config"
      using generate_all_transactions_legacy_rows[OF r] by blast
    have "n = 1" using n(2,3) by (simp add: one_rep_simps)
    then show "map_of row ''sales_rep_id'' = Some (Str ''SREP0001'')"
      using n(1) f1 by simp
  qed
  have neg: "\<not> (\<forall>row \<in> set ?rows.
          \<exists>wd n. map_of row ''sales_rep_id'' = Some (Str (''SREP'' @ fmt_d wd n))
            \<and> 0 \<le> n \<and> n < NUM_SALES_REPS one_rep_config)"
  proof
    assume a: "\<forall>row \<in> set ?rows.
          \<exists>wd n. map_of row ''sales_rep_id'' = Some (Str (''SREP'' @ fmt_d wd n))
            \<and> 0 \<le> n \<and> n < NUM_SALES_REPS one_rep_config"
    from len have "?rows \<noteq> []" by auto
    then obtain row where row: "row \<in> set ?rows" by (cases ?rows) auto
    then have v: "map_of row ''sales_rep_id'' = Some (Str ''SREP0001'')" using one by blast
    obtain wd n where n: "map_of row ''sales_rep_id'' = Some (Str (''SREP'' @ fmt_d wd n))"
      "0 \<le> n" "n < 1"
      using a row by (auto simp: one_rep_simps)
    have "n = 0" using n(2,3) by simp
    then have "''0001'' = fmt_d wd 0" using v n(1) by simp
    then have "undigits ''0001'' = undigits (fmt_d wd 0)" by simp
    moreover have "undigits ''0001'' = 1" by (simp add: undigits_def)
    moreover have "undigits (fmt_d wd 0) = 0" using undigits_fmt_d[of 0 wd] by simp
    ultimately show False by simp
  qed
  show ?thesis using len one neg by (simp add: one_rep_simps list_all_iff)
qed

subsection \<open>Footprints and the main blocks\<close>

lemma under_footprint:
  "ev = Mkdir d \<or> (\<exists>f rows. ev = Write f rows \<and> prefix (d @ ''/'') f \<and> X rows) \<Longrightarrow> under d ev"
  by auto

lemma table_rows_append [simp]: "table_rows d (xs @ ys) = table_rows d xs @ table_rows d ys"
  by (simp add: table_rows_def)

lemma table_rows_under: "\<forall>ev \<in> set evs. under d ev \<Longrightarrow> table_rows d evs = written_rows evs"
  by (induction evs rule: written.induct) (auto simp: table_rows_def written_rows_def)

lemma under_disjoint:
  assumes "under d' ev" and "\<not> prefix (d @ ''/'') (d' @ ''/'')"
    and "\<not> prefix (d' @ ''/'') (d @ ''/'')" and "d \<noteq> d'"
  shows "\<not> under d ev"
proof (cases ev)
  case (Write f rows)
  show ?thesis
  proof
    assume "under d ev"
    then have "prefix (d @ ''/'') f" "prefix (d' @ ''/'') f" using assms(1) Write by simp_all
    then have "prefix (d @ ''/'') (d' @ ''/'') \<or> prefix (d' @ ''/'') (d @ ''/'')"
      by (rule prefix_same_cases)
    then show False using assms(2,3) by simp
  qed
qed (use assms in auto)

lemma table_rows_foreign:
  assumes "\<forall>ev \<in> set evs. under d' ev" and "\<not> prefix (d @ ''/'') (d' @ ''/'')"
    and "\<not> prefix (d' @ ''/'') (d @ ''/'')"
  shows "table_rows d evs = []"
proof -
  have "\<not> prefix (d @ ''/'') (fst t)" if "t \<in> set (written evs)" for t
  proof
    assume p: "prefix (d @ ''/'') (fst t)"
    from that assms(1) have "prefix (d' @ ''/'') (fst t)"
      by (induction evs rule: written.induct) auto
    with p have "prefix (d @ ''/'') (d' @ ''/'') \<or> prefix (d' @ ''/'') (d @ ''/'')"
      by (rule prefix_same_cases)
    then show False using assms(2,3) by simp
  qed
  then show ?thesis by (simp add: table_rows_def)
qed

subsection \<open>Each pipeline only touches its own directory\<close>

lemma generate_all_customers_footprint:
  assumes "generate_all_customers E cfg w = (r, w')"
  shows "\<exists>new. events w' = events w @ new \<and> (\<forall>ev \<in> set new. under ''generated-data/customers'' ev)"
proof -
  have "\<exists>new. events w' = events w @ new
     \<and> (\<forall>ev \<in> set new. ev = Mkdir ''generated-data/customers''
        \<or> (\<exists>f rows. ev = Write f rows \<and> prefix (''generated-data/customers'' @ ''/'') f
           \<and> (\<forall>row \<in> set rows. True)))"
    using assms unfolding generate_all_customers_def generate_customer_batch_eq
    by (rule pipeline_footprint) simp
  then obtain new where e: "events w' = events w @ new"
    and a: "\<forall>ev \<in> set new. ev = Mkdir ''generated-data/customers''
        \<or> (\<exists>f rows. ev = Write f rows \<and> prefix (''generated-data/customers'' @ ''/'') f
           \<and> (\<forall>row \<in> set rows. True))"
    by blast
  have "\<forall>ev \<in> set new. under ''generated-data/customers'' ev"
  proof
    fix ev assume "ev \<in> set new"
    then have "ev = Mkdir ''generated-data/customers''
        \<or> (\<exists>f rows. ev = Write f rows \<and> prefix (''generated-data/customers'' @ ''/'') f
           \<and> (\<forall>row \<in> set rows. True))" using a by blast
    then show "under ''generated-data/customers'' ev" by (rule under_footprint)
  qed
  then show ?thesis using e by blast
qed

lemma generate_products_footprint:
  assumes "generate_products E cfg w = (r, w')"
  shows "\<exists>new. events w' = events w @ new \<and> (\<forall>ev \<in> set new. under ''generated-data/products'' ev)"
proof -
  have "\<exists>new. events w' = events w @ new
     \<and> (\<forall>ev \<in> set new. ev = Mkdir ''generated-data/products''
        \<or> (\<exists>f rows. ev = Write f rows \<and> prefix (''generated-data/products'' @ ''/'') f
           \<and> (\<forall>row \<in> set rows. True)))"
    using assms unfolding generate_products_def
    by (rule pipeline_footprint) simp
  then obtain new where e: "events w' = events w @ new"
    and a: "\<forall>ev \<in> set new. ev = Mkdir ''generated-data/products''
        \<or> (\<exists>f rows. ev = Write f rows \<and> prefix (''generated-data/products'' @ ''/'') f
           \<and> (\<forall>row \<in> set rows. True))"
    by blast
  have "\<forall>ev \<in> set new. under ''generated-data/products'' ev"
  proof
    fix ev assume "ev \<in> set new"
    then have "ev = Mkdir ''generated-data/products''
        \<or> (\<exists>f rows. ev = Write f rows \<and> prefix (''generated-data/products'' @ ''/'') f
           \<and> (\<forall>row \<in> set rows. True))" using a by blast
    then show "under ''generated-data/products'' ev" by (rule under_footprint)
  qed
  then show ?thesis using e by blast
qed

lemma generate_sales_reps_footprint:
  assumes "generate_sales_reps E cfg w = (r, w')"
  shows "\<exists>new. events w' = events w @ new \<and> (\<forall>ev \<in> set new. under ''generated-data/sales-reps'' ev)"
proof -
  have "\<exists>new. events w' = events w @ new
     \<and> (\<forall>ev \<in> set new. ev = Mkdir ''generated-data/sales-reps''
        \<or> (\<exists>f rows. ev = Write f rows \<and> prefix (''generated-data/sales-reps'' @ ''/'') f
           \<and> (\<forall>row \<in> set rows. True)))"
    using assms unfolding generate_sales_reps_def
    by (rule pipeline_footprint) simp
  then obtain new where e: "events w' = events w @ new"
    and a: "\<forall>ev \<in> set new. ev = Mkdir ''generated-data/sales-reps''
        \<or> (\<exists>f rows. ev = Write f rows \<and> prefix (''generated-data/sales-reps'' @ ''/'') f
           \<and> (\<forall>row \<in> set rows. True))"
    by blast
  have "\<forall>ev \<in> set new. under ''generated-data/sales-reps'' ev"
  proof
    fix ev assume "ev \<in> set new"
    then have "ev = Mkdir ''generated-data/sales-reps''
        \<or> (\<exists>f rows. ev = Write f rows \<and> prefix (''generated-data/sales-reps'' @ ''/'') f
           \<and> (\<forall>row \<in> set rows. True))" using a by blast
    then show "under ''generated-data/sales-reps'' ev" by (rule under_footprint)
  qed
  then show ?thesis using e by blast
qed

lemma generate_all_transactions_footprint:
  assumes "generate_all_transactions E cfg w = (r, w')"
  shows "\<exists>new. events w' = events w @ new \<and> (\<forall>ev \<in> set new. under ''generated-data/transactions'' ev)"
proof -
  have "\<exists>new. events w' = events w @ new
     \<and> (\<forall>ev \<in> set new. ev = Mkdir ''generated-data/transactions''
        \<or> (\<exists>f rows. ev = Write f rows \<and> prefix (''generated-data/transactions'' @ ''/'') f
           \<and> (\<forall>row \<in> set rows. True)))"
    using assms unfolding generate_all_transactions_def
    by (rule transactions_pipeline_footprint) simp
  then obtain new where e: "events w' = events w @ new"
    and a: "\<forall>ev \<in> set new. ev = Mkdir ''generated-data/transactions''
        \<or> (\<exists>f rows. ev = Write f rows \<and> prefix (''generated-data/transactions'' @ ''/'') f
           \<and> (\<forall>row \<in> set rows. True))"
    by blast
  have "\<forall>ev \<in> set new. under ''generated-data/transactions'' ev"
  proof
    fix ev assume "ev \<in> set new"
    then have "ev = Mkdir ''generated-data/transactions''
        \<or> (\<exists>f rows. ev = Write f rows \<and> prefix (''generated-data/transactions'' @ ''/'') f
           \<and> (\<forall>row \<in> set rows. True))" using a by blast
    then show "under ''generated-data/transactions'' ev" by (rule under_footprint)
  qed
  then show ?thesis using e by blast
qed

lemma generate_all_customers_legacy_footprint:
  assumes "generate_all_customers_legacy E cfg w = (r, w')"
  shows "\<exists>new. events w' = events w @ new \<and> (\<forall>ev \<in> set new. under ''generated-data/customers'' ev)"
proof -
  have "\<exists>new. events w' = events w @ new
     \<and> (\<forall>ev \<in> set new. ev = Mkdir ''generated-data/customers''
        \<or> (\<exists>f rows. ev = Write f rows \<and> prefix (''generated-data/customers'' @ ''/'') f
           \<and> (\<forall>row \<in> set rows. True)))"
    using assms unfolding generate_all_customers_legacy_def generate_customer_batch_legacy_eq
    by (rule pipeline_footprint) simp
  then obtain new where e: "events w' = events w @ new"
    and a: "\<forall>ev \<in> set new. ev = Mkdir ''generated-data/customers''
        \<or> (\<exists>f rows. ev = Write f rows \<and> prefix (''generated-data/customers'' @ ''/'') f
           \<and> (\<forall>row \<in> set rows. True))"
    by blast
  have "\<forall>ev \<in> set new. under ''generated-data/customers'' ev"
  proof
    fix ev assume "ev \<in> set new"
    then have "ev = Mkdir ''generated-data/customers''
        \<or> (\<exists>f rows. ev = Write f rows \<and> prefix (''generated-data/customers'' @ ''/'') f
           \<and> (\<forall>row \<in> set rows. True))" using a by blast
    then show "under ''generated-data/customers'' ev" by (rule under_footprint)
  qed
  then show ?thesis using e by blast
qed

lemma generate_products_legacy_footprint:
  assumes "generate_products_legacy E cfg w = (r, w')"
  shows "\<exists>new. events w' = events w @ new \<and> (\<forall>ev \<in> set new. under ''generated-data/products'' ev)"
proof -
  have "\<exists>new. events w' = events w @ new
     \<and> (\<forall>ev \<in> set new. ev = Mkdir ''generated-data/products''
        \<or> (\<exists>f rows. ev = Write f rows \<and> prefix (''generated-data/products'' @ ''/'') f
           \<and> (\<forall>row \<in> set rows. True)))"
    using assms unfolding generate_products_legacy_def
    by (rule pipeline_footprint) simp
  then obtain new where e: "events w' = events w @ new"
    and a: "\<forall>ev \<in> set new. ev = Mkdir ''generated-data/products''
        \<or> (\<exists>f rows. ev = Write f rows \<and> prefix (''generated-data/products'' @ ''/'') f
           \<and> (\<forall>row \<in> set rows. True))"
    by blast
  have "\<forall>ev \<in> set new. under ''generated-data/products'' ev"
  proof
    fix ev assume "ev \<in> set new"
    then have "ev = Mkdir ''generated-data/products''
        \<or> (\<exists>f rows. ev = Write f rows \<and> prefix (''generated-data/products'' @ ''/'') f
           \<and> (\<forall>row \<in> set rows. True))" using a by blast
    then show "under ''generated-data/products'' ev" by (rule under_footprint)
  qed
  then show ?thesis using e by blast
qed

lemma generate_all_transactions_legacy_footprint:
  assumes "generate_all_transactions_legacy E cfg w = (r, w')"
  shows "\<exists>new. events w' = events w @ new \<and> (\<forall>ev \<in> set new. under ''generated-data/transactions'' ev)"
proof -
  have "\<exists>new. events w' = events w @ new
     \<and> (\<forall>ev \<in> set new. ev = Mkdir ''generated-data/transactions''
        \<or> (\<exists>f rows. ev = Write f rows \<and> prefix (''generated-data/transactions'' @ ''/'') f
           \<and> (\<forall>row \<in> set rows. True)))"
    using assms unfolding generate_all_transactions_legacy_def
    by (rule transactions_pipeline_footprint) simp
  then obtain new where e: "events w' = events w @ new"
    and a: "\<forall>ev \<in> set new. ev = Mkdir ''generated-data/transactions''
        \<or> (\<exists>f rows. ev = Write f rows \<and> prefix (''generated-data/transactions'' @ ''/'') f
           \<and> (\<forall>row \<in> set rows. True))"
    by blast
  have "\<forall>ev \<in> set new. under ''generated-data/transactions'' ev"
  proof
    fix ev assume "ev \<in> set new"
    then have "ev = Mkdir ''generated-data/transactions''
        \<or> (\<exists>f rows. ev = Write f rows \<and> prefix (''generated-data/transactions'' @ ''/'') f
           \<and> (\<forall>row \<in> set rows. True))" using a by blast
    then show "under ''generated-data/transactions'' ev" by (rule under_footprint)
  qed
  then show ?thesis using e by blast
qed

lemma generate_sales_reps_legacy_footprint:
  assumes "generate_sales_reps_legacy E cfg w = (r, w')"
  shows "\<exists>new. events w' = events w @ new \<and> (\<forall>ev \<in> set new. under ''generated-data/sales-reps'' ev)"
proof -
  from sales_reps_legacy_footprint[OF assms] obtain new where e: "events w' = events w @ new"
    and a: "\<forall>ev \<in> set new. ev = Mkdir ''generated-data/sales-reps''
          \<or> (\<exists>f rows. ev = Write f rows \<and> prefix (''generated-data/sales-reps'' @ ''/'') f)"
    by blast
  have "\<forall>ev \<in> set new. under ''generated-data/sales-reps'' ev" using a by auto
  then show ?thesis using e by blast
qed

subsection \<open>The main blocks, step by step\<close>

lemma first_main_block_Inr:
  assumes "first_main_block E cfg w = (Inr u, w')"
  obtains f1 w1 f2 w2 f3 w3 f4 where
    "generate_all_customers E cfg w = (Inr f1, w1)"
    "generate_products E cfg w1 = (Inr f2, w2)"
    "generate_sales_reps E cfg w2 = (Inr f3, w3)"
    "generate_all_transactions E cfg w3 = (Inr f4, w')"
    "\<not> scandir_fails E"
  using assms unfolding first_main_block_def scan_sizes_def
  by (auto elim!: bind_Inr_elim split: if_splits)

lemma second_main_block_Inr:
  assumes "second_main_block E cfg w = (Inr u, w')"
  obtains f1 w1 f2 w2 w3 f4 where
    "generate_all_customers_legacy E cfg w = (Inr f1, w1)"
    "generate_products_legacy E cfg w1 = (Inr f2, w2)"
    "generate_sales_reps_legacy E cfg w2 = (Inr (), w3)"
    "generate_all_transactions_legacy E cfg w3 = (Inr f4, w')"
  using assms unfolding second_main_block_def
  by (auto elim!: bind_Inr_elim)

lemma new_events_trans:
  assumes "events w1 = events w @ a" and "events w2 = events w1 @ b"
  shows "new_events w w2 = new_events w w1 @ new_events w1 w2"
  using assms by (simp add: new_events_def)

lemma new_events_ex:
  assumes "\<exists>new. events w' = events w @ new \<and> P new"
  shows "events w' = events w @ new_events w w' \<and> P (new_events w w')"
  using assms by (auto simp: new_events_def)

lemma second_main_block_succeeds:
  assumes "\<And>d. \<not> makedirs_fails E d" and "\<And>f. \<not> write_fails E f"
    and "CUSTOMER_BATCH_SIZE cfg \<noteq> 0" "PRODUCT_BATCH_SIZE cfg \<noteq> 0"
      "TRANSACTION_BATCH_SIZE cfg \<noteq> 0"
    and "CUSTOMER_SEGMENTS cfg \<noteq> []" "REGIONS cfg \<noteq> []" "COUNTRIES cfg \<noteq> []"
      "PRODUCT_CATEGORIES cfg \<noteq> []"
    and "strptime E (START_DATE cfg) = Some a" "strptime E (END_DATE cfg) = Some b" "a \<le> b"
    and "0 < NUM_CUSTOMERS cfg" "0 < NUM_PRODUCTS cfg" "0 < NUM_SALES_REPS cfg"
  shows "\<exists>u w'. second_main_block E cfg w = (Inr u, w')"
  unfolding second_main_block_def
proof (intro bind_succeeds)
  show "\<exists>a s1. generate_all_customers_legacy E cfg w = (Inr a, s1)"
    using assms by (intro generate_all_customers_legacy_succeeds) simp_all
next
  fix a0 :: "string list" and s1
  show "\<exists>a s1a. generate_products_legacy E cfg s1 = (Inr a, s1a)"
    using assms by (intro generate_products_legacy_succeeds) simp_all
next
  fix a0 a1 :: "string list" and s1 s2 :: world
  show "\<exists>a s1a. generate_sales_reps_legacy E cfg s2 = (Inr a, s1a)"
    using assms by (intro generate_sales_reps_legacy_succeeds) simp_all
next
  fix a0 a1 :: "string list" and a2 :: unit and s1 s2 s3 :: world
  show "\<exists>a s1a. generate_all_transactions_legacy E cfg s3 = (Inr a, s1a)"
    using assms by (intro generate_all_transactions_legacy_succeeds[where a = a and b = b]) simp_all
next
  fix a0 a1 a3 :: "string list" and a2 :: unit and s1 s2 s3 s4 :: world
  show "\<exists>b s'. ret () s4 = (Inr b, s')" by simp
qed

lemma first_main_block_succeeds:
  assumes "\<And>d. \<not> makedirs_fails E d" and "\<And>f. \<not> write_fails E f"
    and "\<not> scandir_fails E"
    and "CUSTOMER_BATCH_SIZE cfg \<noteq> 0" "PRODUCT_BATCH_SIZE cfg \<noteq> 0"
      "TRANSACTION_BATCH_SIZE cfg \<noteq> 0"
    and "CUSTOMER_SEGMENTS cfg \<noteq> []" "REGIONS cfg \<noteq> []" "COUNTRIES cfg \<noteq> []"
      "PRODUCT_CATEGORIES cfg \<noteq> []"
    and "strptime E (START_DATE cfg) = Some a" "strptime E (END_DATE cfg) = Some b" "a \<le> b"
    and "0 < NUM_CUSTOMERS cfg" "0 < NUM_PRODUCTS cfg" "0 < NUM_SALES_REPS cfg"
  shows "\<exists>u w'. first_main_block E cfg w = (Inr u, w')"
  unfolding first_main_block_def
proof (intro bind_succeeds)
  show "\<exists>a s1. generate_all_customers E cfg w = (Inr a, s1)"
    using assms by (intro generate_all_customers_succeeds) simp_all
next
  fix a0 :: "string list" and s1
  show "\<exists>a s1a. generate_products E cfg s1 = (Inr a, s1a)"
    using assms by (intro generate_products_succeeds) simp_all
next
  fix a0 a1 :: "string list" and s1 s2 :: world
  show "\<exists>a s1a. generate_sales_reps E cfg s2 = (Inr a, s1a)"
    using assms by (intro generate_sales_reps_succeeds) simp_all
next
  fix a0 a1 a2 :: "string list" and s1 s2 s3 :: world
  show "\<exists>a s1a. generate_all_transactions E cfg s3 = (Inr a, s1a)"
    using assms by (intro generate_all_transactions_succeeds[where a = a and b = b]) simp_all
next
  fix a0 a1 a2 a3 :: "string list" and s1 s2 s3 s4 :: world
  show "\<exists>b s'. scan_sizes E s4 = (Inr b, s')" using assms(3) by (simp add: scan_sizes_def)
qed

section \<open>Referential integrity of the redefined pipelines\<close>

lemma upto_shift: "map (\<lambda>i. f (i + 1)) [0..N - 1] = map f [1..N]"
proof -
  have a: "[0..N - 1] = map (\<lambda>j. 0 + int j) [0..<nat N]"
    using map_upt_upto_nat[of 0 N] by simp
  have b: "[1..N] = map (\<lambda>j. 1 + int j) [0..<nat N]"
    using map_upt_upto_nat[of 1 N] by simp
  show ?thesis unfolding a b by (simp add: comp_def add.commute)
qed

lemma generate_all_transactions_legacy_rep_rows:
  assumes "generate_all_transactions_legacy E cfg w = (r, w')"
  shows "\<forall>row \<in> set (written_rows (new_events w w')).
      map_of row ''sales_rep_id''
        \<in> set (map (\<lambda>i. Some (Str (''SREP'' @ fmt_d 4 i))) [1..NUM_SALES_REPS cfg])"
proof -
  let ?P = "\<lambda>row. map_of row ''sales_rep_id''
        \<in> set (map (\<lambda>i. Some (Str (''SREP'' @ fmt_d 4 i))) [1..NUM_SALES_REPS cfg])"
  have rec: "\<forall>st nd i g r g'. transaction_record_legacy E cfg st nd i g = (Inr r, g') \<longrightarrow> ?P r"
  proof (intro allI impI)
    fix st nd i g r g'
    assume "transaction_record_legacy E cfg st nd i g = (Inr r, g')"
    then obtain n where "map_of r ''sales_rep_id'' = Some (Str (''SREP'' @ fmt_d 4 n))"
      "1 \<le> n" "n \<le> NUM_SALES_REPS cfg"
      using transaction_record_legacy_sales_rep by blast
    then show "?P r" by (simp del: append.simps)
  qed
  have "\<exists>new. events w' = events w @ new
     \<and> (\<forall>ev \<in> set new. ev = Mkdir ''generated-data/transactions''
        \<or> (\<exists>f rows. ev = Write f rows \<and> prefix (''generated-data/transactions'' @ ''/'') f
           \<and> (\<forall>row \<in> set rows. ?P row)))"
    using assms unfolding generate_all_transactions_legacy_def
    by (rule transactions_pipeline_footprint) (rule rec)
  then obtain new where e: "events w' = events w @ new"
    and a: "\<forall>ev \<in> set new. ev = Mkdir ''generated-data/transactions''
        \<or> (\<exists>f rows. ev = Write f rows \<and> prefix (''generated-data/transactions'' @ ''/'') f
           \<and> (\<forall>row \<in> set rows. ?P row))"
    by blast
  have "new_events w w' = new" using e by (rule new_events_append)
  then show ?thesis using written_rows_footprint[OF a] by simp
qed

lemma sales_reps_legacy_written:
  assumes run: "generate_sales_reps_legacy E cfg w = (Inr u, w')"
  shows "\<exists>df. new_events w w' = [Mkdir ''generated-data/sales-reps'',
            Write (sales_reps_filename (OUTPUT_FORMAT cfg)) df]
     \<and> column ''sales_rep_id'' df
        = map (\<lambda>i. Some (Str (''SREP'' @ fmt_d 4 i))) [1..NUM_SALES_REPS cfg]"
  using sales_reps_legacy_Inr[OF run]
    upto_shift[of "\<lambda>i. Some (Str (''SREP'' @ fmt_d 4 i))" "NUM_SALES_REPS cfg"]
  by (simp del: append.simps)

lemma sales_reps_filename_cases:
  "sales_reps_filename fmt = ''generated-data/sales-reps/sales_reps.parquet''
   \<or> sales_reps_filename fmt = ''generated-data/sales-reps/sales_reps.csv''"
  by (simp add: sales_reps_filename_def extension_def)

lemma second_main_block_tables:
  assumes run: "second_main_block E cfg w = (Inr u, w')"
  shows "column ''sales_rep_id'' (table_rows ''generated-data/sales-reps'' (new_events w w'))
        = map (\<lambda>i. Some (Str (''SREP'' @ fmt_d 4 i))) [1..NUM_SALES_REPS cfg]
    \<and> (\<forall>row \<in> set (table_rows ''generated-data/transactions'' (new_events w w')).
        map_of row ''sales_rep_id''
          \<in> set (map (\<lambda>i. Some (Str (''SREP'' @ fmt_d 4 i))) [1..NUM_SALES_REPS cfg]))
    \<and> (\<exists>w3 f4. generate_all_transactions_legacy E cfg w3 = (Inr f4, w')
        \<and> table_rows ''generated-data/transactions'' (new_events w w')
            = written_rows (new_events w3 w'))"
proof -
  from run obtain f1 w1 f2 w2 w3 f4 where
    s1: "generate_all_customers_legacy E cfg w = (Inr f1, w1)" and
    s2: "generate_products_legacy E cfg w1 = (Inr f2, w2)" and
    s3: "generate_sales_reps_legacy E cfg w2 = (Inr (), w3)" and
    s4: "generate_all_transactions_legacy E cfg w3 = (Inr f4, w')"
    by (rule second_main_block_Inr)
  note n1 = new_events_ex[OF generate_all_customers_legacy_footprint[OF s1]]
  note n2 = new_events_ex[OF generate_products_legacy_footprint[OF s2]]
  note n3 = new_events_ex[OF generate_sales_reps_legacy_footprint[OF s3]]
  note n4 = new_events_ex[OF generate_all_transactions_legacy_footprint[OF s4]]
  have split: "new_events w w' = new_events w w1 @ new_events w1 w2 @ new_events w2 w3
      @ new_events w3 w'"
  proof -
    obtain a where a: "events w1 = events w @ a" using n1 by blast
    obtain b where b: "events w2 = events w1 @ b" using n2 by blast
    obtain c where c: "events w3 = events w2 @ c" using n3 by blast
    obtain d where d: "events w' = events w3 @ d" using n4 by blast
    show ?thesis by (simp add: new_events_def a b c d)
  qed
  from sales_reps_legacy_written[OF s3] obtain df where
    df: "new_events w2 w3 = [Mkdir ''generated-data/sales-reps'',
            Write (sales_reps_filename (OUTPUT_FORMAT cfg)) df]"
    and ids: "column ''sales_rep_id'' df
        = map (\<lambda>i. Some (Str (''SREP'' @ fmt_d 4 i))) [1..NUM_SALES_REPS cfg]"
    by blast
  have t1: "table_rows ''generated-data/transactions'' (new_events w w1) = []"
    using n1 by (intro table_rows_foreign[where d' = "''generated-data/customers''"]) simp_all
  have t2: "table_rows ''generated-data/transactions'' (new_events w1 w2) = []"
    using n2 by (intro table_rows_foreign[where d' = "''generated-data/products''"]) simp_all
  have t3: "table_rows ''generated-data/transactions'' (new_events w2 w3) = []"
    using n3 by (intro table_rows_foreign[where d' = "''generated-data/sales-reps''"]) simp_all
  have t4: "table_rows ''generated-data/transactions'' (new_events w3 w')
      = written_rows (new_events w3 w')"
    using n4 by (intro table_rows_under) simp
  have r1: "table_rows ''generated-data/sales-reps'' (new_events w w1) = []"
    using n1 by (intro table_rows_foreign[where d' = "''generated-data/customers''"]) simp_all
  have r2: "table_rows ''generated-data/sales-reps'' (new_events w1 w2) = []"
    using n2 by (intro table_rows_foreign[where d' = "''generated-data/products''"]) simp_all
  have "table_rows ''generated-data/sales-reps'' (new_events w2 w3)
      = written_rows (new_events w2 w3)"
    using n3 by (intro table_rows_under) simp
  then have r3: "table_rows ''generated-data/sales-reps'' (new_events w2 w3) = df"
    by (simp add: df written_rows_def)
  have r4: "table_rows ''generated-data/sales-reps'' (new_events w3 w') = []"
    using n4 by (intro table_rows_foreign[where d' = "''generated-data/transactions''"]) simp_all
  have T: "table_rows ''generated-data/transactions'' (new_events w w')
      = written_rows (new_events w3 w')"
    by (simp add: split t1 t2 t3 t4)
  have R: "table_rows ''generated-data/sales-reps'' (new_events w w') = df"
    by (simp add: split r1 r2 r3 r4)
  have "\<exists>w3 f4. generate_all_transactions_legacy E cfg w3 = (Inr f4, w')
        \<and> table_rows ''generated-data/transactions'' (new_events w w')
            = written_rows (new_events w3 w')"
    using s4 T by blast
  then show ?thesis
    using generate_all_transactions_legacy_rep_rows[OF s4] ids
    by (simp only: T R)
qed

text \<open>
  Claim C10. The redefined \<open>generate_sales_reps\<close>, when it ends normally, has created the
  directory and written one single table, \<open>sales_reps.parquet\<close> or \<open>sales_reps.csv\<close>, whose
  identifiers are \<open>SREP\<close> followed by the numbers \<open>1 .. NUM_SALES_REPS\<close> padded to four
  digits. Every transaction the redefined \<open>generate_all_transactions\<close> writes carries a
  \<open>sales_rep_id\<close> from that list; and when the second main block ends normally, the
  \<open>sales_rep_id\<close> of every row written below \<open>generated-data/transactions\<close> in that block
  is among the \<open>sales_rep_id\<close> values written below \<open>generated-data/sales-reps\<close> in that
  block.
\<close>

theorem C10_legacy_sales_rep_references:
  "(\<forall>u w'. generate_sales_reps_legacy E cfg w = (Inr u, w') \<longrightarrow>
      (\<exists>df. new_events w w' = [Mkdir ''generated-data/sales-reps'',
              Write (sales_reps_filename (OUTPUT_FORMAT cfg)) df]
         \<and> column ''sales_rep_id'' df
            = map (\<lambda>i. Some (Str (''SREP'' @ fmt_d 4 i))) [1..NUM_SALES_REPS cfg]))
   \<and> (sales_reps_filename (OUTPUT_FORMAT cfg) = ''generated-data/sales-reps/sales_reps.parquet''
      \<or> sales_reps_filename (OUTPUT_FORMAT cfg) = ''generated-data/sales-reps/sales_reps.csv'')
   \<and> (\<forall>row \<in> set (written_rows (new_events w
          (snd (generate_all_transactions_legacy E cfg w)))).
        map_of row ''sales_rep_id''
          \<in> set (map (\<lambda>i. Some (Str (''SREP'' @ fmt_d 4 i))) [1..NUM_SALES_REPS cfg]))
   \<and> (\<forall>u w'. second_main_block E cfg w = (Inr u, w') \<longrightarrow>
        (\<forall>row \<in> set (table_rows ''generated-data/transactions'' (new_events w w')).
           map_of row ''sales_rep_id''
             \<in> set (column ''sales_rep_id''
                 (table_rows ''generated-data/sales-reps'' (new_events w w')))))"
proof (intro conjI allI impI)
  fix u w' assume "generate_sales_reps_legacy E cfg w = (Inr u, w')"
  then show "\<exists>df. new_events w w' = [Mkdir ''generated-data/sales-reps'',
              Write (sales_reps_filename (OUTPUT_FORMAT cfg)) df]
         \<and> column ''sales_rep_id'' df
            = map (\<lambda>i. Some (Str (''SREP'' @ fmt_d 4 i))) [1..NUM_SALES_REPS cfg]"
    by (rule sales_reps_legacy_written)
next
  show "sales_reps_filename (OUTPUT_FORMAT cfg) = ''generated-data/sales-reps/sales_reps.parquet''
      \<or> sales_reps_filename (OUTPUT_FORMAT cfg) = ''generated-data/sales-reps/sales_reps.csv''"
    by (rule sales_reps_filename_cases)
next
  show "\<forall>row \<in> set (written_rows (new_events w
          (snd (generate_all_transactions_legacy E cfg w)))).
        map_of row ''sales_rep_id''
          \<in> set (map (\<lambda>i. Some (Str (''SREP'' @ fmt_d 4 i))) [1..NUM_SALES_REPS cfg])"
    by (rule generate_all_transactions_legacy_rep_rows[of E cfg w
          "fst (generate_all_transactions_legacy E cfg w)"]) simp
next
  fix u w' assume "second_main_block E cfg w = (Inr u, w')"
  from second_main_block_tables[OF this]
  show "\<forall>row \<in> set (table_rows ''generated-data/transactions'' (new_events w w')).
           map_of row ''sales_rep_id''
             \<in> set (column ''sales_rep_id''
                 (table_rows ''generated-data/sales-reps'' (new_events w w')))"
    by (simp only:) blast
qed

theorem C10_legacy_sales_rep_references_witness:
  "(\<exists>u w'. second_main_block sample_env small_config initial_world = (Inr u, w')
      \<and> column ''sales_rep_id''
            (table_rows ''generated-data/sales-reps'' (new_events initial_world w'))
          = [Some (Str ''SREP0001''), Some (Str ''SREP0002'')]
      \<and> length (table_rows ''generated-data/transactions'' (new_events initial_world w')) = 3
      \<and> list_all (\<lambda>row. map_of row ''sales_rep_id''
             \<in> set (column ''sales_rep_id''
                 (table_rows ''generated-data/sales-reps'' (new_events initial_world w'))))
           (table_rows ''generated-data/transactions'' (new_events initial_world w')))
   \<and> (\<exists>u w' df. generate_sales_reps_legacy sample_env small_config initial_world = (Inr u, w')
      \<and> new_events initial_world w' = [Mkdir ''generated-data/sales-reps'',
              Write ''generated-data/sales-reps/sales_reps.parquet'' df]
      \<and> column ''sales_rep_id'' df = [Some (Str ''SREP0001''), Some (Str ''SREP0002'')])"
proof -
  note th = C10_legacy_sales_rep_references[of sample_env small_config initial_world]
  obtain u w' where r: "second_main_block sample_env small_config initial_world = (Inr u, w')"
    using second_main_block_succeeds[where E = sample_env and cfg = small_config
        and w = initial_world and a = 738521 and b = 739251]
    by (auto simp: sample_simps)
  note t = second_main_block_tables[OF r]
  have ids: "column ''sales_rep_id''
            (table_rows ''generated-data/sales-reps'' (new_events initial_world w'))
          = [Some (Str ''SREP0001''), Some (Str ''SREP0002'')]"
    using t by (simp add: sample_simps upto_rec1 format_eval)
  obtain w3 f4 where s4: "generate_all_transactions_legacy sample_env small_config w3 = (Inr f4, w')"
    and T: "table_rows ''generated-data/transactions'' (new_events initial_world w')
            = written_rows (new_events w3 w')"
    using t by blast
  have "length (column ''transaction_id'' (written_rows (new_events w3 w'))) = 3"
    using generate_all_transactions_legacy_Inr[OF s4] by (simp add: sample_simps)
  then have len: "length (table_rows ''generated-data/transactions''
      (new_events initial_world w')) = 3"
    by (simp add: T column_length)
  have all: "list_all (\<lambda>row. map_of row ''sales_rep_id''
             \<in> set (column ''sales_rep_id''
                 (table_rows ''generated-data/sales-reps'' (new_events initial_world w'))))
           (table_rows ''generated-data/transactions'' (new_events initial_world w'))"
    using th r unfolding list_all_iff by blast
  have c1: "\<exists>u w'. second_main_block sample_env small_config initial_world = (Inr u, w')
      \<and> column ''sales_rep_id''
            (table_rows ''generated-data/sales-reps'' (new_events initial_world w'))
          = [Some (Str ''SREP0001''), Some (Str ''SREP0002'')]
      \<and> length (table_rows ''generated-data/transactions'' (new_events initial_world w')) = 3
      \<and> list_all (\<lambda>row. map_of row ''sales_rep_id''
             \<in> set (column ''sales_rep_id''
                 (table_rows ''generated-data/sales-reps'' (new_events initial_world w'))))
           (table_rows ''generated-data/transactions'' (new_events initial_world w'))"
    using r ids len all by blast
  obtain u2 w2 where r2: "generate_sales_reps_legacy sample_env small_config initial_world
      = (Inr u2, w2)"
    using generate_sales_reps_legacy_succeeds[where E = sample_env and cfg = small_config
        and w = initial_world]
    by (auto simp: sample_simps)
  from th r2 obtain df where "new_events initial_world w2 = [Mkdir ''generated-data/sales-reps'',
              Write (sales_reps_filename (OUTPUT_FORMAT small_config)) df]"
    "column ''sales_rep_id'' df
            = map (\<lambda>i. Some (Str (''SREP'' @ fmt_d 4 i))) [1..NUM_SALES_REPS small_config]"
    by blast
  then have "new_events initial_world w2 = [Mkdir ''generated-data/sales-reps'',
              Write ''generated-data/sales-reps/sales_reps.parquet'' df]
      \<and> column ''sales_rep_id'' df = [Some (Str ''SREP0001''), Some (Str ''SREP0002'')]"
    by (simp add: sample_simps sales_reps_filename_def extension_def upto_rec1 format_eval)
  then have c2: "\<exists>u w' df. generate_sales_reps_legacy sample_env small_config initial_world
        = (Inr u, w')
      \<and> new_events initial_world w' = [Mkdir ''generated-data/sales-reps'',
              Write ''generated-data/sales-reps/sales_reps.parquet'' df]
      \<and> column ''sales_rep_id'' df = [Some (Str ''SREP0001''), Some (Str ''SREP0002'')]"
    using r2 by blast
  show ?thesis using c1 c2 by (rule conjI)
qed

section \<open>Configurations that are not checked\<close>

lemma num_batches_nonpos: assumes "0 < B" "N \<le> 0" shows "num_batches N B \<le> 0"
proof -
  have "(num_batches N B - 1) * B < 0" using nb_bounds(1)[OF assms(1), of N] assms(2) by simp
  then have "num_batches N B - 1 < 0" using assms(1) by (simp add: mult_less_0_iff)
  then show ?thesis by simp
qed

lemma batch_loop_empty:
  assumes "0 < B" "N \<le> 0"
  shows "batch_loop E dir stem wd fmt N B gb w = (Inr [], w)"
  using assms num_batches_nonpos[OF assms] by (simp add: batch_loop_def)

lemma pipeline_zero_batch:
  assumes "\<not> makedirs_fails E dir"
  shows "bind (makedirs E dir) (\<lambda>_. batch_loop E dir stem wd fmt N 0 gb) w
    = (Inl ZeroDivisionError, w\<lparr>events := events w @ [Mkdir dir]\<rparr>)"
  using assms by (simp add: bind_def makedirs_def batch_loop_zero)

lemma pipeline_empty:
  assumes "\<not> makedirs_fails E dir" "0 < B" "N \<le> 0"
  shows "bind (makedirs E dir) (\<lambda>_. batch_loop E dir stem wd fmt N B gb) w
    = (Inr [], w\<lparr>events := events w @ [Mkdir dir]\<rparr>)"
  using assms by (simp add: bind_def makedirs_def batch_loop_empty)




lemma customers_empty:
  assumes "\<not> makedirs_fails E ''generated-data/customers''" "0 < CUSTOMER_BATCH_SIZE cfg"
    "NUM_CUSTOMERS cfg \<le> 0"
  shows "generate_all_customers E cfg w
    = (Inr [], w\<lparr>events := events w @ [Mkdir ''generated-data/customers'']\<rparr>)"
  unfolding generate_all_customers_def using assms by (rule pipeline_empty)






section \<open>How the process ends\<close>

lemma complete_generator_cases:
  assumes "complete_generator E cfg w = (status, w')"
  obtains (both) w1 u1 u2 where "status = 0" "first_main_block E cfg w = (Inr u1, w1)"
      "second_main_block E cfg w1 = (Inr u2, w')"
    | (fail1) e w1 where "status = 1" "first_main_block E cfg w = (Inl e, w1)"
      "w' = w1\<lparr>events := events w1 @ [Banner e, Traceback e]\<rparr>"
    | (fail2) e w1 w2 u1 where "status = 1" "first_main_block E cfg w = (Inr u1, w1)"
      "second_main_block E cfg w1 = (Inl e, w2)"
      "w' = w2\<lparr>events := events w2 @ [Banner e, Traceback e]\<rparr>"
  using assms
  by (auto simp: complete_generator_def try_block_def split: prod.splits sum.splits)

lemma first_block_failure:
  assumes "first_main_block E cfg w = (Inl e, w1)"
  shows "complete_generator E cfg w = (1, w1\<lparr>events := events w1 @ [Banner e, Traceback e]\<rparr>)"
  using assms by (simp add: complete_generator_def try_block_def)

lemma customers_failure:
  assumes "generate_all_customers E cfg w = (Inl e, w1)"
  shows "first_main_block E cfg w = (Inl e, w1)"
  using assms by (simp add: first_main_block_def bind_Inl)

lemma products_failure:
  assumes "generate_all_customers E cfg w = (Inr f1, w1)"
    and "generate_products E cfg w1 = (Inl e, w2)"
  shows "first_main_block E cfg w = (Inl e, w2)"
  using assms by (simp add: first_main_block_def bind_Inl bind_Inr)

lemma sales_reps_failure:
  assumes "generate_all_customers E cfg w = (Inr f1, w1)"
    and "generate_products E cfg w1 = (Inr f2, w2)"
    and "generate_sales_reps E cfg w2 = (Inl e, w3)"
  shows "first_main_block E cfg w = (Inl e, w3)"
  using assms by (simp add: first_main_block_def bind_Inl bind_Inr)

lemma not_under_later:
  "under ''generated-data/customers'' ev \<Longrightarrow>
     \<not> under ''generated-data/products'' ev \<and> \<not> under ''generated-data/sales-reps'' ev
     \<and> \<not> under ''generated-data/transactions'' ev"
  "under ''generated-data/products'' ev \<Longrightarrow>
     \<not> under ''generated-data/sales-reps'' ev \<and> \<not> under ''generated-data/transactions'' ev"
  "under ''generated-data/sales-reps'' ev \<Longrightarrow> \<not> under ''generated-data/transactions'' ev"
  by (cases ev; auto simp: prefix_def)+

lemma num_batches_two: assumes "0 < B" "B < N" shows "2 \<le> num_batches N B"
proof (rule ccontr)
  assume "\<not> 2 \<le> num_batches N B"
  then have "num_batches N B \<le> 1" by simp
  then have "num_batches N B * B \<le> 1 * B" using assms(1) by (simp only: mult_right_mono)
  then show False using nb_bounds(2)[OF assms(1), of N] assms(2) by simp
qed

lemma generate_products_unwritable:
  assumes wf: "write_fails E
      (batch_filename ''generated-data/products'' ''products_batch_'' 5 (OUTPUT_FORMAT cfg) 1)"
    and B: "0 < PRODUCT_BATCH_SIZE cfg" "PRODUCT_BATCH_SIZE cfg < NUM_PRODUCTS cfg"
  shows "\<exists>e w'. generate_products E cfg w = (Inl e, w')"
proof (cases "generate_products E cfg w")
  case (Pair r w')
  show ?thesis
  proof (cases r)
    case (Inl e)
    then show ?thesis using Pair by blast
  next
    case (Inr files)
    from Pair Inr obtain w1 where
      l: "batch_loop E ''generated-data/products'' ''products_batch_'' 5 (OUTPUT_FORMAT cfg)
          (NUM_PRODUCTS cfg) (PRODUCT_BATCH_SIZE cfg) (rows_loop (product_record E cfg)) w1
        = (Inr files, w')"
      unfolding generate_products_def by (auto elim!: bind_Inr_elim)
    let ?nb = "nat (num_batches (NUM_PRODUCTS cfg) (PRODUCT_BATCH_SIZE cfg))"
    have "\<exists>new. list_all2 (\<lambda>k ev. \<exists>rows.
          ev = Write (batch_filename ''generated-data/products'' ''products_batch_'' 5
                 (OUTPUT_FORMAT cfg) (int k)) rows
          \<and> True
          \<and> \<not> write_fails E (batch_filename ''generated-data/products'' ''products_batch_'' 5
                 (OUTPUT_FORMAT cfg) (int k))) [0..<?nb] new"
      using batch_loop_Inr[where R = "\<lambda>s n rows. True", OF l] by blast
    then obtain new where a: "list_all2 (\<lambda>k ev. \<exists>rows.
          ev = Write (batch_filename ''generated-data/products'' ''products_batch_'' 5
                 (OUTPUT_FORMAT cfg) (int k)) rows
          \<and> True
          \<and> \<not> write_fails E (batch_filename ''generated-data/products'' ''products_batch_'' 5
                 (OUTPUT_FORMAT cfg) (int k))) [0..<?nb] new" by blast
    have two: "1 < ?nb" using num_batches_two[OF B] by simp
    have len: "length new = ?nb" using a by (auto dest: list_all2_lengthD)
    have "\<not> write_fails E (batch_filename ''generated-data/products'' ''products_batch_'' 5
                 (OUTPUT_FORMAT cfg) (int ([0..<?nb] ! 1)))"
      using list_all2_nthD[OF a, of 1] two by simp
    then have "\<not> write_fails E (batch_filename ''generated-data/products'' ''products_batch_'' 5
                 (OUTPUT_FORMAT cfg) 1)"
      using two by simp
    then show ?thesis using wf by simp
  qed
qed

lemma diagnostics_not_under:
  "\<not> under d (Banner e)" "\<not> under d (Traceback e)"
  by simp_all

lemma second_product_batch_failure:
  assumes wf: "write_fails E
      (batch_filename ''generated-data/products'' ''products_batch_'' 5 (OUTPUT_FORMAT cfg) 1)"
    and B: "0 < PRODUCT_BATCH_SIZE cfg" "PRODUCT_BATCH_SIZE cfg < NUM_PRODUCTS cfg"
  shows "\<exists>e w1. complete_generator E cfg w
        = (1, w1\<lparr>events := events w1 @ [Banner e, Traceback e]\<rparr>)
     \<and> (\<exists>new. events w1 = events w @ new
        \<and> (\<forall>ev \<in> set new. under ''generated-data/customers'' ev
              \<or> under ''generated-data/products'' ev))"
proof (cases "generate_all_customers E cfg w")
  case (Pair r w1)
  note fc = generate_all_customers_footprint[OF Pair]
  show ?thesis
  proof (cases r)
    case (Inl e)
    have "complete_generator E cfg w
        = (1, w1\<lparr>events := events w1 @ [Banner e, Traceback e]\<rparr>)"
      using Pair Inl by (intro first_block_failure customers_failure) simp
    then show ?thesis using fc by blast
  next
    case (Inr f1)
    obtain e w2 where p: "generate_products E cfg w1 = (Inl e, w2)"
      using generate_products_unwritable[OF wf B] by blast
    note fp = generate_products_footprint[OF p]
    have "complete_generator E cfg w
        = (1, w2\<lparr>events := events w2 @ [Banner e, Traceback e]\<rparr>)"
      using Pair Inr p by (intro first_block_failure products_failure) simp_all
    moreover have "\<exists>new. events w2 = events w @ new
        \<and> (\<forall>ev \<in> set new. under ''generated-data/customers'' ev
              \<or> under ''generated-data/products'' ev)"
    proof -
      obtain a where a: "events w1 = events w @ a"
        "\<forall>ev \<in> set a. under ''generated-data/customers'' ev" using fc by blast
      obtain b where b: "events w2 = events w1 @ b"
        "\<forall>ev \<in> set b. under ''generated-data/products'' ev" using fp by blast
      show ?thesis using a b by (intro exI[of _ "a @ b"]) auto
    qed
    ultimately show ?thesis by blast
  qed
qed

lemma complete_generator_succeeds:
  assumes "\<And>d. \<not> makedirs_fails E d" and "\<And>f. \<not> write_fails E f"
    and "\<not> scandir_fails E"
    and "CUSTOMER_BATCH_SIZE cfg \<noteq> 0" "PRODUCT_BATCH_SIZE cfg \<noteq> 0"
      "TRANSACTION_BATCH_SIZE cfg \<noteq> 0"
    and "CUSTOMER_SEGMENTS cfg \<noteq> []" "REGIONS cfg \<noteq> []" "COUNTRIES cfg \<noteq> []"
      "PRODUCT_CATEGORIES cfg \<noteq> []"
    and "strptime E (START_DATE cfg) = Some a" "strptime E (END_DATE cfg) = Some b" "a \<le> b"
    and "0 < NUM_CUSTOMERS cfg" "0 < NUM_PRODUCTS cfg" "0 < NUM_SALES_REPS cfg"
  shows "\<exists>w' w1 u1 u2. complete_generator E cfg w = (0, w')
    \<and> first_main_block E cfg w = (Inr u1, w1) \<and> second_main_block E cfg w1 = (Inr u2, w')"
proof -
  obtain u1 w1 where f: "first_main_block E cfg w = (Inr u1, w1)"
    using first_main_block_succeeds[OF assms, of w] by blast
  obtain u2 w2 where s: "second_main_block E cfg w1 = (Inr u2, w2)"
    using second_main_block_succeeds[OF assms(1,2,4-16), of w1] by blast
  have "complete_generator E cfg w = (0, w2)"
    using f s by (simp add: complete_generator_def try_block_def)
  then show ?thesis using f s by blast
qed

lemma generate_all_customers_succeeds_own:
  assumes "\<not> makedirs_fails E ''generated-data/customers''" "CUSTOMER_BATCH_SIZE cfg \<noteq> 0"
    and "\<And>f. prefix ''generated-data/customers/'' f \<Longrightarrow> \<not> write_fails E f"
    and "CUSTOMER_SEGMENTS cfg \<noteq> []" "REGIONS cfg \<noteq> []" "COUNTRIES cfg \<noteq> []"
  shows "\<exists>files w'. generate_all_customers E cfg w = (Inr files, w')"
  unfolding generate_all_customers_def generate_customer_batch_eq
proof (intro pipeline_succeeds customer_record_succeeds)
  fix k
  show "\<not> write_fails E (batch_filename ''generated-data/customers'' ''customers_batch_'' 5
      (OUTPUT_FORMAT cfg) k)"
    by (rule assms(3)) (simp add: batch_filename_def)
qed (use assms in simp_all)

text \<open>
  Claim C7. \<open>complete_generator.py\<close> ends with status 0 or 1. It ends with status 0 only
  when the four pipelines of the first main block have each run to their end, one after
  the other, and the four redefined ones of the second main block likewise. It ends with
  status 1 exactly when a main block raised: then the banner and the traceback of that
  exception are the last things it does. If a pipeline of the first main block raises, the
  world at the end is the world at the raise plus the banner and the traceback, so no later
  pipeline has run, and nothing has been created or written for a later entity. In
  particular, if writing the second product batch fails (and there is a second batch), the
  status is 1, a traceback is printed, and nothing is created or written below
  \<open>generated-data/sales-reps\<close> or \<open>generated-data/transactions\<close>.
\<close>

theorem C7_exit_status:
  "(\<forall>status w'. complete_generator E cfg w = (status, w') \<longrightarrow>
      (status = 0
        \<and> (\<exists>f1 w1 f2 w2 f3 w3 f4 w4 g1 v1 g2 v2 v3 g4.
              generate_all_customers E cfg w = (Inr f1, w1)
            \<and> generate_products E cfg w1 = (Inr f2, w2)
            \<and> generate_sales_reps E cfg w2 = (Inr f3, w3)
            \<and> generate_all_transactions E cfg w3 = (Inr f4, w4)
            \<and> generate_all_customers_legacy E cfg w4 = (Inr g1, v1)
            \<and> generate_products_legacy E cfg v1 = (Inr g2, v2)
            \<and> generate_sales_reps_legacy E cfg v2 = (Inr (), v3)
            \<and> generate_all_transactions_legacy E cfg v3 = (Inr g4, w')))
      \<or> (status = 1
        \<and> (\<exists>e w1. w' = w1\<lparr>events := events w1 @ [Banner e, Traceback e]\<rparr>
            \<and> (first_main_block E cfg w = (Inl e, w1)
               \<or> (\<exists>u w0. first_main_block E cfg w = (Inr u, w0)
                     \<and> second_main_block E cfg w0 = (Inl e, w1))))))
   \<and> (\<forall>e w1. generate_all_customers E cfg w = (Inl e, w1) \<longrightarrow>
        complete_generator E cfg w = (1, w1\<lparr>events := events w1 @ [Banner e, Traceback e]\<rparr>)
      \<and> (\<forall>ev \<in> set (new_events w w1).
           \<not> under ''generated-data/products'' ev \<and> \<not> under ''generated-data/sales-reps'' ev
         \<and> \<not> under ''generated-data/transactions'' ev))
   \<and> (\<forall>f1 w1 e w2. generate_all_customers E cfg w = (Inr f1, w1)
        \<and> generate_products E cfg w1 = (Inl e, w2) \<longrightarrow>
        complete_generator E cfg w = (1, w2\<lparr>events := events w2 @ [Banner e, Traceback e]\<rparr>)
      \<and> (\<forall>ev \<in> set (new_events w w2).
           \<not> under ''generated-data/sales-reps'' ev \<and> \<not> under ''generated-data/transactions'' ev))
   \<and> (\<forall>f1 w1 f2 w2 e w3. generate_all_customers E cfg w = (Inr f1, w1)
        \<and> generate_products E cfg w1 = (Inr f2, w2)
        \<and> generate_sales_reps E cfg w2 = (Inl e, w3) \<longrightarrow>
        complete_generator E cfg w = (1, w3\<lparr>events := events w3 @ [Banner e, Traceback e]\<rparr>)
      \<and> (\<forall>ev \<in> set (new_events w w3). \<not> under ''generated-data/transactions'' ev))
   \<and> (write_fails E
         (batch_filename ''generated-data/products'' ''products_batch_'' 5 (OUTPUT_FORMAT cfg) 1)
       \<and> 0 < PRODUCT_BATCH_SIZE cfg \<and> PRODUCT_BATCH_SIZE cfg < NUM_PRODUCTS cfg \<longrightarrow>
        fst (complete_generator E cfg w) = 1
      \<and> (\<exists>e. Traceback e \<in> set (new_events w (snd (complete_generator E cfg w))))
      \<and> (\<forall>ev \<in> set (new_events w (snd (complete_generator E cfg w))).
           \<not> under ''generated-data/sales-reps'' ev \<and> \<not> under ''generated-data/transactions'' ev))"
proof (intro conjI allI impI)
  fix status w' assume run: "complete_generator E cfg w = (status, w')"
  then show "(status = 0
        \<and> (\<exists>f1 w1 f2 w2 f3 w3 f4 w4 g1 v1 g2 v2 v3 g4.
              generate_all_customers E cfg w = (Inr f1, w1)
            \<and> generate_products E cfg w1 = (Inr f2, w2)
            \<and> generate_sales_reps E cfg w2 = (Inr f3, w3)
            \<and> generate_all_transactions E cfg w3 = (Inr f4, w4)
            \<and> generate_all_customers_legacy E cfg w4 = (Inr g1, v1)
            \<and> generate_products_legacy E cfg v1 = (Inr g2, v2)
            \<and> generate_sales_reps_legacy E cfg v2 = (Inr (), v3)
            \<and> generate_all_transactions_legacy E cfg v3 = (Inr g4, w')))
      \<or> (status = 1
        \<and> (\<exists>e w1. w' = w1\<lparr>events := events w1 @ [Banner e, Traceback e]\<rparr>
            \<and> (first_main_block E cfg w = (Inl e, w1)
               \<or> (\<exists>u w0. first_main_block E cfg w = (Inr u, w0)
                     \<and> second_main_block E cfg w0 = (Inl e, w1)))))"
  proof (cases rule: complete_generator_cases)
    case (both w1 u1 u2)
    from both(2) obtain f1 x1 f2 x2 f3 x3 f4 where
      "generate_all_customers E cfg w = (Inr f1, x1)"
      "generate_products E cfg x1 = (Inr f2, x2)"
      "generate_sales_reps E cfg x2 = (Inr f3, x3)"
      "generate_all_transactions E cfg x3 = (Inr f4, w1)"
      by (rule first_main_block_Inr)
    moreover from both(3) obtain g1 v1 g2 v2 v3 g4 where
      "generate_all_customers_legacy E cfg w1 = (Inr g1, v1)"
      "generate_products_legacy E cfg v1 = (Inr g2, v2)"
      "generate_sales_reps_legacy E cfg v2 = (Inr (), v3)"
      "generate_all_transactions_legacy E cfg v3 = (Inr g4, w')"
      by (rule second_main_block_Inr)
    ultimately show ?thesis using both(1) by blast
  next
    case (fail1 e w1)
    then show ?thesis by blast
  next
    case (fail2 e w1 w2 u1)
    then show ?thesis by blast
  qed
next
  fix e w1 assume c: "generate_all_customers E cfg w = (Inl e, w1)"
  show "complete_generator E cfg w = (1, w1\<lparr>events := events w1 @ [Banner e, Traceback e]\<rparr>)"
    using c by (intro first_block_failure customers_failure)
  show "\<forall>ev \<in> set (new_events w w1).
           \<not> under ''generated-data/products'' ev \<and> \<not> under ''generated-data/sales-reps'' ev
         \<and> \<not> under ''generated-data/transactions'' ev"
    using new_events_ex[OF generate_all_customers_footprint[OF c]] not_under_later(1) by blast
next
  fix f1 w1 e w2
  assume a: "generate_all_customers E cfg w = (Inr f1, w1)
        \<and> generate_products E cfg w1 = (Inl e, w2)"
  then have c: "generate_all_customers E cfg w = (Inr f1, w1)"
    and p: "generate_products E cfg w1 = (Inl e, w2)" by simp_all
  show "complete_generator E cfg w = (1, w2\<lparr>events := events w2 @ [Banner e, Traceback e]\<rparr>)"
    using c p by (intro first_block_failure products_failure)
  note n1 = new_events_ex[OF generate_all_customers_footprint[OF c]]
  note n2 = new_events_ex[OF generate_products_footprint[OF p]]
  have "new_events w w2 = new_events w w1 @ new_events w1 w2"
    using n1 n2 by (intro new_events_trans) auto
  then show "\<forall>ev \<in> set (new_events w w2).
           \<not> under ''generated-data/sales-reps'' ev \<and> \<not> under ''generated-data/transactions'' ev"
    using n1 n2 not_under_later(1,2) by auto
next
  fix f1 w1 f2 w2 e w3
  assume a: "generate_all_customers E cfg w = (Inr f1, w1)
        \<and> generate_products E cfg w1 = (Inr f2, w2)
        \<and> generate_sales_reps E cfg w2 = (Inl e, w3)"
  then have c: "generate_all_customers E cfg w = (Inr f1, w1)"
    and p: "generate_products E cfg w1 = (Inr f2, w2)"
    and s: "generate_sales_reps E cfg w2 = (Inl e, w3)" by simp_all
  show "complete_generator E cfg w = (1, w3\<lparr>events := events w3 @ [Banner e, Traceback e]\<rparr>)"
    using c p s by (intro first_block_failure sales_reps_failure)
  note n1 = new_events_ex[OF generate_all_customers_footprint[OF c]]
  note n2 = new_events_ex[OF generate_products_footprint[OF p]]
  note n3 = new_events_ex[OF generate_sales_reps_footprint[OF s]]
  have "new_events w w2 = new_events w w1 @ new_events w1 w2"
    using n1 n2 by (intro new_events_trans) auto
  moreover have "events w2 = events w @ new_events w w2"
    using n1 n2 by (simp add: new_events_def) (metis append.assoc append_eq_conv_conj)
  ultimately have "new_events w w3 = new_events w w1 @ new_events w1 w2 @ new_events w2 w3"
    using n3 new_events_trans[of w2 w "new_events w w2" w3 "new_events w2 w3"] by simp
  then show "\<forall>ev \<in> set (new_events w w3). \<not> under ''generated-data/transactions'' ev"
    using n1 n2 n3 not_under_later by auto
next
  assume a: "write_fails E
         (batch_filename ''generated-data/products'' ''products_batch_'' 5 (OUTPUT_FORMAT cfg) 1)
       \<and> 0 < PRODUCT_BATCH_SIZE cfg \<and> PRODUCT_BATCH_SIZE cfg < NUM_PRODUCTS cfg"
  then obtain e w1 new where
    run: "complete_generator E cfg w = (1, w1\<lparr>events := events w1 @ [Banner e, Traceback e]\<rparr>)"
    and ev: "events w1 = events w @ new"
    and u: "\<forall>ev \<in> set new. under ''generated-data/customers'' ev
              \<or> under ''generated-data/products'' ev"
    using second_product_batch_failure[of E cfg w] by blast
  have ne: "new_events w (snd (complete_generator E cfg w)) = new @ [Banner e, Traceback e]"
    using run ev by (simp add: new_events_def)
  show "fst (complete_generator E cfg w) = 1" using run by simp
  show "\<exists>e. Traceback e \<in> set (new_events w (snd (complete_generator E cfg w)))"
    unfolding ne by auto
  show "\<forall>ev \<in> set (new_events w (snd (complete_generator E cfg w))).
           \<not> under ''generated-data/sales-reps'' ev \<and> \<not> under ''generated-data/transactions'' ev"
    unfolding ne using u not_under_later by auto
qed

lemma failing_env_simps:
  "makedirs_fails failing_env d = False"
  "write_fails failing_env f = (f = ''generated-data/products/products_batch_00001.parquet'')"
  "makedirs_fails no_dir_env d = (d = ''generated-data/sales-reps'')"
  "write_fails no_dir_env f = False"
  by (simp_all add: failing_env_def no_dir_env_def sample_env_def)

theorem C7_exit_status_witness:
  "(\<exists>w' f1 w1. complete_generator sample_env small_config initial_world = (0, w')
      \<and> generate_all_customers sample_env small_config initial_world = (Inr f1, w1))
   \<and> complete_generator sample_env zero_batch_config initial_world
       = (1, initial_world\<lparr>events := [Mkdir ''generated-data/customers'',
             Banner ZeroDivisionError, Traceback ZeroDivisionError]\<rparr>)
   \<and> (\<exists>f1 w1 e w2. generate_all_customers failing_env small_config initial_world = (Inr f1, w1)
      \<and> generate_products failing_env small_config w1 = (Inl e, w2)
      \<and> complete_generator failing_env small_config initial_world
          = (1, w2\<lparr>events := events w2 @ [Banner e, Traceback e]\<rparr>)
      \<and> list_all (\<lambda>ev. \<not> under ''generated-data/sales-reps'' ev
            \<and> \<not> under ''generated-data/transactions'' ev) (new_events initial_world w2))
   \<and> (\<exists>f1 w1 f2 w2. generate_all_customers no_dir_env small_config initial_world = (Inr f1, w1)
      \<and> generate_products no_dir_env small_config w1 = (Inr f2, w2)
      \<and> generate_sales_reps no_dir_env small_config w2 = (Inl OSError, w2)
      \<and> complete_generator no_dir_env small_config initial_world
          = (1, w2\<lparr>events := events w2 @ [Banner OSError, Traceback OSError]\<rparr>)
      \<and> list_all (\<lambda>ev. \<not> under ''generated-data/transactions'' ev)
            (new_events initial_world w2))
   \<and> write_fails failing_env
         (batch_filename ''generated-data/products'' ''products_batch_'' 5
            (OUTPUT_FORMAT small_config) 1)
   \<and> fst (complete_generator failing_env small_config initial_world) = 1
   \<and> list_all (\<lambda>ev. \<not> under ''generated-data/sales-reps'' ev
            \<and> \<not> under ''generated-data/transactions'' ev)
         (new_events initial_world (snd (complete_generator failing_env small_config initial_world)))"
proof -
  have c1: "\<exists>w' f1 w1. complete_generator sample_env small_config initial_world = (0, w')
      \<and> generate_all_customers sample_env small_config initial_world = (Inr f1, w1)"
  proof -
    obtain w' where r: "complete_generator sample_env small_config initial_world = (0, w')"
      using complete_generator_succeeds[where E = sample_env and cfg = small_config
          and w = initial_world and a = 738521 and b = 739251]
      by (auto simp: sample_simps)
    note a = C7_exit_status[of sample_env small_config initial_world, THEN conjunct1,
        rule_format, OF r]
    from a obtain f1 w1 where
      "generate_all_customers sample_env small_config initial_world = (Inr f1, w1)"
      by (elim disjE conjE exE) simp_all
    then show ?thesis using r by blast
  qed
  have c2: "complete_generator sample_env zero_batch_config initial_world
       = (1, initial_world\<lparr>events := [Mkdir ''generated-data/customers'',
             Banner ZeroDivisionError, Traceback ZeroDivisionError]\<rparr>)"
  proof -
    have z: "CUSTOMER_BATCH_SIZE zero_batch_config = 0" by (simp add: zero_batch_config_def)
    have "generate_all_customers sample_env zero_batch_config initial_world
      = (Inl ZeroDivisionError,
         initial_world\<lparr>events := events initial_world @ [Mkdir ''generated-data/customers'']\<rparr>)"
      unfolding generate_all_customers_def z
      by (rule pipeline_zero_batch) (simp add: sample_simps)
    then show ?thesis
      using C7_exit_status[of sample_env zero_batch_config initial_world, THEN conjunct2,
          THEN conjunct1, rule_format, THEN conjunct1]
      by (simp add: initial_world_def)
  qed
  have c3: "\<exists>f1 w1 e w2. generate_all_customers failing_env small_config initial_world = (Inr f1, w1)
      \<and> generate_products failing_env small_config w1 = (Inl e, w2)
      \<and> complete_generator failing_env small_config initial_world
          = (1, w2\<lparr>events := events w2 @ [Banner e, Traceback e]\<rparr>)
      \<and> list_all (\<lambda>ev. \<not> under ''generated-data/sales-reps'' ev
            \<and> \<not> under ''generated-data/transactions'' ev) (new_events initial_world w2)"
  proof -
    obtain f1 w1 where c: "generate_all_customers failing_env small_config initial_world
        = (Inr f1, w1)"
      using generate_all_customers_succeeds_own[where E = failing_env and cfg = small_config
          and w = initial_world]
      by (auto simp: sample_simps failing_env_simps prefix_def)
    obtain e w2 where p: "generate_products failing_env small_config w1 = (Inl e, w2)"
      using generate_products_unwritable[where E = failing_env and cfg = small_config and w = w1]
      by (auto simp: sample_simps failing_env_simps batch_filename_def extension_def format_eval)
    note b = C7_exit_status[of failing_env small_config initial_world, THEN conjunct2,
        THEN conjunct2, THEN conjunct1, rule_format, OF conjI, OF c p]
    show ?thesis using b c p unfolding list_all_iff by blast
  qed
  have c4: "\<exists>f1 w1 f2 w2. generate_all_customers no_dir_env small_config initial_world = (Inr f1, w1)
      \<and> generate_products no_dir_env small_config w1 = (Inr f2, w2)
      \<and> generate_sales_reps no_dir_env small_config w2 = (Inl OSError, w2)
      \<and> complete_generator no_dir_env small_config initial_world
          = (1, w2\<lparr>events := events w2 @ [Banner OSError, Traceback OSError]\<rparr>)
      \<and> list_all (\<lambda>ev. \<not> under ''generated-data/transactions'' ev)
            (new_events initial_world w2)"
  proof -
    obtain f1 w1 where c: "generate_all_customers no_dir_env small_config initial_world
        = (Inr f1, w1)"
      using generate_all_customers_succeeds[where E = no_dir_env and cfg = small_config
          and w = initial_world]
      by (auto simp: sample_simps failing_env_simps)
    obtain f2 w2 where p: "generate_products no_dir_env small_config w1 = (Inr f2, w2)"
      using generate_products_succeeds[where E = no_dir_env and cfg = small_config and w = w1]
      by (auto simp: sample_simps failing_env_simps)
    have s: "generate_sales_reps no_dir_env small_config w2 = (Inl OSError, w2)"
      by (simp add: generate_sales_reps_def bind_def makedirs_def failing_env_simps)
    note b = C7_exit_status[of no_dir_env small_config initial_world, THEN conjunct2,
        THEN conjunct2, THEN conjunct2, THEN conjunct1, rule_format, OF conjI, OF c conjI, OF p s]
    show ?thesis using b c p s unfolding list_all_iff by blast
  qed
  have h: "write_fails failing_env
         (batch_filename ''generated-data/products'' ''products_batch_'' 5
            (OUTPUT_FORMAT small_config) 1)"
    by (simp add: sample_simps failing_env_simps batch_filename_def extension_def format_eval)
  have c5: "fst (complete_generator failing_env small_config initial_world) = 1
   \<and> list_all (\<lambda>ev. \<not> under ''generated-data/sales-reps'' ev
            \<and> \<not> under ''generated-data/transactions'' ev)
         (new_events initial_world (snd (complete_generator failing_env small_config initial_world)))"
  proof -
    have B: "0 < PRODUCT_BATCH_SIZE small_config"
      "PRODUCT_BATCH_SIZE small_config < NUM_PRODUCTS small_config"
      by (simp_all add: sample_simps)
    note b = C7_exit_status[of failing_env small_config initial_world, THEN conjunct2,
        THEN conjunct2, THEN conjunct2, THEN conjunct2, rule_format, OF conjI, OF h conjI, OF B]
    show ?thesis using b unfolding list_all_iff by blast
  qed
  show ?thesis using c1 c2 c3 c4 h c5 by (intro conjI) simp_all
qed

section \<open>The two passes of complete_generator.py\<close>

lemma length_zfill: "length (zfill w s) = max w (length s)"
  by (simp add: zfill_def)

lemma length_fmt_d: "0 \<le> x \<Longrightarrow> length (fmt_d w x) = max w (length (digits (nat x)))"
  by (simp add: fmt_d_def length_zfill)

lemma fmt_d_widths_differ:
  assumes "w2 < w1" "0 \<le> x" "x < 10 ^ (w1 - 1)" "2 \<le> w1"
  shows "fmt_d w1 x \<noteq> fmt_d w2 x"
proof -
  obtain k where k: "w1 - 1 = Suc k" using assms(4) by (cases "w1 - 1") simp_all
  have "nat x < 10 ^ Suc k" using assms(2,3) k by (simp add: nat_less_iff)
  then have "length (digits (nat x)) \<le> Suc k" by (rule length_digits_le)
  then have "length (fmt_d w2 x) < w1" using assms(1,2) k by (simp add: length_fmt_d)
  moreover have "w1 \<le> length (fmt_d w1 x)" using assms(2) by (simp add: length_fmt_d)
  ultimately show ?thesis by auto
qed

lemma batch_filename_widths_differ:
  assumes "0 \<le> k" "k < 10000"
  shows "batch_filename dir stem 5 fmt k \<noteq> batch_filename dir stem 3 fmt k"
  using fmt_d_widths_differ[of 3 5 k] assms by (simp add: batch_filename_def)

lemma batch_filename_10000:
  "batch_filename dir stem 5 fmt 10000 = batch_filename dir stem 3 fmt 10000"
  by (simp add: batch_filename_def format_eval)

lemma batch_filename_inj:
  assumes "batch_filename dir stem w1 fmt k = batch_filename dir stem w2 fmt j" "0 \<le> k" "0 \<le> j"
  shows "k = j"
proof -
  have "fmt_d w1 k = fmt_d w2 j" using assms(1) by (simp add: batch_filename_def)
  then have "undigits (fmt_d w1 k) = undigits (fmt_d w2 j)" by simp
  then show ?thesis using assms(2,3) by (simp add: undigits_fmt_d)
qed

lemma sales_reps_names_differ:
  "batch_filename ''generated-data/sales-reps'' ''sales_reps_batch_'' 5 fmt k
     \<noteq> sales_reps_filename fmt"
  by (simp add: batch_filename_def sales_reps_filename_def)

lemma batch_files_distinct: "distinct (batch_files dir stem w fmt N B)"
proof -
  have "inj_on (\<lambda>k. batch_filename dir stem w fmt (int k)) (set [0..<nat (num_batches N B)])"
    by (rule inj_onI) (auto dest: batch_filename_inj)
  then show ?thesis by (simp add: batch_files_def distinct_map)
qed

lemma batch_files_prefix: "f \<in> set (batch_files dir stem w fmt N B) \<Longrightarrow> prefix (dir @ ''/'') f"
  by (auto simp: batch_files_def batch_filename_def)

lemma batch_files_passes_disjoint:
  assumes "num_batches N B \<le> 10000"
  shows "set (batch_files dir stem 5 fmt N B) \<inter> set (batch_files dir stem 3 fmt N B) = {}"
proof (rule ccontr)
  assume "set (batch_files dir stem 5 fmt N B) \<inter> set (batch_files dir stem 3 fmt N B) \<noteq> {}"
  then obtain k j where k: "k < nat (num_batches N B)" and j: "j < nat (num_batches N B)"
    and eq: "batch_filename dir stem 5 fmt (int k) = batch_filename dir stem 3 fmt (int j)"
    by (auto simp: batch_files_def)
  have "int k = int j" using eq by (rule batch_filename_inj) simp_all
  moreover have "int k < 10000" using k assms by linarith
  ultimately show False using eq batch_filename_widths_differ[of "int k" dir stem fmt] by simp
qed

lemma first_main_block_files:
  assumes run: "first_main_block E cfg w = (Inr u, w1)"
    and B: "0 < CUSTOMER_BATCH_SIZE cfg" "0 < PRODUCT_BATCH_SIZE cfg"
      "0 < TRANSACTION_BATCH_SIZE cfg"
  shows "map fst (written (new_events w w1)) = first_pass_files cfg
    \<and> (\<exists>new. events w1 = events w @ new)"
proof -
  from run obtain f1 x1 f2 x2 f3 x3 f4 where
    s1: "generate_all_customers E cfg w = (Inr f1, x1)" and
    s2: "generate_products E cfg x1 = (Inr f2, x2)" and
    s3: "generate_sales_reps E cfg x2 = (Inr f3, x3)" and
    s4: "generate_all_transactions E cfg x3 = (Inr f4, w1)"
    by (rule first_main_block_Inr)
  obtain a where a: "events x1 = events w @ a"
    using generate_all_customers_footprint[OF s1] by blast
  obtain b where b: "events x2 = events x1 @ b"
    using generate_products_footprint[OF s2] by blast
  obtain c where c: "events x3 = events x2 @ c"
    using generate_sales_reps_footprint[OF s3] by blast
  obtain d where d: "events w1 = events x3 @ d"
    using generate_all_transactions_footprint[OF s4] by blast
  have split: "new_events w w1 = new_events w x1 @ new_events x1 x2 @ new_events x2 x3
      @ new_events x3 w1"
    by (simp add: new_events_def a b c d)
  show ?thesis
    using generate_all_customers_Inr[OF s1 B(1)] generate_products_Inr[OF s2 B(2)]
      generate_sales_reps_Inr[OF s3 B(2)] generate_all_transactions_Inr[OF s4 B(3)]
    by (simp add: split first_pass_files_def batch_files_def a b c d)
qed

lemma second_main_block_files:
  assumes run: "second_main_block E cfg w = (Inr u, w1)"
    and B: "0 < CUSTOMER_BATCH_SIZE cfg" "0 < PRODUCT_BATCH_SIZE cfg"
      "0 < TRANSACTION_BATCH_SIZE cfg"
  shows "map fst (written (new_events w w1)) = second_pass_files cfg
    \<and> (\<exists>new. events w1 = events w @ new)"
proof -
  from run obtain f1 x1 f2 x2 x3 f4 where
    s1: "generate_all_customers_legacy E cfg w = (Inr f1, x1)" and
    s2: "generate_products_legacy E cfg x1 = (Inr f2, x2)" and
    s3: "generate_sales_reps_legacy E cfg x2 = (Inr (), x3)" and
    s4: "generate_all_transactions_legacy E cfg x3 = (Inr f4, w1)"
    by (rule second_main_block_Inr)
  obtain a where a: "events x1 = events w @ a"
    using generate_all_customers_legacy_footprint[OF s1] by blast
  obtain b where b: "events x2 = events x1 @ b"
    using generate_products_legacy_footprint[OF s2] by blast
  obtain c where c: "events x3 = events x2 @ c"
    using generate_sales_reps_legacy_footprint[OF s3] by blast
  obtain d where d: "events w1 = events x3 @ d"
    using generate_all_transactions_legacy_footprint[OF s4] by blast
  have split: "new_events w w1 = new_events w x1 @ new_events x1 x2 @ new_events x2 x3
      @ new_events x3 w1"
    by (simp add: new_events_def a b c d)
  obtain df where "new_events x2 x3 = [Mkdir ''generated-data/sales-reps'',
            Write (sales_reps_filename (OUTPUT_FORMAT cfg)) df]"
    using sales_reps_legacy_written[OF s3] by blast
  then have sr: "map fst (written (new_events x2 x3)) = [sales_reps_filename (OUTPUT_FORMAT cfg)]"
    by simp
  show ?thesis
    using generate_all_customers_legacy_Inr[OF s1 B(1)] generate_products_legacy_Inr[OF s2 B(2)]
      generate_all_transactions_legacy_Inr[OF s4 B(3)] sr
    by (simp add: split second_pass_files_def batch_files_def a b c d)
qed

lemma complete_run_files:
  assumes run: "complete_generator E cfg w = (0, w')"
    and B: "0 < CUSTOMER_BATCH_SIZE cfg" "0 < PRODUCT_BATCH_SIZE cfg"
      "0 < TRANSACTION_BATCH_SIZE cfg"
  shows "map fst (written (new_events w w')) = first_pass_files cfg @ second_pass_files cfg"
  using run
proof (cases rule: complete_generator_cases)
  case (both w1 u1 u2)
  note f = first_main_block_files[OF both(2) B]
  note s = second_main_block_files[OF both(3) B]
  obtain a where a: "events w1 = events w @ a" using f by blast
  obtain b where b: "events w' = events w1 @ b" using s by blast
  have "new_events w w' = new_events w w1 @ new_events w1 w'"
    by (simp add: new_events_def a b)
  then show ?thesis using f s by simp
qed simp_all

lemma pass_files_distinct:
  assumes "num_batches (NUM_CUSTOMERS cfg) (CUSTOMER_BATCH_SIZE cfg) \<le> 10000"
    and "num_batches (NUM_PRODUCTS cfg) (PRODUCT_BATCH_SIZE cfg) \<le> 10000"
    and "num_batches (NUM_TRANSACTIONS cfg) (TRANSACTION_BATCH_SIZE cfg) \<le> 10000"
  shows "distinct (first_pass_files cfg @ second_pass_files cfg)"
proof -
  define g :: "string \<Rightarrow> nat" where
    "g f = (if prefix ''generated-data/customers/'' f then 0
            else if prefix ''generated-data/products/'' f then 1
            else if prefix ''generated-data/sales-reps/'' f then 2 else 3)" for f
  let ?fmt = "OUTPUT_FORMAT cfg"
  let ?C5 = "batch_files ''generated-data/customers'' ''customers_batch_'' 5 ?fmt
       (NUM_CUSTOMERS cfg) (CUSTOMER_BATCH_SIZE cfg)"
  let ?P5 = "batch_files ''generated-data/products'' ''products_batch_'' 5 ?fmt
       (NUM_PRODUCTS cfg) (PRODUCT_BATCH_SIZE cfg)"
  let ?S5 = "batch_files ''generated-data/sales-reps'' ''sales_reps_batch_'' 5 ?fmt
       (NUM_SALES_REPS cfg) (PRODUCT_BATCH_SIZE cfg)"
  let ?T5 = "batch_files ''generated-data/transactions'' ''transactions_batch_'' 5 ?fmt
       (NUM_TRANSACTIONS cfg) (TRANSACTION_BATCH_SIZE cfg)"
  let ?C3 = "batch_files ''generated-data/customers'' ''customers_batch_'' 3 ?fmt
       (NUM_CUSTOMERS cfg) (CUSTOMER_BATCH_SIZE cfg)"
  let ?P3 = "batch_files ''generated-data/products'' ''products_batch_'' 3 ?fmt
       (NUM_PRODUCTS cfg) (PRODUCT_BATCH_SIZE cfg)"
  let ?T3 = "batch_files ''generated-data/transactions'' ''transactions_batch_'' 3 ?fmt
       (NUM_TRANSACTIONS cfg) (TRANSACTION_BATCH_SIZE cfg)"
  let ?R = "sales_reps_filename ?fmt"
  have gC: "g f = 0" if "prefix (''generated-data/customers'' @ ''/'') f" for f
    using that by (simp add: g_def)
  have gP: "g f = 1" if "prefix (''generated-data/products'' @ ''/'') f" for f
    using that by (auto simp: g_def prefix_def)
  have gS: "g f = 2" if "prefix (''generated-data/sales-reps'' @ ''/'') f" for f
    using that by (auto simp: g_def prefix_def)
  have gT: "g f = 3" if "prefix (''generated-data/transactions'' @ ''/'') f" for f
    using that by (auto simp: g_def prefix_def)
  have c5: "\<forall>f \<in> set ?C5. g f = 0" and c3: "\<forall>f \<in> set ?C3. g f = 0"
    using gC batch_files_prefix by blast+
  have p5: "\<forall>f \<in> set ?P5. g f = 1" and p3: "\<forall>f \<in> set ?P3. g f = 1"
    using gP batch_files_prefix by blast+
  have s5: "\<forall>f \<in> set ?S5. g f = 2"
    using gS batch_files_prefix by blast
  have t5: "\<forall>f \<in> set ?T5. g f = 3" and t3: "\<forall>f \<in> set ?T3. g f = 3"
    using gT batch_files_prefix by blast+
  have r: "g ?R = 2" by (rule gS) (simp add: sales_reps_filename_def)
  have rs: "?R \<notin> set ?S5"
  proof
    assume "?R \<in> set ?S5"
    then obtain k where "?R = batch_filename ''generated-data/sales-reps'' ''sales_reps_batch_'' 5
        ?fmt (int k)" by (auto simp: batch_files_def)
    then show False using sales_reps_names_differ[of ?fmt "int k"] by simp
  qed
  have dc: "set ?C5 \<inter> set ?C3 = {}" using assms(1) by (rule batch_files_passes_disjoint)
  have dp: "set ?P5 \<inter> set ?P3 = {}" using assms(2) by (rule batch_files_passes_disjoint)
  have dt: "set ?T5 \<inter> set ?T3 = {}" using assms(3) by (rule batch_files_passes_disjoint)
  have x1: "set ?C5 \<inter> (set ?P5 \<union> set ?S5 \<union> set ?T5 \<union> set ?P3 \<union> {?R} \<union> set ?T3) = {}"
    using c5 p5 s5 t5 p3 r t3 by fastforce
  have x2: "set ?P5 \<inter> (set ?S5 \<union> set ?T5 \<union> set ?C3 \<union> {?R} \<union> set ?T3) = {}"
    using c3 p5 s5 t5 r t3 by fastforce
  have x3: "set ?S5 \<inter> (set ?T5 \<union> set ?C3 \<union> set ?P3 \<union> set ?T3) = {}"
    using c3 p3 s5 t5 t3 by fastforce
  have x4: "set ?T5 \<inter> (set ?C3 \<union> set ?P3 \<union> {?R}) = {}"
    using c3 p3 t5 r by fastforce
  have x5: "set ?C3 \<inter> (set ?P3 \<union> {?R} \<union> set ?T3) = {}"
    using c3 p3 r t3 by fastforce
  have x6: "set ?P3 \<inter> ({?R} \<union> set ?T3) = {}"
    using p3 r t3 by fastforce
  have x7: "?R \<notin> set ?T3" using r t3 by fastforce
  show ?thesis
    unfolding first_pass_files_def second_pass_files_def
    using x1 x2 x3 x4 x5 x6 x7 rs dc dp dt
    by (simp add: batch_files_distinct Int_Un_distrib)
qed

section \<open>The monetary fields of a transaction\<close>

lemma positions:
  "n + 4 = Suc (Suc (Suc (Suc n)))" "n + 5 = Suc (Suc (Suc (Suc (Suc n))))"
  "n + 6 = Suc (Suc (Suc (Suc (Suc (Suc n)))))" "n + 7 = Suc (Suc (Suc (Suc (Suc (Suc (Suc n))))))"
  "n + 8 = Suc (Suc (Suc (Suc (Suc (Suc (Suc (Suc n)))))))"
  by simp_all

lemma transaction_record_draws:
  assumes "0 \<le> nd" "0 < NUM_CUSTOMERS cfg" "0 < NUM_PRODUCTS cfg" "0 < NUM_SALES_REPS cfg"
    "REGIONS cfg \<noteq> []"
  shows "\<exists>r g'. transaction_record E cfg st nd i g = (Inr r, g')
    \<and> map_of r ''quantity'' = Some (Num (1 + int (rand_raw E (rpos g + 4)) mod 500))
    \<and> map_of r ''unit_price'' = Some (Dec 2 (1000 + int (rand_raw E (rpos g + 5)) mod 99001))
    \<and> map_of r ''discount_percent'' = Some (Dec 2 (int (rand_raw E (rpos g + 6)) mod 5001))
    \<and> map_of r ''tax_amount'' = Some (Dec 2 (1000 + int (rand_raw E (rpos g + 7)) mod 99001))
    \<and> map_of r ''total_amount''
        = Some (Dec 2 (5000 + int (rand_raw E (rpos g + 8)) mod 4995001))"
  using assms
  by (simp add: transaction_record_def bind_def fmap_def randint_def uniform_round_def
      choice_def now_def positions)

lemma transaction_record_legacy_draws:
  assumes "0 \<le> nd" "0 < NUM_CUSTOMERS cfg" "0 < NUM_PRODUCTS cfg" "0 < NUM_SALES_REPS cfg"
    "REGIONS cfg \<noteq> []"
  shows "\<exists>r g'. transaction_record_legacy E cfg st nd i g = (Inr r, g')
    \<and> map_of r ''quantity'' = Some (Num (1 + int (rand_raw E (rpos g + 4)) mod 100))
    \<and> map_of r ''unit_price'' = Some (Dec 2 (1000 + int (rand_raw E (rpos g + 5)) mod 99001))
    \<and> map_of r ''discount_percent'' = Some (Dec 2 (int (rand_raw E (rpos g + 6)) mod 5001))
    \<and> map_of r ''tax_amount'' = Some (Dec 2 (1000 + int (rand_raw E (rpos g + 7)) mod 49001))
    \<and> map_of r ''total_amount''
        = Some (Dec 2 (5000 + int (rand_raw E (rpos g + 8)) mod 995001))"
  using assms
  by (simp add: transaction_record_legacy_def bind_def fmap_def randint_def uniform_round_def
      choice_def now_def positions)

lemma transaction_record_attains:
  assumes v: "0 \<le> nd" "0 < NUM_CUSTOMERS cfg" "0 < NUM_PRODUCTS cfg" "0 < NUM_SALES_REPS cfg"
    "REGIONS cfg \<noteq> []"
    and q: "1 \<le> q" "q \<le> 500" and u: "1000 \<le> u" "u \<le> 100000"
    and d: "0 \<le> d" "d \<le> 5000" and t: "1000 \<le> t" "t \<le> 100000"
    and a: "5000 \<le> a" "a \<le> 5000000"
  shows "\<exists>rs r g'. transaction_record (E\<lparr>rand_raw := rs\<rparr>) cfg st nd i g = (Inr r, g')
          \<and> map_of r ''quantity'' = Some (Num q)
          \<and> map_of r ''unit_price'' = Some (Dec 2 u)
          \<and> map_of r ''discount_percent'' = Some (Dec 2 d)
          \<and> map_of r ''tax_amount'' = Some (Dec 2 t)
          \<and> map_of r ''total_amount'' = Some (Dec 2 a)"
proof -
  define rs where "rs k = (if k = rpos g + 4 then nat (q - 1)
      else if k = rpos g + 5 then nat (u - 1000)
      else if k = rpos g + 6 then nat d
      else if k = rpos g + 7 then nat (t - 1000)
      else nat (a - 5000))" for k
  have r: "int (rs (rpos g + 4)) = q - 1" "int (rs (rpos g + 5)) = u - 1000"
    "int (rs (rpos g + 6)) = d" "int (rs (rpos g + 7)) = t - 1000"
    "int (rs (rpos g + 8)) = a - 5000"
    using q u d t a by (simp_all add: rs_def)
  have m: "(q - 1) mod 500 = q - 1" "(u - 1000) mod 99001 = u - 1000" "d mod 5001 = d"
    "(t - 1000) mod 99001 = t - 1000" "(a - 5000) mod 4995001 = a - 5000"
    using q u d t a by simp_all
  have v': "0 < NUM_CUSTOMERS cfg" "0 < NUM_PRODUCTS cfg" "0 < NUM_SALES_REPS cfg"
    "REGIONS cfg \<noteq> []" using v by simp_all
  from transaction_record_draws[OF v(1) v', of "E\<lparr>rand_raw := rs\<rparr>" st i g]
  show ?thesis by (simp add: r m) blast
qed

text \<open>
  Claim C8. A transaction's \<open>quantity\<close>, \<open>unit_price\<close>, \<open>discount_percent\<close>, \<open>tax_amount\<close>
  and \<open>total_amount\<close> are five consecutive, separate draws from the random stream, each
  field a function of its own draw alone. No relation ties them: whatever values are
  picked within the five ranges, some random stream makes the generator produce exactly
  that combination; so \<open>total_amount\<close> is not computed as
  \<open>quantity * unit_price * (1 - discount) + tax\<close>, and there are transactions where the two
  differ.
\<close>

theorem C8_monetary_fields_independent:
  assumes "0 \<le> nd" and "0 < NUM_CUSTOMERS cfg" and "0 < NUM_PRODUCTS cfg"
    and "0 < NUM_SALES_REPS cfg" and "REGIONS cfg \<noteq> []"
  shows "(\<exists>r g'. transaction_record E cfg st nd i g = (Inr r, g')
          \<and> map_of r ''quantity'' = Some (Num (1 + int (rand_raw E (rpos g + 4)) mod 500))
          \<and> map_of r ''unit_price'' = Some (Dec 2 (1000 + int (rand_raw E (rpos g + 5)) mod 99001))
          \<and> map_of r ''discount_percent'' = Some (Dec 2 (int (rand_raw E (rpos g + 6)) mod 5001))
          \<and> map_of r ''tax_amount'' = Some (Dec 2 (1000 + int (rand_raw E (rpos g + 7)) mod 99001))
          \<and> map_of r ''total_amount'' = Some (Dec 2 (5000 + int (rand_raw E (rpos g + 8)) mod 4995001)))
   \<and> (\<forall>q u d t a. 1 \<le> q \<and> q \<le> 500 \<and> 1000 \<le> u \<and> u \<le> 100000 \<and> 0 \<le> d \<and> d \<le> 5000
        \<and> 1000 \<le> t \<and> t \<le> 100000 \<and> 5000 \<le> a \<and> a \<le> 5000000 \<longrightarrow>
        (\<exists>rs r g'. transaction_record (E\<lparr>rand_raw := rs\<rparr>) cfg st nd i g = (Inr r, g')
          \<and> map_of r ''quantity'' = Some (Num q)
          \<and> map_of r ''unit_price'' = Some (Dec 2 u)
          \<and> map_of r ''discount_percent'' = Some (Dec 2 d)
          \<and> map_of r ''tax_amount'' = Some (Dec 2 t)
          \<and> map_of r ''total_amount'' = Some (Dec 2 a)))
   \<and> (\<exists>rs r g' q u d t a.
          transaction_record (E\<lparr>rand_raw := rs\<rparr>) cfg st nd i g = (Inr r, g')
          \<and> map_of r ''quantity'' = Some (Num q)
          \<and> map_of r ''unit_price'' = Some (Dec 2 u)
          \<and> map_of r ''discount_percent'' = Some (Dec 2 d)
          \<and> map_of r ''tax_amount'' = Some (Dec 2 t)
          \<and> map_of r ''total_amount'' = Some (Dec 2 a)
          \<and> of_int a \<noteq> derived_total q u d t)"
proof (intro conjI allI impI)
  show "\<exists>r g'. transaction_record E cfg st nd i g = (Inr r, g')
          \<and> map_of r ''quantity'' = Some (Num (1 + int (rand_raw E (rpos g + 4)) mod 500))
          \<and> map_of r ''unit_price'' = Some (Dec 2 (1000 + int (rand_raw E (rpos g + 5)) mod 99001))
          \<and> map_of r ''discount_percent'' = Some (Dec 2 (int (rand_raw E (rpos g + 6)) mod 5001))
          \<and> map_of r ''tax_amount'' = Some (Dec 2 (1000 + int (rand_raw E (rpos g + 7)) mod 99001))
          \<and> map_of r ''total_amount'' = Some (Dec 2 (5000 + int (rand_raw E (rpos g + 8)) mod 4995001))"
    using assms by (rule transaction_record_draws)
next
  fix q u d t a :: int
  assume "1 \<le> q \<and> q \<le> 500 \<and> 1000 \<le> u \<and> u \<le> 100000 \<and> 0 \<le> d \<and> d \<le> 5000
        \<and> 1000 \<le> t \<and> t \<le> 100000 \<and> 5000 \<le> a \<and> a \<le> 5000000"
  then show "\<exists>rs r g'. transaction_record (E\<lparr>rand_raw := rs\<rparr>) cfg st nd i g = (Inr r, g')
          \<and> map_of r ''quantity'' = Some (Num q)
          \<and> map_of r ''unit_price'' = Some (Dec 2 u)
          \<and> map_of r ''discount_percent'' = Some (Dec 2 d)
          \<and> map_of r ''tax_amount'' = Some (Dec 2 t)
          \<and> map_of r ''total_amount'' = Some (Dec 2 a)"
    using assms by (intro transaction_record_attains) simp_all
next
  have "\<exists>rs r g'. transaction_record (E\<lparr>rand_raw := rs\<rparr>) cfg st nd i g = (Inr r, g')
          \<and> map_of r ''quantity'' = Some (Num 1)
          \<and> map_of r ''unit_price'' = Some (Dec 2 1000)
          \<and> map_of r ''discount_percent'' = Some (Dec 2 0)
          \<and> map_of r ''tax_amount'' = Some (Dec 2 1000)
          \<and> map_of r ''total_amount'' = Some (Dec 2 5000)"
    using assms by (intro transaction_record_attains) simp_all
  moreover have "of_int 5000 \<noteq> derived_total 1 1000 0 1000"
    by (simp add: derived_total_def)
  ultimately show "\<exists>rs r g' q u d t a.
          transaction_record (E\<lparr>rand_raw := rs\<rparr>) cfg st nd i g = (Inr r, g')
          \<and> map_of r ''quantity'' = Some (Num q)
          \<and> map_of r ''unit_price'' = Some (Dec 2 u)
          \<and> map_of r ''discount_percent'' = Some (Dec 2 d)
          \<and> map_of r ''tax_amount'' = Some (Dec 2 t)
          \<and> map_of r ''total_amount'' = Some (Dec 2 a)
          \<and> of_int a \<noteq> derived_total q u d t"
    by blast
qed

theorem C8_monetary_fields_independent_witness:
  "(0::int) \<le> 730 \<and> 0 < NUM_CUSTOMERS small_config \<and> 0 < NUM_PRODUCTS small_config
   \<and> 0 < NUM_SALES_REPS small_config \<and> REGIONS small_config \<noteq> []
   \<and> (\<exists>r g'. transaction_record sample_env small_config 738521 730 0
            (gen_state initial_world) = (Inr r, g')
          \<and> map_of r ''quantity'' = Some (Num 32)
          \<and> map_of r ''unit_price'' = Some (Dec 2 1038)
          \<and> map_of r ''discount_percent'' = Some (Dec 2 45)
          \<and> map_of r ''tax_amount'' = Some (Dec 2 1052)
          \<and> map_of r ''total_amount'' = Some (Dec 2 5059))
   \<and> (\<exists>rs r g'. transaction_record (sample_env\<lparr>rand_raw := rs\<rparr>) small_config 738521 730 0
            (gen_state initial_world) = (Inr r, g')
          \<and> map_of r ''quantity'' = Some (Num 500)
          \<and> map_of r ''unit_price'' = Some (Dec 2 1000)
          \<and> map_of r ''discount_percent'' = Some (Dec 2 5000)
          \<and> map_of r ''tax_amount'' = Some (Dec 2 100000)
          \<and> map_of r ''total_amount'' = Some (Dec 2 5000))"
proof -
  have v: "(0::int) \<le> 730" "0 < NUM_CUSTOMERS small_config" "0 < NUM_PRODUCTS small_config"
    "0 < NUM_SALES_REPS small_config" "REGIONS small_config \<noteq> []"
    by (simp_all add: sample_simps)
  note th = C8_monetary_fields_independent[OF v, of sample_env 738521 0 "gen_state initial_world"]
  have c1: "\<exists>r g'. transaction_record sample_env small_config 738521 730 0
            (gen_state initial_world) = (Inr r, g')
          \<and> map_of r ''quantity'' = Some (Num 32)
          \<and> map_of r ''unit_price'' = Some (Dec 2 1038)
          \<and> map_of r ''discount_percent'' = Some (Dec 2 45)
          \<and> map_of r ''tax_amount'' = Some (Dec 2 1052)
          \<and> map_of r ''total_amount'' = Some (Dec 2 5059)"
    using th[THEN conjunct1] by (simp add: initial_world_def sample_env_def)
  have c2: "\<exists>rs r g'. transaction_record (sample_env\<lparr>rand_raw := rs\<rparr>) small_config 738521 730 0
            (gen_state initial_world) = (Inr r, g')
          \<and> map_of r ''quantity'' = Some (Num 500)
          \<and> map_of r ''unit_price'' = Some (Dec 2 1000)
          \<and> map_of r ''discount_percent'' = Some (Dec 2 5000)
          \<and> map_of r ''tax_amount'' = Some (Dec 2 100000)
          \<and> map_of r ''total_amount'' = Some (Dec 2 5000)"
    using th[THEN conjunct2, THEN conjunct1, rule_format, of 500 1000 5000 100000 5000] by simp
  show ?thesis using v c1 c2 by (intro conjI)
qed

section \<open>The batch loop and its ranges\<close>

lemma for_range_trace:
  assumes "for_range n body acc s = (r, s')"
    and "I 0 s"
    and "\<forall>i a t a' t'. i < n \<longrightarrow> I i t \<longrightarrow> body (int i) a t = (Inr a', t') \<longrightarrow> I (Suc i) t'"
    and "\<forall>i a t e t'. i < n \<longrightarrow> I i t \<longrightarrow> body (int i) a t = (Inl e, t') \<longrightarrow> I i t'"
  shows "\<exists>m \<le> n. I m s' \<and> (\<forall>a. r = Inr a \<longrightarrow> m = n)"
  using assms
proof (induction n arbitrary: r s')
  case 0
  then show ?case by simp
next
  case (Suc n)
  have sk: "\<forall>i a t a' t'. i < n \<longrightarrow> I i t \<longrightarrow> body (int i) a t = (Inr a', t') \<longrightarrow> I (Suc i) t'"
    using Suc.prems(3) by (meson less_SucI)
  have fl: "\<forall>i a t e t'. i < n \<longrightarrow> I i t \<longrightarrow> body (int i) a t = (Inl e, t') \<longrightarrow> I i t'"
    using Suc.prems(4) by (meson less_SucI)
  from Suc.prems(1) have "bind (for_range n body acc) (body (int n)) s = (r, s')" by simp
  then show ?case
  proof (cases rule: bind_cases)
    case (fail e)
    note Suc.IH[OF fail(1) Suc.prems(2) sk fl]
    then obtain m where "m \<le> n" "I m s'" by blast
    then show ?thesis using fail(2) by (intro exI[of _ m]) simp
  next
    case (ok a s1)
    note Suc.IH[OF ok(1) Suc.prems(2) sk fl]
    then have In: "I n s1" by auto
    show ?thesis
    proof (cases r)
      case (Inl e)
      have "I n s'" using Suc.prems(4) In ok(2) Inl by blast
      then show ?thesis using Inl by (intro exI[of _ n]) simp
    next
      case (Inr a')
      have "I (Suc n) s'" using Suc.prems(3) In ok(2) Inr by blast
      then show ?thesis by (intro exI[of _ "Suc n"]) simp
    qed
  qed
qed

text \<open>
  Whatever the outcome, the tables a batch loop has written are, in order, what
  \<open>generate_batch\<close> returned for the first ranges of \<open>batch_ranges\<close>, each under the file name
  of its batch number; a loop that ends normally has gone through all of them.
\<close>

lemma batch_loop_trace:
  assumes run: "batch_loop E dir stem wd fmt N B gb w = (r, w')" and nz: "B \<noteq> 0"
  shows "\<exists>m \<le> length (batch_ranges N B).
      list_all2 (\<lambda>k ev. \<exists>df g g'.
            gb (fst (batch_ranges N B ! k)) (snd (batch_ranges N B ! k)) g = (Inr df, g')
          \<and> ev = Write (batch_filename dir stem wd fmt (int k)) df)
        [0..<m] (new_events w w')
      \<and> (\<forall>files. r = Inr files \<longrightarrow> m = length (batch_ranges N B)
            \<and> files = map (\<lambda>k. batch_filename dir stem wd fmt (int k)) [0..<m])"
proof -
  let ?n = "nat (num_batches N B)"
  let ?fn = "\<lambda>k. batch_filename dir stem wd fmt (int k)"
  let ?Q = "\<lambda>k ev. \<exists>df g g'.
            gb (fst (batch_ranges N B ! k)) (snd (batch_ranges N B ! k)) g = (Inr df, g')
          \<and> ev = Write (?fn k) df"
  let ?I = "\<lambda>m t. \<exists>new. events t = events w @ new \<and> list_all2 ?Q [0..<m] new"
  let ?body = "\<lambda>batch_num all_files.
           bind (lift_gen (gb (batch_start B batch_num) (current_batch_size N B batch_num)))
             (\<lambda>df_batch.
           bind (write_table E (batch_filename dir stem wd fmt batch_num) df_batch)
             (\<lambda>_. ret (all_files @ [batch_filename dir stem wd fmt batch_num])))"
  have loop: "for_range ?n ?body [] w = (r, w')"
    using run nz by (simp add: batch_loop_def)
  have "\<exists>m \<le> ?n. ?I m w' \<and> (\<forall>a. r = Inr a \<longrightarrow> m = ?n)"
  proof (rule for_range_trace[where I = ?I, OF loop], goal_cases)
    case 1
    show "?I 0 w" by simp
  next
    case 2
    show ?case
    proof (intro allI impI)
    fix i a t a' t'
    assume i: "i < ?n" and inv: "?I i t" and step: "?body (int i) a t = (Inr a', t')"
    from step obtain df t1 where
      g: "lift_gen (gb (batch_start B (int i)) (current_batch_size N B (int i))) t = (Inr df, t1)"
      and wr: "write_table E (?fn i) df t1 = (Inr (), t')"
      by (auto elim!: bind_Inr_elim)
    from g obtain g' where
      "gb (batch_start B (int i)) (current_batch_size N B (int i)) (gen_state t) = (Inr df, g')"
      by (auto elim!: lift_gen_cases)
    then have Q: "?Q i (Write (?fn i) df)" using batch_ranges_nth[OF i] by auto
    have e1: "events t1 = events t" using g by (rule lift_gen_events)
    from wr have e2: "events t' = events t1 @ [Write (?fn i) df]"
      by (auto elim!: write_table_cases)
    from inv obtain new where new: "events t = events w @ new" "list_all2 ?Q [0..<i] new"
      by blast
    have "list_all2 ?Q ([0..<i] @ [i]) (new @ [Write (?fn i) df])"
      using new(2) Q by (intro list_all2_appendI) simp_all
    then show "?I (Suc i) t'"
      using new(1) e1 e2 by (intro exI[of _ "new @ [Write (?fn i) df]"]) simp
    qed
  next
    case 3
    show ?case
    proof (intro allI impI)
    fix i a t e t'
    assume inv: "?I i t" and step: "?body (int i) a t = (Inl e, t')"
    from step have "events t' = events t"
    proof (cases rule: bind_cases)
      case (fail e')
      then show ?thesis by (auto dest: lift_gen_events)
    next
      case (ok df t1)
      have e1: "events t1 = events t" using ok(1) by (rule lift_gen_events)
      from ok(2) show ?thesis
      proof (cases rule: bind_cases)
        case (fail e')
        then show ?thesis using e1 by (auto elim!: write_table_cases)
      next
        case (ok u t2)
        then show ?thesis by simp
      qed
    qed
    then show "?I i t'" using inv by simp
    qed
  qed
  then obtain m new where m: "m \<le> ?n" and e: "events w' = events w @ new"
    and all: "list_all2 ?Q [0..<m] new" and fin: "\<forall>a. r = Inr a \<longrightarrow> m = ?n"
    by blast
  have ne: "new_events w w' = new" using e by (rule new_events_append)
  have files: "\<forall>files. r = Inr files \<longrightarrow> m = length (batch_ranges N B)
            \<and> files = map ?fn [0..<m]"
  proof (intro allI impI)
    fix files assume r: "r = Inr files"
    then have mn: "m = ?n" using fin by simp
    have "files = map ?fn [0..<?n]"
      using batch_loop_Inr[where R = "\<lambda>s n rows. True", OF run[unfolded r]] by simp
    then show "m = length (batch_ranges N B) \<and> files = map ?fn [0..<m]"
      using mn by (simp add: batch_ranges_length)
  qed
  have m': "m \<le> length (batch_ranges N B)" using m by (simp add: batch_ranges_length)
  show ?thesis unfolding ne using m' all files by blast
qed

text \<open>
  Claim C1. For a record count \<open>N > 0\<close> and a batch size \<open>B > 0\<close>, \<open>batch_ranges N B\<close> holds
  \<open>ceil(N/B)\<close> ranges; the k-th starts at \<open>k * B\<close>, is non-empty and at most \<open>B\<close> long; every
  range but the last has length \<open>B\<close> and ends where the next one starts; the first starts at
  0, the last has length \<open>N - (num_batches - 1) * B\<close> and ends at \<open>N\<close>; the union of the
  ranges is \<open>[0, N)\<close>; \<open>N < B\<close> gives the single range \<open>[0, N)\<close>, and when \<open>B\<close> divides \<open>N\<close>
  every range, the last included, has length \<open>B\<close>. These are the ranges the batch loop goes
  through: whatever generator of batches it is run with and however it ends, the tables it
  has written are, in order and under the file names of the batch numbers \<open>0, 1, ...\<close>, what
  the generator returned for the first \<open>m\<close> ranges of the list, and a loop that ends
  normally has gone through the whole list and returns these file names; the loop does end
  normally when the generator always returns and no write fails. For the customer pipeline
  this means that the k-th file holds exactly the identifiers of the k-th range, as many
  rows as the range is long.
\<close>

theorem C1_batch_loop:
  assumes "0 < N" and "0 < B"
  shows "length (batch_ranges N B) = nat \<lceil>real_of_int N / real_of_int B\<rceil>
    \<and> (\<forall>k < length (batch_ranges N B).
          fst (batch_ranges N B ! k) = int k * B
        \<and> 0 < snd (batch_ranges N B ! k) \<and> snd (batch_ranges N B ! k) \<le> B)
    \<and> (\<forall>k. Suc k < length (batch_ranges N B) \<longrightarrow>
          snd (batch_ranges N B ! k) = B
        \<and> fst (batch_ranges N B ! Suc k) = fst (batch_ranges N B ! k) + snd (batch_ranges N B ! k))
    \<and> fst (batch_ranges N B ! 0) = 0
    \<and> snd (last (batch_ranges N B)) = N - (num_batches N B - 1) * B
    \<and> fst (last (batch_ranges N B)) + snd (last (batch_ranges N B)) = N
    \<and> (\<Union>(s, l) \<in> set (batch_ranges N B). {s..<s + l}) = {0..<N}
    \<and> (N < B \<longrightarrow> batch_ranges N B = [(0, N)])
    \<and> (B dvd N \<longrightarrow> (\<forall>(s, l) \<in> set (batch_ranges N B). l = B))
    \<and> (\<forall>E dir stem wd fmt gb w r w'.
          batch_loop E dir stem wd fmt N B gb w = (r, w') \<longrightarrow>
          (\<exists>m \<le> length (batch_ranges N B).
             list_all2 (\<lambda>k ev. \<exists>df g g'.
                   gb (fst (batch_ranges N B ! k)) (snd (batch_ranges N B ! k)) g = (Inr df, g')
                 \<and> ev = Write (batch_filename dir stem wd fmt (int k)) df)
               [0..<m] (new_events w w')
           \<and> (\<forall>files. r = Inr files \<longrightarrow> m = length (batch_ranges N B)
                 \<and> files = map (\<lambda>k. batch_filename dir stem wd fmt (int k)) [0..<m])))
    \<and> (\<forall>E dir stem wd fmt gb w.
          (\<forall>k. \<not> write_fails E (batch_filename dir stem wd fmt k))
          \<and> (\<forall>s l g. \<exists>df g'. gb s l g = (Inr df, g')) \<longrightarrow>
          (\<exists>files w'. batch_loop E dir stem wd fmt N B gb w = (Inr files, w')))
    \<and> (\<forall>E cfg w files w'.
          NUM_CUSTOMERS cfg = N \<and> CUSTOMER_BATCH_SIZE cfg = B
          \<and> generate_all_customers E cfg w = (Inr files, w') \<longrightarrow>
          map (\<lambda>t. column ''customer_id'' (snd t)) (written (new_events w w'))
            = map (\<lambda>(s, l). map (\<lambda>i. Some (Str (''CUST'' @ fmt_d 8 i))) [s..s + l - 1])
                (batch_ranges N B)
          \<and> map (\<lambda>t. int (length (snd t))) (written (new_events w w'))
            = map snd (batch_ranges N B))"
proof -
  have nz: "B \<noteq> 0" using assms(2) by simp
  note p = batch_ranges_properties[OF assms]
  have loop: "\<forall>E dir stem wd fmt gb w r w'.
          batch_loop E dir stem wd fmt N B gb w = (r, w') \<longrightarrow>
          (\<exists>m \<le> length (batch_ranges N B).
             list_all2 (\<lambda>k ev. \<exists>df g g'.
                   gb (fst (batch_ranges N B ! k)) (snd (batch_ranges N B ! k)) g = (Inr df, g')
                 \<and> ev = Write (batch_filename dir stem wd fmt (int k)) df)
               [0..<m] (new_events w w')
           \<and> (\<forall>files. r = Inr files \<longrightarrow> m = length (batch_ranges N B)
                 \<and> files = map (\<lambda>k. batch_filename dir stem wd fmt (int k)) [0..<m]))"
  proof (intro allI impI)
    fix E dir stem wd fmt gb w r w'
    assume "batch_loop E dir stem wd fmt N B gb w = (r, w')"
    then show "\<exists>m \<le> length (batch_ranges N B).
             list_all2 (\<lambda>k ev. \<exists>df g g'.
                   gb (fst (batch_ranges N B ! k)) (snd (batch_ranges N B ! k)) g = (Inr df, g')
                 \<and> ev = Write (batch_filename dir stem wd fmt (int k)) df)
               [0..<m] (new_events w w')
           \<and> (\<forall>files. r = Inr files \<longrightarrow> m = length (batch_ranges N B)
                 \<and> files = map (\<lambda>k. batch_filename dir stem wd fmt (int k)) [0..<m])"
      using nz by (rule batch_loop_trace)
  qed
  have ends: "\<forall>E dir stem wd fmt gb w.
          (\<forall>k. \<not> write_fails E (batch_filename dir stem wd fmt k))
          \<and> (\<forall>s l g. \<exists>df g'. gb s l g = (Inr df, g')) \<longrightarrow>
          (\<exists>files w'. batch_loop E dir stem wd fmt N B gb w = (Inr files, w'))"
  proof (intro allI impI)
    fix E :: env and dir stem :: string and wd :: nat and fmt :: string
      and gb :: "int \<Rightarrow> int \<Rightarrow> (rng, row list) comp" and w :: world
    assume a: "(\<forall>k. \<not> write_fails E (batch_filename dir stem wd fmt k))
          \<and> (\<forall>s l g. \<exists>df g'. gb s l g = (Inr df, g'))"
    show "\<exists>files w'. batch_loop E dir stem wd fmt N B gb w = (Inr files, w')"
      using nz by (rule batch_loop_succeeds) (use a in simp_all)
  qed
  have cust: "\<forall>E cfg w files w'.
          NUM_CUSTOMERS cfg = N \<and> CUSTOMER_BATCH_SIZE cfg = B
          \<and> generate_all_customers E cfg w = (Inr files, w') \<longrightarrow>
          map (\<lambda>t. column ''customer_id'' (snd t)) (written (new_events w w'))
            = map (\<lambda>(s, l). map (\<lambda>i. Some (Str (''CUST'' @ fmt_d 8 i))) [s..s + l - 1])
                (batch_ranges N B)
          \<and> map (\<lambda>t. int (length (snd t))) (written (new_events w w'))
            = map snd (batch_ranges N B)"
  proof (intro allI impI)
    fix E cfg w files w'
    assume a: "NUM_CUSTOMERS cfg = N \<and> CUSTOMER_BATCH_SIZE cfg = B
          \<and> generate_all_customers E cfg w = (Inr files, w')"
    then have run: "generate_all_customers E cfg w = (Inr files, w')"
      and B: "0 < CUSTOMER_BATCH_SIZE cfg" using assms(2) by simp_all
    show "map (\<lambda>t. column ''customer_id'' (snd t)) (written (new_events w w'))
            = map (\<lambda>(s, l). map (\<lambda>i. Some (Str (''CUST'' @ fmt_d 8 i))) [s..s + l - 1])
                (batch_ranges N B)
          \<and> map (\<lambda>t. int (length (snd t))) (written (new_events w w'))
            = map snd (batch_ranges N B)"
      using generate_all_customers_Inr[OF run B] a by simp
  qed
  show ?thesis
    using p[THEN conjunct1] p[THEN conjunct2, THEN conjunct1]
      p[THEN conjunct2, THEN conjunct2, THEN conjunct1]
      p[THEN conjunct2, THEN conjunct2, THEN conjunct2, THEN conjunct1]
      p[THEN conjunct2, THEN conjunct2, THEN conjunct2, THEN conjunct2, THEN conjunct1]
      p[THEN conjunct2, THEN conjunct2, THEN conjunct2, THEN conjunct2, THEN conjunct2,
        THEN conjunct1]
      p[THEN conjunct2, THEN conjunct2, THEN conjunct2, THEN conjunct2, THEN conjunct2,
        THEN conjunct2, THEN conjunct1]
      p[THEN conjunct2, THEN conjunct2, THEN conjunct2, THEN conjunct2, THEN conjunct2,
        THEN conjunct2, THEN conjunct2, THEN conjunct1]
      p[THEN conjunct2, THEN conjunct2, THEN conjunct2, THEN conjunct2, THEN conjunct2,
        THEN conjunct2, THEN conjunct2, THEN conjunct2]
      loop ends cust
    by (intro conjI)
qed

theorem C1_batch_loop_witness:
  "(0::int) < 5 \<and> (0::int) < 2
   \<and> batch_ranges 5 2 = [(0, 2), (2, 2), (4, 1)]
   \<and> length (batch_ranges 5 2) = nat \<lceil>real_of_int 5 / real_of_int 2\<rceil>
   \<and> (\<Union>(s, l) \<in> set (batch_ranges 5 2). {s..<s + l}) = {0..<5}
   \<and> batch_loop sample_env ''generated-data/customers'' ''customers_batch_'' 5 ''parquet'' 5 2
        (\<lambda>s l. ret [[(''start_id'', Num s), (''batch_size'', Num l)]]) initial_world
      = (Inr [''generated-data/customers/customers_batch_00000.parquet'',
              ''generated-data/customers/customers_batch_00001.parquet'',
              ''generated-data/customers/customers_batch_00002.parquet''],
         initial_world\<lparr>events :=
           [Write ''generated-data/customers/customers_batch_00000.parquet''
              [[(''start_id'', Num 0), (''batch_size'', Num 2)]],
            Write ''generated-data/customers/customers_batch_00001.parquet''
              [[(''start_id'', Num 2), (''batch_size'', Num 2)]],
            Write ''generated-data/customers/customers_batch_00002.parquet''
              [[(''start_id'', Num 4), (''batch_size'', Num 1)]]]\<rparr>)
   \<and> (\<exists>files w'. generate_all_customers sample_env small_config initial_world = (Inr files, w')
        \<and> map (\<lambda>t. column ''customer_id'' (snd t)) (written (new_events initial_world w'))
          = [[Some (Str ''CUST00000000''), Some (Str ''CUST00000001'')],
             [Some (Str ''CUST00000002''), Some (Str ''CUST00000003'')],
             [Some (Str ''CUST00000004'')]])"
proof -
  have p: "(0::int) < 5" "(0::int) < 2" by simp_all
  note th = C1_batch_loop[OF p]
  have r: "batch_ranges 5 2 = [(0, 2), (2, 2), (4, 1)]"
    by (simp add: batch_ranges_def num_batches_def batch_start_def current_batch_size_def
        upt_conv_Cons)
  have l: "length (batch_ranges 5 2) = nat \<lceil>real_of_int 5 / real_of_int 2\<rceil>"
    using th[THEN conjunct1] .
  have u: "(\<Union>(s, l) \<in> set (batch_ranges 5 2). {s..<s + l}) = {0..<5}"
    using th[THEN conjunct2, THEN conjunct2, THEN conjunct2, THEN conjunct2, THEN conjunct2,
        THEN conjunct2, THEN conjunct1] .
  have three: "nat (num_batches 5 2) = Suc (Suc (Suc 0))" by (simp add: num_batches_def)
  have run: "batch_loop sample_env ''generated-data/customers'' ''customers_batch_'' 5 ''parquet'' 5 2
        (\<lambda>s l. ret [[(''start_id'', Num s), (''batch_size'', Num l)]]) initial_world
      = (Inr [''generated-data/customers/customers_batch_00000.parquet'',
              ''generated-data/customers/customers_batch_00001.parquet'',
              ''generated-data/customers/customers_batch_00002.parquet''],
         initial_world\<lparr>events :=
           [Write ''generated-data/customers/customers_batch_00000.parquet''
              [[(''start_id'', Num 0), (''batch_size'', Num 2)]],
            Write ''generated-data/customers/customers_batch_00001.parquet''
              [[(''start_id'', Num 2), (''batch_size'', Num 2)]],
            Write ''generated-data/customers/customers_batch_00002.parquet''
              [[(''start_id'', Num 4), (''batch_size'', Num 1)]]]\<rparr>)"
    by (simp add: batch_loop_def three bind_def lift_gen_def write_table_def sample_simps
        batch_filename_def extension_def format_eval batch_start_def current_batch_size_def
        initial_world_def)
  obtain files w' where
    g: "generate_all_customers sample_env small_config initial_world = (Inr files, w')"
    using generate_all_customers_succeeds[where E = sample_env and cfg = small_config
        and w = initial_world]
    by (auto simp: sample_simps)
  have "NUM_CUSTOMERS small_config = 5 \<and> CUSTOMER_BATCH_SIZE small_config = 2
      \<and> generate_all_customers sample_env small_config initial_world = (Inr files, w')"
    using g by (simp add: sample_simps)
  with th[THEN conjunct2, THEN conjunct2, THEN conjunct2, THEN conjunct2, THEN conjunct2,
        THEN conjunct2, THEN conjunct2, THEN conjunct2, THEN conjunct2, THEN conjunct2,
        THEN conjunct2, rule_format, of small_config sample_env initial_world files w']
  have "map (\<lambda>t. column ''customer_id'' (snd t)) (written (new_events initial_world w'))
            = map (\<lambda>(s, l). map (\<lambda>i. Some (Str (''CUST'' @ fmt_d 8 i))) [s..s + l - 1])
                (batch_ranges 5 2)"
    by blast
  then have c: "map (\<lambda>t. column ''customer_id'' (snd t)) (written (new_events initial_world w'))
          = [[Some (Str ''CUST00000000''), Some (Str ''CUST00000001'')],
             [Some (Str ''CUST00000002''), Some (Str ''CUST00000003'')],
             [Some (Str ''CUST00000004'')]]"
    by (simp add: r upto_rec1 format_eval)
  have ex: "\<exists>files w'. generate_all_customers sample_env small_config initial_world = (Inr files, w')
        \<and> map (\<lambda>t. column ''customer_id'' (snd t)) (written (new_events initial_world w'))
          = [[Some (Str ''CUST00000000''), Some (Str ''CUST00000001'')],
             [Some (Str ''CUST00000002''), Some (Str ''CUST00000003'')],
             [Some (Str ''CUST00000004'')]]"
    by (intro exI[of _ files] exI[of _ w'] conjI) (rule g, rule c)
  show ?thesis using p r l u run ex by (intro conjI)
qed

section \<open>The identifiers of a whole run\<close>

lemma first_main_block_identifiers:
  assumes run: "first_main_block E cfg w = (Inr u, w')"
    and B: "0 < CUSTOMER_BATCH_SIZE cfg" "0 < PRODUCT_BATCH_SIZE cfg"
      "0 < TRANSACTION_BATCH_SIZE cfg"
  shows "column ''customer_id'' (table_rows ''generated-data/customers'' (new_events w w'))
        = map (\<lambda>i. Some (Str (''CUST'' @ fmt_d 8 i))) [0..NUM_CUSTOMERS cfg - 1]
    \<and> column ''product_id'' (table_rows ''generated-data/products'' (new_events w w'))
        = map (\<lambda>i. Some (Str (''PROD'' @ fmt_d 8 i))) [0..NUM_PRODUCTS cfg - 1]
    \<and> column ''sales_rep_id'' (table_rows ''generated-data/sales-reps'' (new_events w w'))
        = map (\<lambda>i. Some (Str (''SREP'' @ fmt_d 8 i))) [0..NUM_SALES_REPS cfg - 1]
    \<and> column ''transaction_id'' (table_rows ''generated-data/transactions'' (new_events w w'))
        = map (\<lambda>i. Some (Str (''TXN'' @ fmt_d 12 i))) [0..NUM_TRANSACTIONS cfg - 1]
    \<and> (\<exists>new. events w' = events w @ new)"
proof -
  from run obtain f1 w1 f2 w2 f3 w3 f4 where
    s1: "generate_all_customers E cfg w = (Inr f1, w1)" and
    s2: "generate_products E cfg w1 = (Inr f2, w2)" and
    s3: "generate_sales_reps E cfg w2 = (Inr f3, w3)" and
    s4: "generate_all_transactions E cfg w3 = (Inr f4, w')"
    by (rule first_main_block_Inr)
  note n1 = new_events_ex[OF generate_all_customers_footprint[OF s1]]
  note n2 = new_events_ex[OF generate_products_footprint[OF s2]]
  note n3 = new_events_ex[OF generate_sales_reps_footprint[OF s3]]
  note n4 = new_events_ex[OF generate_all_transactions_footprint[OF s4]]
  obtain a where a: "events w1 = events w @ a" using n1 by blast
  obtain b where b: "events w2 = events w1 @ b" using n2 by blast
  obtain c where c: "events w3 = events w2 @ c" using n3 by blast
  obtain d where d: "events w' = events w3 @ d" using n4 by blast
  have split: "new_events w w' = new_events w w1 @ new_events w1 w2 @ new_events w2 w3
      @ new_events w3 w'"
    by (simp add: new_events_def a b c d)
  have c1: "table_rows ''generated-data/customers'' (new_events w w1)
      = written_rows (new_events w w1)"
    using n1 by (intro table_rows_under) simp
  have c2: "table_rows ''generated-data/customers'' (new_events w1 w2) = []"
    using n2 by (intro table_rows_foreign[where d' = "''generated-data/products''"]) simp_all
  have c3: "table_rows ''generated-data/customers'' (new_events w2 w3) = []"
    using n3 by (intro table_rows_foreign[where d' = "''generated-data/sales-reps''"]) simp_all
  have c4: "table_rows ''generated-data/customers'' (new_events w3 w') = []"
    using n4 by (intro table_rows_foreign[where d' = "''generated-data/transactions''"]) simp_all
  have p1: "table_rows ''generated-data/products'' (new_events w w1) = []"
    using n1 by (intro table_rows_foreign[where d' = "''generated-data/customers''"]) simp_all
  have p2: "table_rows ''generated-data/products'' (new_events w1 w2)
      = written_rows (new_events w1 w2)"
    using n2 by (intro table_rows_under) simp
  have p3: "table_rows ''generated-data/products'' (new_events w2 w3) = []"
    using n3 by (intro table_rows_foreign[where d' = "''generated-data/sales-reps''"]) simp_all
  have p4: "table_rows ''generated-data/products'' (new_events w3 w') = []"
    using n4 by (intro table_rows_foreign[where d' = "''generated-data/transactions''"]) simp_all
  have r1: "table_rows ''generated-data/sales-reps'' (new_events w w1) = []"
    using n1 by (intro table_rows_foreign[where d' = "''generated-data/customers''"]) simp_all
  have r2: "table_rows ''generated-data/sales-reps'' (new_events w1 w2) = []"
    using n2 by (intro table_rows_foreign[where d' = "''generated-data/products''"]) simp_all
  have r3: "table_rows ''generated-data/sales-reps'' (new_events w2 w3)
      = written_rows (new_events w2 w3)"
    using n3 by (intro table_rows_under) simp
  have r4: "table_rows ''generated-data/sales-reps'' (new_events w3 w') = []"
    using n4 by (intro table_rows_foreign[where d' = "''generated-data/transactions''"]) simp_all
  have t1: "table_rows ''generated-data/transactions'' (new_events w w1) = []"
    using n1 by (intro table_rows_foreign[where d' = "''generated-data/customers''"]) simp_all
  have t2: "table_rows ''generated-data/transactions'' (new_events w1 w2) = []"
    using n2 by (intro table_rows_foreign[where d' = "''generated-data/products''"]) simp_all
  have t3: "table_rows ''generated-data/transactions'' (new_events w2 w3) = []"
    using n3 by (intro table_rows_foreign[where d' = "''generated-data/sales-reps''"]) simp_all
  have t4: "table_rows ''generated-data/transactions'' (new_events w3 w')
      = written_rows (new_events w3 w')"
    using n4 by (intro table_rows_under) simp
  have C: "column ''customer_id'' (table_rows ''generated-data/customers'' (new_events w w'))
        = map (\<lambda>i. Some (Str (''CUST'' @ fmt_d 8 i))) [0..NUM_CUSTOMERS cfg - 1]"
    using generate_all_customers_Inr[OF s1 B(1)] by (simp add: split c1 c2 c3 c4)
  have P: "column ''product_id'' (table_rows ''generated-data/products'' (new_events w w'))
        = map (\<lambda>i. Some (Str (''PROD'' @ fmt_d 8 i))) [0..NUM_PRODUCTS cfg - 1]"
    using generate_products_Inr[OF s2 B(2)] by (simp add: split p1 p2 p3 p4)
  have R: "column ''sales_rep_id'' (table_rows ''generated-data/sales-reps'' (new_events w w'))
        = map (\<lambda>i. Some (Str (''SREP'' @ fmt_d 8 i))) [0..NUM_SALES_REPS cfg - 1]"
    using generate_sales_reps_Inr[OF s3 B(2)] by (simp add: split r1 r2 r3 r4)
  have T: "column ''transaction_id'' (table_rows ''generated-data/transactions'' (new_events w w'))
        = map (\<lambda>i. Some (Str (''TXN'' @ fmt_d 12 i))) [0..NUM_TRANSACTIONS cfg - 1]"
    using generate_all_transactions_Inr[OF s4 B(3)] by (simp add: split t1 t2 t3 t4)
  have "\<exists>new. events w' = events w @ new" by (simp add: a b c d)
  then show ?thesis using C P R T by (intro conjI)
qed

lemma second_main_block_identifiers:
  assumes run: "second_main_block E cfg w = (Inr u, w')"
    and B: "0 < CUSTOMER_BATCH_SIZE cfg" "0 < PRODUCT_BATCH_SIZE cfg"
      "0 < TRANSACTION_BATCH_SIZE cfg"
  shows "column ''customer_id'' (table_rows ''generated-data/customers'' (new_events w w'))
        = map (\<lambda>i. Some (Str (''CUST'' @ fmt_d 6 i))) [0..NUM_CUSTOMERS cfg - 1]
    \<and> column ''product_id'' (table_rows ''generated-data/products'' (new_events w w'))
        = map (\<lambda>i. Some (Str (''PROD'' @ fmt_d 6 i))) [0..NUM_PRODUCTS cfg - 1]
    \<and> column ''sales_rep_id'' (table_rows ''generated-data/sales-reps'' (new_events w w'))
        = map (\<lambda>i. Some (Str (''SREP'' @ fmt_d 4 (i + 1)))) [0..NUM_SALES_REPS cfg - 1]
    \<and> column ''transaction_id'' (table_rows ''generated-data/transactions'' (new_events w w'))
        = map (\<lambda>i. Some (Str (''TXN'' @ fmt_d 9 i))) [0..NUM_TRANSACTIONS cfg - 1]
    \<and> (\<exists>new. events w' = events w @ new)"
proof -
  from run obtain f1 w1 f2 w2 w3 f4 where
    s1: "generate_all_customers_legacy E cfg w = (Inr f1, w1)" and
    s2: "generate_products_legacy E cfg w1 = (Inr f2, w2)" and
    s3: "generate_sales_reps_legacy E cfg w2 = (Inr (), w3)" and
    s4: "generate_all_transactions_legacy E cfg w3 = (Inr f4, w')"
    by (rule second_main_block_Inr)
  note n1 = new_events_ex[OF generate_all_customers_legacy_footprint[OF s1]]
  note n2 = new_events_ex[OF generate_products_legacy_footprint[OF s2]]
  note n3 = new_events_ex[OF generate_sales_reps_legacy_footprint[OF s3]]
  note n4 = new_events_ex[OF generate_all_transactions_legacy_footprint[OF s4]]
  obtain a where a: "events w1 = events w @ a" using n1 by blast
  obtain b where b: "events w2 = events w1 @ b" using n2 by blast
  obtain c where c: "events w3 = events w2 @ c" using n3 by blast
  obtain d where d: "events w' = events w3 @ d" using n4 by blast
  have split: "new_events w w' = new_events w w1 @ new_events w1 w2 @ new_events w2 w3
      @ new_events w3 w'"
    by (simp add: new_events_def a b c d)
  have c1: "table_rows ''generated-data/customers'' (new_events w w1)
      = written_rows (new_events w w1)"
    using n1 by (intro table_rows_under) simp
  have c2: "table_rows ''generated-data/customers'' (new_events w1 w2) = []"
    using n2 by (intro table_rows_foreign[where d' = "''generated-data/products''"]) simp_all
  have c3: "table_rows ''generated-data/customers'' (new_events w2 w3) = []"
    using n3 by (intro table_rows_foreign[where d' = "''generated-data/sales-reps''"]) simp_all
  have c4: "table_rows ''generated-data/customers'' (new_events w3 w') = []"
    using n4 by (intro table_rows_foreign[where d' = "''generated-data/transactions''"]) simp_all
  have p1: "table_rows ''generated-data/products'' (new_events w w1) = []"
    using n1 by (intro table_rows_foreign[where d' = "''generated-data/customers''"]) simp_all
  have p2: "table_rows ''generated-data/products'' (new_events w1 w2)
      = written_rows (new_events w1 w2)"
    using n2 by (intro table_rows_under) simp
  have p3: "table_rows ''generated-data/products'' (new_events w2 w3) = []"
    using n3 by (intro table_rows_foreign[where d' = "''generated-data/sales-reps''"]) simp_all
  have p4: "table_rows ''generated-data/products'' (new_events w3 w') = []"
    using n4 by (intro table_rows_foreign[where d' = "''generated-data/transactions''"]) simp_all
  have r1: "table_rows ''generated-data/sales-reps'' (new_events w w1) = []"
    using n1 by (intro table_rows_foreign[where d' = "''generated-data/customers''"]) simp_all
  have r2: "table_rows ''generated-data/sales-reps'' (new_events w1 w2) = []"
    using n2 by (intro table_rows_foreign[where d' = "''generated-data/products''"]) simp_all
  have r3: "table_rows ''generated-data/sales-reps'' (new_events w2 w3)
      = written_rows (new_events w2 w3)"
    using n3 by (intro table_rows_under) simp
  have r4: "table_rows ''generated-data/sales-reps'' (new_events w3 w') = []"
    using n4 by (intro table_rows_foreign[where d' = "''generated-data/transactions''"]) simp_all
  have t1: "table_rows ''generated-data/transactions'' (new_events w w1) = []"
    using n1 by (intro table_rows_foreign[where d' = "''generated-data/customers''"]) simp_all
  have t2: "table_rows ''generated-data/transactions'' (new_events w1 w2) = []"
    using n2 by (intro table_rows_foreign[where d' = "''generated-data/products''"]) simp_all
  have t3: "table_rows ''generated-data/transactions'' (new_events w2 w3) = []"
    using n3 by (intro table_rows_foreign[where d' = "''generated-data/sales-reps''"]) simp_all
  have t4: "table_rows ''generated-data/transactions'' (new_events w3 w')
      = written_rows (new_events w3 w')"
    using n4 by (intro table_rows_under) simp
  have C: "column ''customer_id'' (table_rows ''generated-data/customers'' (new_events w w'))
        = map (\<lambda>i. Some (Str (''CUST'' @ fmt_d 6 i))) [0..NUM_CUSTOMERS cfg - 1]"
    using generate_all_customers_legacy_Inr[OF s1 B(1)] by (simp add: split c1 c2 c3 c4)
  have P: "column ''product_id'' (table_rows ''generated-data/products'' (new_events w w'))
        = map (\<lambda>i. Some (Str (''PROD'' @ fmt_d 6 i))) [0..NUM_PRODUCTS cfg - 1]"
    using generate_products_legacy_Inr[OF s2 B(2)] by (simp add: split p1 p2 p3 p4)
  obtain df where df: "new_events w2 w3 = [Mkdir ''generated-data/sales-reps'',
            Write (sales_reps_filename (OUTPUT_FORMAT cfg)) df]"
    and ids: "column ''sales_rep_id'' df
        = map (\<lambda>i. Some (Str (''SREP'' @ fmt_d 4 (i + 1)))) [0..NUM_SALES_REPS cfg - 1]"
    using sales_reps_legacy_Inr[OF s3] by blast
  have r3': "table_rows ''generated-data/sales-reps'' (new_events w2 w3) = df"
    using r3 by (simp add: df written_rows_def)
  have R: "column ''sales_rep_id'' (table_rows ''generated-data/sales-reps'' (new_events w w'))
        = map (\<lambda>i. Some (Str (''SREP'' @ fmt_d 4 (i + 1)))) [0..NUM_SALES_REPS cfg - 1]"
    using ids by (simp add: split r1 r2 r3' r4)
  have T: "column ''transaction_id'' (table_rows ''generated-data/transactions'' (new_events w w'))
        = map (\<lambda>i. Some (Str (''TXN'' @ fmt_d 9 i))) [0..NUM_TRANSACTIONS cfg - 1]"
    using generate_all_transactions_legacy_Inr[OF s4 B(3)] by (simp add: split t1 t2 t3 t4)
  have "\<exists>new. events w' = events w @ new" by (simp add: a b c d)
  then show ?thesis using C P R T by (intro conjI)
qed

lemma complete_run_identifiers:
  assumes run: "complete_generator E cfg w = (0, w')"
    and B: "0 < CUSTOMER_BATCH_SIZE cfg" "0 < PRODUCT_BATCH_SIZE cfg"
      "0 < TRANSACTION_BATCH_SIZE cfg"
  shows "column ''customer_id'' (table_rows ''generated-data/customers'' (new_events w w'))
        = map (\<lambda>i. Some (Str (''CUST'' @ fmt_d 8 i))) [0..NUM_CUSTOMERS cfg - 1]
          @ map (\<lambda>i. Some (Str (''CUST'' @ fmt_d 6 i))) [0..NUM_CUSTOMERS cfg - 1]
    \<and> column ''product_id'' (table_rows ''generated-data/products'' (new_events w w'))
        = map (\<lambda>i. Some (Str (''PROD'' @ fmt_d 8 i))) [0..NUM_PRODUCTS cfg - 1]
          @ map (\<lambda>i. Some (Str (''PROD'' @ fmt_d 6 i))) [0..NUM_PRODUCTS cfg - 1]
    \<and> column ''sales_rep_id'' (table_rows ''generated-data/sales-reps'' (new_events w w'))
        = map (\<lambda>i. Some (Str (''SREP'' @ fmt_d 8 i))) [0..NUM_SALES_REPS cfg - 1]
          @ map (\<lambda>i. Some (Str (''SREP'' @ fmt_d 4 (i + 1)))) [0..NUM_SALES_REPS cfg - 1]
    \<and> column ''transaction_id'' (table_rows ''generated-data/transactions'' (new_events w w'))
        = map (\<lambda>i. Some (Str (''TXN'' @ fmt_d 12 i))) [0..NUM_TRANSACTIONS cfg - 1]
          @ map (\<lambda>i. Some (Str (''TXN'' @ fmt_d 9 i))) [0..NUM_TRANSACTIONS cfg - 1]"
  using run
proof (cases rule: complete_generator_cases)
  case (both w1 u1 u2)
  note f = first_main_block_identifiers[OF both(2) B]
  note s = second_main_block_identifiers[OF both(3) B]
  obtain a where a: "events w1 = events w @ a" using f by blast
  obtain b where b: "events w' = events w1 @ b" using s by blast
  have split: "new_events w w' = new_events w w1 @ new_events w1 w'"
    by (simp add: new_events_def a b)
  show ?thesis using f s by (simp add: split)
qed simp_all

subsection \<open>Two passes, two paddings\<close>

lemma fmt_d_wide:
  assumes "10 ^ (w1 - 1) \<le> x" "w2 \<le> w1" "1 \<le> w1"
  shows "fmt_d w1 x = fmt_d w2 x"
proof -
  have "(0::int) < 10 ^ (w1 - 1)" by simp
  then have x0: "0 \<le> x" using assms(1) by linarith
  have "(10::nat) ^ (w1 - 1) \<le> nat x"
    using assms(1) x0 by (simp add: le_nat_iff)
  then have "w1 - 1 < length (digits (nat x))" by (rule length_digits_gt)
  then have "w1 \<le> length (digits (nat x))" using assms(3) by simp
  then show ?thesis using x0 assms(2) by (simp add: fmt_d_def zfill_def)
qed

lemma two_pass_ids_distinct:
  assumes w: "w2 < w1" "2 \<le> w1" and c: "0 \<le> c" "c \<le> 10 ^ (w1 - 1)"
  shows "distinct (map (\<lambda>i. Some (Str (pfx @ fmt_d w1 i))) [0..N - 1]
           @ map (\<lambda>i. Some (Str (pfx @ fmt_d w2 (i + c)))) [0..N - 1])
     \<longleftrightarrow> N \<le> 10 ^ (w1 - 1)"
proof
  assume d: "distinct (map (\<lambda>i. Some (Str (pfx @ fmt_d w1 i))) [0..N - 1]
           @ map (\<lambda>i. Some (Str (pfx @ fmt_d w2 (i + c)))) [0..N - 1])"
  show "N \<le> 10 ^ (w1 - 1)"
  proof (rule ccontr)
    assume "\<not> N \<le> 10 ^ (w1 - 1)"
    then have N: "10 ^ (w1 - 1) \<le> N - 1" by simp
    let ?T = "(10::int) ^ (w1 - 1)"
    have e: "fmt_d w1 ?T = fmt_d w2 ?T" using w by (intro fmt_d_wide) simp_all
    have "?T \<in> set [0..N - 1]" using N by simp
    then have "(\<lambda>i. Some (Str (pfx @ fmt_d w1 i))) ?T
        \<in> (\<lambda>i. Some (Str (pfx @ fmt_d w1 i))) ` set [0..N - 1]"
      by (rule imageI)
    then have a: "Some (Str (pfx @ fmt_d w1 ?T))
        \<in> set (map (\<lambda>i. Some (Str (pfx @ fmt_d w1 i))) [0..N - 1])"
      by (simp only: set_map)
    have "?T - c \<in> set [0..N - 1]" using N c by simp
    then have "(\<lambda>i. Some (Str (pfx @ fmt_d w2 (i + c)))) (?T - c)
        \<in> (\<lambda>i. Some (Str (pfx @ fmt_d w2 (i + c)))) ` set [0..N - 1]"
      by (rule imageI)
    then have "Some (Str (pfx @ fmt_d w2 (?T - c + c)))
        \<in> set (map (\<lambda>i. Some (Str (pfx @ fmt_d w2 (i + c)))) [0..N - 1])"
      by (simp only: set_map)
    then have b: "Some (Str (pfx @ fmt_d w1 ?T))
        \<in> set (map (\<lambda>i. Some (Str (pfx @ fmt_d w2 (i + c)))) [0..N - 1])"
      using e by simp
    from d have "set (map (\<lambda>i. Some (Str (pfx @ fmt_d w1 i))) [0..N - 1])
        \<inter> set (map (\<lambda>i. Some (Str (pfx @ fmt_d w2 (i + c)))) [0..N - 1]) = {}"
      by (simp only: distinct_append)
    then show False using a b by blast
  qed
next
  assume N: "N \<le> 10 ^ (w1 - 1)"
  have d1: "distinct (map (\<lambda>i. Some (Str (pfx @ fmt_d w1 i))) [0..N - 1])"
    by (rule ids_distinct0)
  have d2: "distinct (map (\<lambda>i. Some (Str (pfx @ fmt_d w2 (i + c)))) [0..N - 1])"
    using c(1) by (rule ids_distinct)
  have dj: "set (map (\<lambda>i. Some (Str (pfx @ fmt_d w1 i))) [0..N - 1])
        \<inter> set (map (\<lambda>i. Some (Str (pfx @ fmt_d w2 (i + c)))) [0..N - 1]) = {}"
  proof (rule ccontr)
    assume "set (map (\<lambda>i. Some (Str (pfx @ fmt_d w1 i))) [0..N - 1])
        \<inter> set (map (\<lambda>i. Some (Str (pfx @ fmt_d w2 (i + c)))) [0..N - 1]) \<noteq> {}"
    then obtain i j where i: "0 \<le> i" "i \<le> N - 1" and j: "0 \<le> j" "j \<le> N - 1"
      and eq: "fmt_d w1 i = fmt_d w2 (j + c)"
      by auto
    have "undigits (fmt_d w1 i) = undigits (fmt_d w2 (j + c))" using eq by simp
    then have "i = j + c" using i(1) j(1) c(1) by (simp add: undigits_fmt_d)
    then have same: "fmt_d w1 i = fmt_d w2 i" using eq by simp
    have "i < 10 ^ (w1 - 1)" using i(2) N by simp
    then show False using fmt_d_widths_differ[OF w(1) i(1) _ w(2)] same by simp
  qed
  show "distinct (map (\<lambda>i. Some (Str (pfx @ fmt_d w1 i))) [0..N - 1]
           @ map (\<lambda>i. Some (Str (pfx @ fmt_d w2 (i + c)))) [0..N - 1])"
    using d1 d2 dj by (simp only: distinct_append simp_thms)
qed

text \<open>
  Claim C6, as amended. Within one pass of a run (the four pipelines of the first half of
  \<open>complete_generator.py\<close>, or the four redefined ones), with positive batch sizes, each
  pipeline that runs to its end has written, in order, exactly the identifiers
  \<open>prefix + zero-padded position\<close> of the positions \<open>0 .. N - 1\<close> (the redefined
  sales-representative pipeline: of \<open>1 .. N\<close>): they are a function of the position alone,
  whatever the random streams give, and they are pairwise distinct. The padding is 8, 8, 8
  and 12 digits in the first pass and 6, 6, 4 and 9 digits in the second. A whole run that
  ends with status 0 has therefore written, below the directory of each entity type, the
  identifiers of the first pass followed by those of the second pass, two identifiers for
  each position; taken together they are pairwise distinct exactly when the record count is
  at most \<open>10^7\<close> (customers, products, sales representatives) or \<open>10^11\<close> (transactions):
  beyond that the wider padding no longer pads and both passes write the same string.
\<close>
theorem C6_identifiers_per_pass:
  assumes "0 < CUSTOMER_BATCH_SIZE cfg" and "0 < PRODUCT_BATCH_SIZE cfg"
    and "0 < TRANSACTION_BATCH_SIZE cfg"
  shows
   "(\<forall>files w'. generate_all_customers E cfg w = (Inr files, w') \<longrightarrow>
       column ''customer_id'' (written_rows (new_events w w'))
         = map (\<lambda>i. Some (Str (''CUST'' @ fmt_d 8 i))) [0..NUM_CUSTOMERS cfg - 1]
     \<and> distinct (column ''customer_id'' (written_rows (new_events w w'))))
  \<and> (\<forall>files w'. generate_products E cfg w = (Inr files, w') \<longrightarrow>
       column ''product_id'' (written_rows (new_events w w'))
         = map (\<lambda>i. Some (Str (''PROD'' @ fmt_d 8 i))) [0..NUM_PRODUCTS cfg - 1]
     \<and> distinct (column ''product_id'' (written_rows (new_events w w'))))
  \<and> (\<forall>files w'. generate_sales_reps E cfg w = (Inr files, w') \<longrightarrow>
       column ''sales_rep_id'' (written_rows (new_events w w'))
         = map (\<lambda>i. Some (Str (''SREP'' @ fmt_d 8 i))) [0..NUM_SALES_REPS cfg - 1]
     \<and> distinct (column ''sales_rep_id'' (written_rows (new_events w w'))))
  \<and> (\<forall>files w'. generate_all_transactions E cfg w = (Inr files, w') \<longrightarrow>
       column ''transaction_id'' (written_rows (new_events w w'))
         = map (\<lambda>i. Some (Str (''TXN'' @ fmt_d 12 i))) [0..NUM_TRANSACTIONS cfg - 1]
     \<and> distinct (column ''transaction_id'' (written_rows (new_events w w'))))
  \<and> (\<forall>files w'. generate_all_customers_legacy E cfg w = (Inr files, w') \<longrightarrow>
       column ''customer_id'' (written_rows (new_events w w'))
         = map (\<lambda>i. Some (Str (''CUST'' @ fmt_d 6 i))) [0..NUM_CUSTOMERS cfg - 1]
     \<and> distinct (column ''customer_id'' (written_rows (new_events w w'))))
  \<and> (\<forall>files w'. generate_products_legacy E cfg w = (Inr files, w') \<longrightarrow>
       column ''product_id'' (written_rows (new_events w w'))
         = map (\<lambda>i. Some (Str (''PROD'' @ fmt_d 6 i))) [0..NUM_PRODUCTS cfg - 1]
     \<and> distinct (column ''product_id'' (written_rows (new_events w w'))))
  \<and> (\<forall>u w'. generate_sales_reps_legacy E cfg w = (Inr u, w') \<longrightarrow>
       column ''sales_rep_id'' (written_rows (new_events w w'))
         = map (\<lambda>i. Some (Str (''SREP'' @ fmt_d 4 (i + 1)))) [0..NUM_SALES_REPS cfg - 1]
     \<and> distinct (column ''sales_rep_id'' (written_rows (new_events w w'))))
  \<and> (\<forall>files w'. generate_all_transactions_legacy E cfg w = (Inr files, w') \<longrightarrow>
       column ''transaction_id'' (written_rows (new_events w w'))
         = map (\<lambda>i. Some (Str (''TXN'' @ fmt_d 9 i))) [0..NUM_TRANSACTIONS cfg - 1]
     \<and> distinct (column ''transaction_id'' (written_rows (new_events w w'))))
  \<and> (\<forall>w'. complete_generator E cfg w = (0, w') \<longrightarrow>
         column ''customer_id'' (table_rows ''generated-data/customers'' (new_events w w'))
           = map (\<lambda>i. Some (Str (''CUST'' @ fmt_d 8 i))) [0..NUM_CUSTOMERS cfg - 1]
             @ map (\<lambda>i. Some (Str (''CUST'' @ fmt_d 6 i))) [0..NUM_CUSTOMERS cfg - 1]
       \<and> column ''product_id'' (table_rows ''generated-data/products'' (new_events w w'))
           = map (\<lambda>i. Some (Str (''PROD'' @ fmt_d 8 i))) [0..NUM_PRODUCTS cfg - 1]
             @ map (\<lambda>i. Some (Str (''PROD'' @ fmt_d 6 i))) [0..NUM_PRODUCTS cfg - 1]
       \<and> column ''sales_rep_id'' (table_rows ''generated-data/sales-reps'' (new_events w w'))
           = map (\<lambda>i. Some (Str (''SREP'' @ fmt_d 8 i))) [0..NUM_SALES_REPS cfg - 1]
             @ map (\<lambda>i. Some (Str (''SREP'' @ fmt_d 4 (i + 1)))) [0..NUM_SALES_REPS cfg - 1]
       \<and> column ''transaction_id'' (table_rows ''generated-data/transactions'' (new_events w w'))
           = map (\<lambda>i. Some (Str (''TXN'' @ fmt_d 12 i))) [0..NUM_TRANSACTIONS cfg - 1]
             @ map (\<lambda>i. Some (Str (''TXN'' @ fmt_d 9 i))) [0..NUM_TRANSACTIONS cfg - 1])
  \<and> (distinct (map (\<lambda>i. Some (Str (''CUST'' @ fmt_d 8 i))) [0..NUM_CUSTOMERS cfg - 1]
          @ map (\<lambda>i. Some (Str (''CUST'' @ fmt_d 6 i))) [0..NUM_CUSTOMERS cfg - 1])
      \<longleftrightarrow> NUM_CUSTOMERS cfg \<le> 10000000)
  \<and> (distinct (map (\<lambda>i. Some (Str (''PROD'' @ fmt_d 8 i))) [0..NUM_PRODUCTS cfg - 1]
          @ map (\<lambda>i. Some (Str (''PROD'' @ fmt_d 6 i))) [0..NUM_PRODUCTS cfg - 1])
      \<longleftrightarrow> NUM_PRODUCTS cfg \<le> 10000000)
  \<and> (distinct (map (\<lambda>i. Some (Str (''SREP'' @ fmt_d 8 i))) [0..NUM_SALES_REPS cfg - 1]
          @ map (\<lambda>i. Some (Str (''SREP'' @ fmt_d 4 (i + 1)))) [0..NUM_SALES_REPS cfg - 1])
      \<longleftrightarrow> NUM_SALES_REPS cfg \<le> 10000000)
  \<and> (distinct (map (\<lambda>i. Some (Str (''TXN'' @ fmt_d 12 i))) [0..NUM_TRANSACTIONS cfg - 1]
          @ map (\<lambda>i. Some (Str (''TXN'' @ fmt_d 9 i))) [0..NUM_TRANSACTIONS cfg - 1])
      \<longleftrightarrow> NUM_TRANSACTIONS cfg \<le> 100000000000)"
proof -
  have a0: "\<forall>files w'. generate_all_customers E cfg w = (Inr files, w') \<longrightarrow>
       column ''customer_id'' (written_rows (new_events w w'))
         = map (\<lambda>i. Some (Str (''CUST'' @ fmt_d 8 i))) [0..NUM_CUSTOMERS cfg - 1]
     \<and> distinct (column ''customer_id'' (written_rows (new_events w w')))"
  proof (intro allI impI)
    fix files w' assume r: "generate_all_customers E cfg w = (Inr files, w')"
    have c: "column ''customer_id'' (written_rows (new_events w w'))
         = map (\<lambda>i. Some (Str (''CUST'' @ fmt_d 8 i))) [0..NUM_CUSTOMERS cfg - 1]"
      using generate_all_customers_Inr[OF _ assms(1)] r by blast
    have "distinct (column ''customer_id'' (written_rows (new_events w w')))"
      by (simp only: c ids_distinct0)
    with c show "column ''customer_id'' (written_rows (new_events w w'))
         = map (\<lambda>i. Some (Str (''CUST'' @ fmt_d 8 i))) [0..NUM_CUSTOMERS cfg - 1]
     \<and> distinct (column ''customer_id'' (written_rows (new_events w w')))" by (rule conjI)
  qed
  have a1: "\<forall>files w'. generate_products E cfg w = (Inr files, w') \<longrightarrow>
       column ''product_id'' (written_rows (new_events w w'))
         = map (\<lambda>i. Some (Str (''PROD'' @ fmt_d 8 i))) [0..NUM_PRODUCTS cfg - 1]
     \<and> distinct (column ''product_id'' (written_rows (new_events w w')))"
  proof (intro allI impI)
    fix files w' assume r: "generate_products E cfg w = (Inr files, w')"
    have c: "column ''product_id'' (written_rows (new_events w w'))
         = map (\<lambda>i. Some (Str (''PROD'' @ fmt_d 8 i))) [0..NUM_PRODUCTS cfg - 1]"
      using generate_products_Inr[OF _ assms(2)] r by blast
    have "distinct (column ''product_id'' (written_rows (new_events w w')))"
      by (simp only: c ids_distinct0)
    with c show "column ''product_id'' (written_rows (new_events w w'))
         = map (\<lambda>i. Some (Str (''PROD'' @ fmt_d 8 i))) [0..NUM_PRODUCTS cfg - 1]
     \<and> distinct (column ''product_id'' (written_rows (new_events w w')))" by (rule conjI)
  qed
  have a2: "\<forall>files w'. generate_sales_reps E cfg w = (Inr files, w') \<longrightarrow>
       column ''sales_rep_id'' (written_rows (new_events w w'))
         = map (\<lambda>i. Some (Str (''SREP'' @ fmt_d 8 i))) [0..NUM_SALES_REPS cfg - 1]
     \<and> distinct (column ''sales_rep_id'' (written_rows (new_events w w')))"
  proof (intro allI impI)
    fix files w' assume r: "generate_sales_reps E cfg w = (Inr files, w')"
    have c: "column ''sales_rep_id'' (written_rows (new_events w w'))
         = map (\<lambda>i. Some (Str (''SREP'' @ fmt_d 8 i))) [0..NUM_SALES_REPS cfg - 1]"
      using generate_sales_reps_Inr[OF _ assms(2)] r by blast
    have "distinct (column ''sales_rep_id'' (written_rows (new_events w w')))"
      by (simp only: c ids_distinct0)
    with c show "column ''sales_rep_id'' (written_rows (new_events w w'))
         = map (\<lambda>i. Some (Str (''SREP'' @ fmt_d 8 i))) [0..NUM_SALES_REPS cfg - 1]
     \<and> distinct (column ''sales_rep_id'' (written_rows (new_events w w')))" by (rule conjI)
  qed
  have a3: "\<forall>files w'. generate_all_transactions E cfg w = (Inr files, w') \<longrightarrow>
       column ''transaction_id'' (written_rows (new_events w w'))
         = map (\<lambda>i. Some (Str (''TXN'' @ fmt_d 12 i))) [0..NUM_TRANSACTIONS cfg - 1]
     \<and> distinct (column ''transaction_id'' (written_rows (new_events w w')))"
  proof (intro allI impI)
    fix files w' assume r: "generate_all_transactions E cfg w = (Inr files, w')"
    have c: "column ''transaction_id'' (written_rows (new_events w w'))
         = map (\<lambda>i. Some (Str (''TXN'' @ fmt_d 12 i))) [0..NUM_TRANSACTIONS cfg - 1]"
      using generate_all_transactions_Inr[OF _ assms(3)] r by blast
    have "distinct (column ''transaction_id'' (written_rows (new_events w w')))"
      by (simp only: c ids_distinct0)
    with c show "column ''transaction_id'' (written_rows (new_events w w'))
         = map (\<lambda>i. Some (Str (''TXN'' @ fmt_d 12 i))) [0..NUM_TRANSACTIONS cfg - 1]
     \<and> distinct (column ''transaction_id'' (written_rows (new_events w w')))" by (rule conjI)
  qed
  have a4: "\<forall>files w'. generate_all_customers_legacy E cfg w = (Inr files, w') \<longrightarrow>
       column ''customer_id'' (written_rows (new_events w w'))
         = map (\<lambda>i. Some (Str (''CUST'' @ fmt_d 6 i))) [0..NUM_CUSTOMERS cfg - 1]
     \<and> distinct (column ''customer_id'' (written_rows (new_events w w')))"
  proof (intro allI impI)
    fix files w' assume r: "generate_all_customers_legacy E cfg w = (Inr files, w')"
    have c: "column ''customer_id'' (written_rows (new_events w w'))
         = map (\<lambda>i. Some (Str (''CUST'' @ fmt_d 6 i))) [0..NUM_CUSTOMERS cfg - 1]"
      using generate_all_customers_legacy_Inr[OF _ assms(1)] r by blast
    have "distinct (column ''customer_id'' (written_rows (new_events w w')))"
      by (simp only: c ids_distinct0)
    with c show "column ''customer_id'' (written_rows (new_events w w'))
         = map (\<lambda>i. Some (Str (''CUST'' @ fmt_d 6 i))) [0..NUM_CUSTOMERS cfg - 1]
     \<and> distinct (column ''customer_id'' (written_rows (new_events w w')))" by (rule conjI)
  qed
  have a5: "\<forall>files w'. generate_products_legacy E cfg w = (Inr files, w') \<longrightarrow>
       column ''product_id'' (written_rows (new_events w w'))
         = map (\<lambda>i. Some (Str (''PROD'' @ fmt_d 6 i))) [0..NUM_PRODUCTS cfg - 1]
     \<and> distinct (column ''product_id'' (written_rows (new_events w w')))"
  proof (intro allI impI)
    fix files w' assume r: "generate_products_legacy E cfg w = (Inr files, w')"
    have c: "column ''product_id'' (written_rows (new_events w w'))
         = map (\<lambda>i. Some (Str (''PROD'' @ fmt_d 6 i))) [0..NUM_PRODUCTS cfg - 1]"
      using generate_products_legacy_Inr[OF _ assms(2)] r by blast
    have "distinct (column ''product_id'' (written_rows (new_events w w')))"
      by (simp only: c ids_distinct0)
    with c show "column ''product_id'' (written_rows (new_events w w'))
         = map (\<lambda>i. Some (Str (''PROD'' @ fmt_d 6 i))) [0..NUM_PRODUCTS cfg - 1]
     \<and> distinct (column ''product_id'' (written_rows (new_events w w')))" by (rule conjI)
  qed
  have a6: "\<forall>u w'. generate_sales_reps_legacy E cfg w = (Inr u, w') \<longrightarrow>
       column ''sales_rep_id'' (written_rows (new_events w w'))
         = map (\<lambda>i. Some (Str (''SREP'' @ fmt_d 4 (i + 1)))) [0..NUM_SALES_REPS cfg - 1]
     \<and> distinct (column ''sales_rep_id'' (written_rows (new_events w w')))"
  proof (intro allI impI)
    fix u w' assume r: "generate_sales_reps_legacy E cfg w = (Inr u, w')"
    have c: "column ''sales_rep_id'' (written_rows (new_events w w'))
         = map (\<lambda>i. Some (Str (''SREP'' @ fmt_d 4 (i + 1)))) [0..NUM_SALES_REPS cfg - 1]"
      using sales_reps_legacy_Inr[OF r] by (fastforce simp: written_rows_def)
    have "distinct (column ''sales_rep_id'' (written_rows (new_events w w')))"
      using ids_distinct[of 1 "''SREP''" 4 "NUM_SALES_REPS cfg - 1"] by (simp add: c)
    with c show "column ''sales_rep_id'' (written_rows (new_events w w'))
         = map (\<lambda>i. Some (Str (''SREP'' @ fmt_d 4 (i + 1)))) [0..NUM_SALES_REPS cfg - 1]
     \<and> distinct (column ''sales_rep_id'' (written_rows (new_events w w')))" by (rule conjI)
  qed
  have a7: "\<forall>files w'. generate_all_transactions_legacy E cfg w = (Inr files, w') \<longrightarrow>
       column ''transaction_id'' (written_rows (new_events w w'))
         = map (\<lambda>i. Some (Str (''TXN'' @ fmt_d 9 i))) [0..NUM_TRANSACTIONS cfg - 1]
     \<and> distinct (column ''transaction_id'' (written_rows (new_events w w')))"
  proof (intro allI impI)
    fix files w' assume r: "generate_all_transactions_legacy E cfg w = (Inr files, w')"
    have c: "column ''transaction_id'' (written_rows (new_events w w'))
         = map (\<lambda>i. Some (Str (''TXN'' @ fmt_d 9 i))) [0..NUM_TRANSACTIONS cfg - 1]"
      using generate_all_transactions_legacy_Inr[OF _ assms(3)] r by blast
    have "distinct (column ''transaction_id'' (written_rows (new_events w w')))"
      by (simp only: c ids_distinct0)
    with c show "column ''transaction_id'' (written_rows (new_events w w'))
         = map (\<lambda>i. Some (Str (''TXN'' @ fmt_d 9 i))) [0..NUM_TRANSACTIONS cfg - 1]
     \<and> distinct (column ''transaction_id'' (written_rows (new_events w w')))" by (rule conjI)
  qed
  have run: "\<forall>w'. complete_generator E cfg w = (0, w') \<longrightarrow>
         column ''customer_id'' (table_rows ''generated-data/customers'' (new_events w w'))
           = map (\<lambda>i. Some (Str (''CUST'' @ fmt_d 8 i))) [0..NUM_CUSTOMERS cfg - 1]
             @ map (\<lambda>i. Some (Str (''CUST'' @ fmt_d 6 i))) [0..NUM_CUSTOMERS cfg - 1]
       \<and> column ''product_id'' (table_rows ''generated-data/products'' (new_events w w'))
           = map (\<lambda>i. Some (Str (''PROD'' @ fmt_d 8 i))) [0..NUM_PRODUCTS cfg - 1]
             @ map (\<lambda>i. Some (Str (''PROD'' @ fmt_d 6 i))) [0..NUM_PRODUCTS cfg - 1]
       \<and> column ''sales_rep_id'' (table_rows ''generated-data/sales-reps'' (new_events w w'))
           = map (\<lambda>i. Some (Str (''SREP'' @ fmt_d 8 i))) [0..NUM_SALES_REPS cfg - 1]
             @ map (\<lambda>i. Some (Str (''SREP'' @ fmt_d 4 (i + 1)))) [0..NUM_SALES_REPS cfg - 1]
       \<and> column ''transaction_id'' (table_rows ''generated-data/transactions'' (new_events w w'))
           = map (\<lambda>i. Some (Str (''TXN'' @ fmt_d 12 i))) [0..NUM_TRANSACTIONS cfg - 1]
             @ map (\<lambda>i. Some (Str (''TXN'' @ fmt_d 9 i))) [0..NUM_TRANSACTIONS cfg - 1]"
  proof (intro allI impI)
    fix w' assume "complete_generator E cfg w = (0, w')"
    then show "column ''customer_id'' (table_rows ''generated-data/customers'' (new_events w w'))
           = map (\<lambda>i. Some (Str (''CUST'' @ fmt_d 8 i))) [0..NUM_CUSTOMERS cfg - 1]
             @ map (\<lambda>i. Some (Str (''CUST'' @ fmt_d 6 i))) [0..NUM_CUSTOMERS cfg - 1]
       \<and> column ''product_id'' (table_rows ''generated-data/products'' (new_events w w'))
           = map (\<lambda>i. Some (Str (''PROD'' @ fmt_d 8 i))) [0..NUM_PRODUCTS cfg - 1]
             @ map (\<lambda>i. Some (Str (''PROD'' @ fmt_d 6 i))) [0..NUM_PRODUCTS cfg - 1]
       \<and> column ''sales_rep_id'' (table_rows ''generated-data/sales-reps'' (new_events w w'))
           = map (\<lambda>i. Some (Str (''SREP'' @ fmt_d 8 i))) [0..NUM_SALES_REPS cfg - 1]
             @ map (\<lambda>i. Some (Str (''SREP'' @ fmt_d 4 (i + 1)))) [0..NUM_SALES_REPS cfg - 1]
       \<and> column ''transaction_id'' (table_rows ''generated-data/transactions'' (new_events w w'))
           = map (\<lambda>i. Some (Str (''TXN'' @ fmt_d 12 i))) [0..NUM_TRANSACTIONS cfg - 1]
             @ map (\<lambda>i. Some (Str (''TXN'' @ fmt_d 9 i))) [0..NUM_TRANSACTIONS cfg - 1]"
      using assms by (rule complete_run_identifiers)
  qed
  have d0: "distinct (map (\<lambda>i. Some (Str (''CUST'' @ fmt_d 8 i))) [0..NUM_CUSTOMERS cfg - 1]
          @ map (\<lambda>i. Some (Str (''CUST'' @ fmt_d 6 i))) [0..NUM_CUSTOMERS cfg - 1])
      \<longleftrightarrow> NUM_CUSTOMERS cfg \<le> 10000000"
    using two_pass_ids_distinct[of 6 8 0 "''CUST''" "NUM_CUSTOMERS cfg"] by simp
  have d1: "distinct (map (\<lambda>i. Some (Str (''PROD'' @ fmt_d 8 i))) [0..NUM_PRODUCTS cfg - 1]
          @ map (\<lambda>i. Some (Str (''PROD'' @ fmt_d 6 i))) [0..NUM_PRODUCTS cfg - 1])
      \<longleftrightarrow> NUM_PRODUCTS cfg \<le> 10000000"
    using two_pass_ids_distinct[of 6 8 0 "''PROD''" "NUM_PRODUCTS cfg"] by simp
  have d2: "distinct (map (\<lambda>i. Some (Str (''SREP'' @ fmt_d 8 i))) [0..NUM_SALES_REPS cfg - 1]
          @ map (\<lambda>i. Some (Str (''SREP'' @ fmt_d 4 (i + 1)))) [0..NUM_SALES_REPS cfg - 1])
      \<longleftrightarrow> NUM_SALES_REPS cfg \<le> 10000000"
    using two_pass_ids_distinct[of 4 8 1 "''SREP''" "NUM_SALES_REPS cfg"] by simp
  have d3: "distinct (map (\<lambda>i. Some (Str (''TXN'' @ fmt_d 12 i))) [0..NUM_TRANSACTIONS cfg - 1]
          @ map (\<lambda>i. Some (Str (''TXN'' @ fmt_d 9 i))) [0..NUM_TRANSACTIONS cfg - 1])
      \<longleftrightarrow> NUM_TRANSACTIONS cfg \<le> 100000000000"
    using two_pass_ids_distinct[of 9 12 0 "''TXN''" "NUM_TRANSACTIONS cfg"] by simp
  show ?thesis using a0 a1 a2 a3 a4 a5 a6 a7 run d0 d1 d2 d3 by (intro conjI)
qed

theorem C6_identifiers_per_pass_witness:
  "0 < CUSTOMER_BATCH_SIZE small_config \<and> 0 < PRODUCT_BATCH_SIZE small_config
   \<and> 0 < TRANSACTION_BATCH_SIZE small_config
   \<and> (\<exists>files w'. generate_all_customers sample_env small_config initial_world = (Inr files, w')
      \<and> column ''customer_id'' (written_rows (new_events initial_world w'))
          = [Some (Str ''CUST00000000''), Some (Str ''CUST00000001''), Some (Str ''CUST00000002''), Some (Str ''CUST00000003''), Some (Str ''CUST00000004'')]
      \<and> distinct (column ''customer_id'' (written_rows (new_events initial_world w'))))
   \<and> (\<exists>files w'. generate_products sample_env small_config initial_world = (Inr files, w')
      \<and> column ''product_id'' (written_rows (new_events initial_world w'))
          = [Some (Str ''PROD00000000''), Some (Str ''PROD00000001''), Some (Str ''PROD00000002'')]
      \<and> distinct (column ''product_id'' (written_rows (new_events initial_world w'))))
   \<and> (\<exists>files w'. generate_sales_reps sample_env small_config initial_world = (Inr files, w')
      \<and> column ''sales_rep_id'' (written_rows (new_events initial_world w'))
          = [Some (Str ''SREP00000000''), Some (Str ''SREP00000001'')]
      \<and> distinct (column ''sales_rep_id'' (written_rows (new_events initial_world w'))))
   \<and> (\<exists>files w'. generate_all_transactions sample_env small_config initial_world = (Inr files, w')
      \<and> column ''transaction_id'' (written_rows (new_events initial_world w'))
          = [Some (Str ''TXN000000000000''), Some (Str ''TXN000000000001''), Some (Str ''TXN000000000002'')]
      \<and> distinct (column ''transaction_id'' (written_rows (new_events initial_world w'))))
   \<and> (\<exists>files w'. generate_all_customers_legacy sample_env small_config initial_world = (Inr files, w')
      \<and> column ''customer_id'' (written_rows (new_events initial_world w'))
          = [Some (Str ''CUST000000''), Some (Str ''CUST000001''), Some (Str ''CUST000002''), Some (Str ''CUST000003''), Some (Str ''CUST000004'')]
      \<and> distinct (column ''customer_id'' (written_rows (new_events initial_world w'))))
   \<and> (\<exists>files w'. generate_products_legacy sample_env small_config initial_world = (Inr files, w')
      \<and> column ''product_id'' (written_rows (new_events initial_world w'))
          = [Some (Str ''PROD000000''), Some (Str ''PROD000001''), Some (Str ''PROD000002'')]
      \<and> distinct (column ''product_id'' (written_rows (new_events initial_world w'))))
   \<and> (\<exists>u w'. generate_sales_reps_legacy sample_env small_config initial_world = (Inr u, w')
      \<and> column ''sales_rep_id'' (written_rows (new_events initial_world w'))
          = [Some (Str ''SREP0001''), Some (Str ''SREP0002'')]
      \<and> distinct (column ''sales_rep_id'' (written_rows (new_events initial_world w'))))
   \<and> (\<exists>files w'. generate_all_transactions_legacy sample_env small_config initial_world = (Inr files, w')
      \<and> column ''transaction_id'' (written_rows (new_events initial_world w'))
          = [Some (Str ''TXN000000000''), Some (Str ''TXN000000001''), Some (Str ''TXN000000002'')]
      \<and> distinct (column ''transaction_id'' (written_rows (new_events initial_world w'))))
   \<and> (\<exists>w'. complete_generator sample_env small_config initial_world = (0, w')
      \<and> column ''customer_id'' (table_rows ''generated-data/customers'' (new_events initial_world w'))
          = [Some (Str ''CUST00000000''), Some (Str ''CUST00000001''), Some (Str ''CUST00000002''), Some (Str ''CUST00000003''), Some (Str ''CUST00000004''), Some (Str ''CUST000000''), Some (Str ''CUST000001''), Some (Str ''CUST000002''), Some (Str ''CUST000003''), Some (Str ''CUST000004'')]
      \<and> column ''product_id'' (table_rows ''generated-data/products'' (new_events initial_world w'))
          = [Some (Str ''PROD00000000''), Some (Str ''PROD00000001''), Some (Str ''PROD00000002''), Some (Str ''PROD000000''), Some (Str ''PROD000001''), Some (Str ''PROD000002'')]
      \<and> column ''sales_rep_id'' (table_rows ''generated-data/sales-reps'' (new_events initial_world w'))
          = [Some (Str ''SREP00000000''), Some (Str ''SREP00000001''), Some (Str ''SREP0001''), Some (Str ''SREP0002'')]
      \<and> column ''transaction_id'' (table_rows ''generated-data/transactions'' (new_events initial_world w'))
          = [Some (Str ''TXN000000000000''), Some (Str ''TXN000000000001''), Some (Str ''TXN000000000002''), Some (Str ''TXN000000000''), Some (Str ''TXN000000001''), Some (Str ''TXN000000002'')]
      \<and> distinct (column ''customer_id'' (table_rows ''generated-data/customers'' (new_events initial_world w')))
      \<and> distinct (column ''product_id'' (table_rows ''generated-data/products'' (new_events initial_world w')))
      \<and> distinct (column ''sales_rep_id'' (table_rows ''generated-data/sales-reps'' (new_events initial_world w')))
      \<and> distinct (column ''transaction_id'' (table_rows ''generated-data/transactions'' (new_events initial_world w'))))"
proof -
  have b: "0 < CUSTOMER_BATCH_SIZE small_config" "0 < PRODUCT_BATCH_SIZE small_config"
    "0 < TRANSACTION_BATCH_SIZE small_config" by (simp_all add: sample_simps)
  note th = C6_identifiers_per_pass[OF b, of sample_env initial_world]
  have c0: "\<exists>files w'. generate_all_customers sample_env small_config initial_world = (Inr files, w')
      \<and> column ''customer_id'' (written_rows (new_events initial_world w'))
          = [Some (Str ''CUST00000000''), Some (Str ''CUST00000001''), Some (Str ''CUST00000002''), Some (Str ''CUST00000003''), Some (Str ''CUST00000004'')]
      \<and> distinct (column ''customer_id'' (written_rows (new_events initial_world w')))"
  proof -
    obtain files w' where r: "generate_all_customers sample_env small_config initial_world = (Inr files, w')"
      using generate_all_customers_succeeds[where E = sample_env and cfg = small_config and w = initial_world]
      by (auto simp: sample_simps)
    have "column ''customer_id'' (written_rows (new_events initial_world w'))
          = [Some (Str ''CUST00000000''), Some (Str ''CUST00000001''), Some (Str ''CUST00000002''), Some (Str ''CUST00000003''), Some (Str ''CUST00000004'')]
      \<and> distinct (column ''customer_id'' (written_rows (new_events initial_world w')))"
      using th[THEN conjunct1] r by (simp add: sample_simps upto_rec1 format_eval)
    then show ?thesis using r by blast
  qed
  have c1: "\<exists>files w'. generate_products sample_env small_config initial_world = (Inr files, w')
      \<and> column ''product_id'' (written_rows (new_events initial_world w'))
          = [Some (Str ''PROD00000000''), Some (Str ''PROD00000001''), Some (Str ''PROD00000002'')]
      \<and> distinct (column ''product_id'' (written_rows (new_events initial_world w')))"
  proof -
    obtain files w' where r: "generate_products sample_env small_config initial_world = (Inr files, w')"
      using generate_products_succeeds[where E = sample_env and cfg = small_config and w = initial_world]
      by (auto simp: sample_simps)
    have "column ''product_id'' (written_rows (new_events initial_world w'))
          = [Some (Str ''PROD00000000''), Some (Str ''PROD00000001''), Some (Str ''PROD00000002'')]
      \<and> distinct (column ''product_id'' (written_rows (new_events initial_world w')))"
      using th[THEN conjunct2, THEN conjunct1] r by (simp add: sample_simps upto_rec1 format_eval)
    then show ?thesis using r by blast
  qed
  have c2: "\<exists>files w'. generate_sales_reps sample_env small_config initial_world = (Inr files, w')
      \<and> column ''sales_rep_id'' (written_rows (new_events initial_world w'))
          = [Some (Str ''SREP00000000''), Some (Str ''SREP00000001'')]
      \<and> distinct (column ''sales_rep_id'' (written_rows (new_events initial_world w')))"
  proof -
    obtain files w' where r: "generate_sales_reps sample_env small_config initial_world = (Inr files, w')"
      using generate_sales_reps_succeeds[where E = sample_env and cfg = small_config and w = initial_world]
      by (auto simp: sample_simps)
    have "column ''sales_rep_id'' (written_rows (new_events initial_world w'))
          = [Some (Str ''SREP00000000''), Some (Str ''SREP00000001'')]
      \<and> distinct (column ''sales_rep_id'' (written_rows (new_events initial_world w')))"
      using th[THEN conjunct2, THEN conjunct2, THEN conjunct1] r by (simp add: sample_simps upto_rec1 format_eval)
    then show ?thesis using r by blast
  qed
  have c3: "\<exists>files w'. generate_all_transactions sample_env small_config initial_world = (Inr files, w')
      \<and> column ''transaction_id'' (written_rows (new_events initial_world w'))
          = [Some (Str ''TXN000000000000''), Some (Str ''TXN000000000001''), Some (Str ''TXN000000000002'')]
      \<and> distinct (column ''transaction_id'' (written_rows (new_events initial_world w')))"
  proof -
    obtain files w' where r: "generate_all_transactions sample_env small_config initial_world = (Inr files, w')"
      using generate_all_transactions_succeeds[where E = sample_env and cfg = small_config
          and w = initial_world and a = 738521 and b = 739251]
      by (auto simp: sample_simps)
    have "column ''transaction_id'' (written_rows (new_events initial_world w'))
          = [Some (Str ''TXN000000000000''), Some (Str ''TXN000000000001''), Some (Str ''TXN000000000002'')]
      \<and> distinct (column ''transaction_id'' (written_rows (new_events initial_world w')))"
      using th[THEN conjunct2, THEN conjunct2, THEN conjunct2, THEN conjunct1] r by (simp add: sample_simps upto_rec1 format_eval)
    then show ?thesis using r by blast
  qed
  have c4: "\<exists>files w'. generate_all_customers_legacy sample_env small_config initial_world = (Inr files, w')
      \<and> column ''customer_id'' (written_rows (new_events initial_world w'))
          = [Some (Str ''CUST000000''), Some (Str ''CUST000001''), Some (Str ''CUST000002''), Some (Str ''CUST000003''), Some (Str ''CUST000004'')]
      \<and> distinct (column ''customer_id'' (written_rows (new_events initial_world w')))"
  proof -
    obtain files w' where r: "generate_all_customers_legacy sample_env small_config initial_world = (Inr files, w')"
      using generate_all_customers_legacy_succeeds[where E = sample_env and cfg = small_config and w = initial_world]
      by (auto simp: sample_simps)
    have "column ''customer_id'' (written_rows (new_events initial_world w'))
          = [Some (Str ''CUST000000''), Some (Str ''CUST000001''), Some (Str ''CUST000002''), Some (Str ''CUST000003''), Some (Str ''CUST000004'')]
      \<and> distinct (column ''customer_id'' (written_rows (new_events initial_world w')))"
      using th[THEN conjunct2, THEN conjunct2, THEN conjunct2, THEN conjunct2, THEN conjunct1] r by (simp add: sample_simps upto_rec1 format_eval)
    then show ?thesis using r by blast
  qed
  have c5: "\<exists>files w'. generate_products_legacy sample_env small_config initial_world = (Inr files, w')
      \<and> column ''product_id'' (written_rows (new_events initial_world w'))
          = [Some (Str ''PROD000000''), Some (Str ''PROD000001''), Some (Str ''PROD000002'')]
      \<and> distinct (column ''product_id'' (written_rows (new_events initial_world w')))"
  proof -
    obtain files w' where r: "generate_products_legacy sample_env small_config initial_world = (Inr files, w')"
      using generate_products_legacy_succeeds[where E = sample_env and cfg = small_config and w = initial_world]
      by (auto simp: sample_simps)
    have "column ''product_id'' (written_rows (new_events initial_world w'))
          = [Some (Str ''PROD000000''), Some (Str ''PROD000001''), Some (Str ''PROD000002'')]
      \<and> distinct (column ''product_id'' (written_rows (new_events initial_world w')))"
      using th[THEN conjunct2, THEN conjunct2, THEN conjunct2, THEN conjunct2, THEN conjunct2, THEN conjunct1] r by (simp add: sample_simps upto_rec1 format_eval)
    then show ?thesis using r by blast
  qed
  have c6: "\<exists>u w'. generate_sales_reps_legacy sample_env small_config initial_world = (Inr u, w')
      \<and> column ''sales_rep_id'' (written_rows (new_events initial_world w'))
          = [Some (Str ''SREP0001''), Some (Str ''SREP0002'')]
      \<and> distinct (column ''sales_rep_id'' (written_rows (new_events initial_world w')))"
  proof -
    obtain u w' where r: "generate_sales_reps_legacy sample_env small_config initial_world = (Inr u, w')"
      using generate_sales_reps_legacy_succeeds[where E = sample_env and cfg = small_config and w = initial_world]
      by (auto simp: sample_simps)
    have "column ''sales_rep_id'' (written_rows (new_events initial_world w'))
          = [Some (Str ''SREP0001''), Some (Str ''SREP0002'')]
      \<and> distinct (column ''sales_rep_id'' (written_rows (new_events initial_world w')))"
      using th[THEN conjunct2, THEN conjunct2, THEN conjunct2, THEN conjunct2, THEN conjunct2, THEN conjunct2, THEN conjunct1] r by (simp add: sample_simps upto_rec1 format_eval)
    then show ?thesis using r by blast
  qed
  have c7: "\<exists>files w'. generate_all_transactions_legacy sample_env small_config initial_world = (Inr files, w')
      \<and> column ''transaction_id'' (written_rows (new_events initial_world w'))
          = [Some (Str ''TXN000000000''), Some (Str ''TXN000000001''), Some (Str ''TXN000000002'')]
      \<and> distinct (column ''transaction_id'' (written_rows (new_events initial_world w')))"
  proof -
    obtain files w' where r: "generate_all_transactions_legacy sample_env small_config initial_world = (Inr files, w')"
      using generate_all_transactions_legacy_succeeds[where E = sample_env and cfg = small_config
          and w = initial_world and a = 738521 and b = 739251]
      by (auto simp: sample_simps)
    have "column ''transaction_id'' (written_rows (new_events initial_world w'))
          = [Some (Str ''TXN000000000''), Some (Str ''TXN000000001''), Some (Str ''TXN000000002'')]
      \<and> distinct (column ''transaction_id'' (written_rows (new_events initial_world w')))"
      using th[THEN conjunct2, THEN conjunct2, THEN conjunct2, THEN conjunct2, THEN conjunct2, THEN conjunct2, THEN conjunct2, THEN conjunct1] r by (simp add: sample_simps upto_rec1 format_eval)
    then show ?thesis using r by blast
  qed
  have c8: "\<exists>w'. complete_generator sample_env small_config initial_world = (0, w')
      \<and> column ''customer_id'' (table_rows ''generated-data/customers'' (new_events initial_world w'))
          = [Some (Str ''CUST00000000''), Some (Str ''CUST00000001''), Some (Str ''CUST00000002''), Some (Str ''CUST00000003''), Some (Str ''CUST00000004''), Some (Str ''CUST000000''), Some (Str ''CUST000001''), Some (Str ''CUST000002''), Some (Str ''CUST000003''), Some (Str ''CUST000004'')]
      \<and> column ''product_id'' (table_rows ''generated-data/products'' (new_events initial_world w'))
          = [Some (Str ''PROD00000000''), Some (Str ''PROD00000001''), Some (Str ''PROD00000002''), Some (Str ''PROD000000''), Some (Str ''PROD000001''), Some (Str ''PROD000002'')]
      \<and> column ''sales_rep_id'' (table_rows ''generated-data/sales-reps'' (new_events initial_world w'))
          = [Some (Str ''SREP00000000''), Some (Str ''SREP00000001''), Some (Str ''SREP0001''), Some (Str ''SREP0002'')]
      \<and> column ''transaction_id'' (table_rows ''generated-data/transactions'' (new_events initial_world w'))
          = [Some (Str ''TXN000000000000''), Some (Str ''TXN000000000001''), Some (Str ''TXN000000000002''), Some (Str ''TXN000000000''), Some (Str ''TXN000000001''), Some (Str ''TXN000000002'')]
      \<and> distinct (column ''customer_id'' (table_rows ''generated-data/customers'' (new_events initial_world w')))
      \<and> distinct (column ''product_id'' (table_rows ''generated-data/products'' (new_events initial_world w')))
      \<and> distinct (column ''sales_rep_id'' (table_rows ''generated-data/sales-reps'' (new_events initial_world w')))
      \<and> distinct (column ''transaction_id'' (table_rows ''generated-data/transactions'' (new_events initial_world w')))"
  proof -
    obtain w' where r: "complete_generator sample_env small_config initial_world = (0, w')"
      using complete_generator_succeeds[where E = sample_env and cfg = small_config
          and w = initial_world and a = 738521 and b = 739251]
      by (auto simp: sample_simps)
    note eqs = th[THEN conjunct2, THEN conjunct2, THEN conjunct2, THEN conjunct2, THEN conjunct2, THEN conjunct2, THEN conjunct2, THEN conjunct2, THEN conjunct1, rule_format, OF r]
    note e0 = eqs[THEN conjunct1]
    have "NUM_CUSTOMERS small_config \<le> 10000000" by (simp add: sample_simps)
    note x0 = th[THEN conjunct2, THEN conjunct2, THEN conjunct2, THEN conjunct2, THEN conjunct2, THEN conjunct2, THEN conjunct2, THEN conjunct2, THEN conjunct2, THEN conjunct1, THEN iffD2, OF this]
    have k0: "distinct (column ''customer_id'' (table_rows ''generated-data/customers'' (new_events initial_world w')))"
      using x0 by (simp only: e0)
    have v0: "column ''customer_id'' (table_rows ''generated-data/customers'' (new_events initial_world w'))
          = [Some (Str ''CUST00000000''), Some (Str ''CUST00000001''), Some (Str ''CUST00000002''), Some (Str ''CUST00000003''), Some (Str ''CUST00000004''), Some (Str ''CUST000000''), Some (Str ''CUST000001''), Some (Str ''CUST000002''), Some (Str ''CUST000003''), Some (Str ''CUST000004'')]"
      using e0 by (simp add: sample_simps upto_rec1 format_eval)
    note e1 = eqs[THEN conjunct2, THEN conjunct1]
    have "NUM_PRODUCTS small_config \<le> 10000000" by (simp add: sample_simps)
    note x1 = th[THEN conjunct2, THEN conjunct2, THEN conjunct2, THEN conjunct2, THEN conjunct2, THEN conjunct2, THEN conjunct2, THEN conjunct2, THEN conjunct2, THEN conjunct2, THEN conjunct1, THEN iffD2, OF this]
    have k1: "distinct (column ''product_id'' (table_rows ''generated-data/products'' (new_events initial_world w')))"
      using x1 by (simp only: e1)
    have v1: "column ''product_id'' (table_rows ''generated-data/products'' (new_events initial_world w'))
          = [Some (Str ''PROD00000000''), Some (Str ''PROD00000001''), Some (Str ''PROD00000002''), Some (Str ''PROD000000''), Some (Str ''PROD000001''), Some (Str ''PROD000002'')]"
      using e1 by (simp add: sample_simps upto_rec1 format_eval)
    note e2 = eqs[THEN conjunct2, THEN conjunct2, THEN conjunct1]
    have "NUM_SALES_REPS small_config \<le> 10000000" by (simp add: sample_simps)
    note x2 = th[THEN conjunct2, THEN conjunct2, THEN conjunct2, THEN conjunct2, THEN conjunct2, THEN conjunct2, THEN conjunct2, THEN conjunct2, THEN conjunct2, THEN conjunct2, THEN conjunct2, THEN conjunct1, THEN iffD2, OF this]
    have k2: "distinct (column ''sales_rep_id'' (table_rows ''generated-data/sales-reps'' (new_events initial_world w')))"
      using x2 by (simp only: e2)
    have v2: "column ''sales_rep_id'' (table_rows ''generated-data/sales-reps'' (new_events initial_world w'))
          = [Some (Str ''SREP00000000''), Some (Str ''SREP00000001''), Some (Str ''SREP0001''), Some (Str ''SREP0002'')]"
      using e2 by (simp add: sample_simps upto_rec1 format_eval)
    note e3 = eqs[THEN conjunct2, THEN conjunct2, THEN conjunct2]
    have "NUM_TRANSACTIONS small_config \<le> 100000000000" by (simp add: sample_simps)
    note x3 = th[THEN conjunct2, THEN conjunct2, THEN conjunct2, THEN conjunct2, THEN conjunct2, THEN conjunct2, THEN conjunct2, THEN conjunct2, THEN conjunct2, THEN conjunct2, THEN conjunct2, THEN conjunct2, THEN iffD2, OF this]
    have k3: "distinct (column ''transaction_id'' (table_rows ''generated-data/transactions'' (new_events initial_world w')))"
      using x3 by (simp only: e3)
    have v3: "column ''transaction_id'' (table_rows ''generated-data/transactions'' (new_events initial_world w'))
          = [Some (Str ''TXN000000000000''), Some (Str ''TXN000000000001''), Some (Str ''TXN000000000002''), Some (Str ''TXN000000000''), Some (Str ''TXN000000001''), Some (Str ''TXN000000002'')]"
      using e3 by (simp add: sample_simps upto_rec1 format_eval)
    show ?thesis using r v0 v1 v2 v3 k0 k1 k2 k3 by (intro exI[of _ w'] conjI)
  qed
  show ?thesis using b c0 c1 c2 c3 c4 c5 c6 c7 c8 by (intro conjI)
qed

lemma ten_million_simps:
  "NUM_CUSTOMERS ten_million_config = 10000001" "NUM_PRODUCTS ten_million_config = 3"
  "NUM_SALES_REPS ten_million_config = 2" "NUM_TRANSACTIONS ten_million_config = 3"
  "CUSTOMER_BATCH_SIZE ten_million_config = 10000001" "PRODUCT_BATCH_SIZE ten_million_config = 2"
  "TRANSACTION_BATCH_SIZE ten_million_config = 2"
  "START_DATE ten_million_config = ''2023-01-01''" "END_DATE ten_million_config = ''2024-12-31''"
  "OUTPUT_FORMAT ten_million_config = ''parquet''"
  "REGIONS ten_million_config \<noteq> []" "COUNTRIES ten_million_config \<noteq> []"
  "PRODUCT_CATEGORIES ten_million_config \<noteq> []" "CUSTOMER_SEGMENTS ten_million_config \<noteq> []"
  by (simp_all add: ten_million_config_def small_config_def)

lemma fmt_d_zeros_width:
  assumes "fmt_d wd i = replicate k CHR ''0''" and "2 \<le> k"
  shows "wd = k"
proof -
  have i0: "0 \<le> i"
  proof (rule ccontr)
    assume "\<not> 0 \<le> i"
    then have "hd (fmt_d wd i) = CHR ''-''" by (simp add: fmt_d_def)
    moreover have "hd (replicate k CHR ''0'') = CHR ''0''" using assms(2) by (cases k) simp_all
    ultimately show False using assms(1) by simp
  qed
  have "undigits (fmt_d wd i) = undigits (replicate k CHR ''0'')" using assms(1) by simp
  moreover have "undigits (replicate k CHR ''0'') = 0" by (simp add: undigits_def undigits_zeros)
  moreover have "undigits (fmt_d wd i) = nat i" using i0 by (rule undigits_fmt_d)
  ultimately have "nat i = 0" by simp
  then have "i = 0" using i0 by simp
  have "length (fmt_d wd i) = k" using assms(1) by simp
  then have "max wd (length (digits 0)) = k" using \<open>i = 0\<close> by (simp add: length_fmt_d)
  moreover have "length (digits 0) = 1" by (subst digits.simps) simp
  ultimately show ?thesis using assms(2) by (simp add: max_def split: if_splits)
qed

text \<open>
  The claim as stated, read for one run of \<open>complete_generator.py\<close>, fails. With 10000001
  customers the run ends with status 0 and has written the customer identifier
  \<open>CUST10000000\<close> twice, once in each pass, because eight digits are no longer padded. And
  already in the small run the customer identifiers do not follow one format: the first
  pass writes \<open>CUST00000000\<close> and the second \<open>CUST000000\<close>, so no single padding width
  describes them.
\<close>

theorem C6_run_identifiers_counterexample:
  "NUM_CUSTOMERS ten_million_config = 10000001
   \<and> fst (complete_generator sample_env ten_million_config initial_world) = 0
   \<and> ''CUST'' @ fmt_d 8 10000000 = ''CUST10000000''
   \<and> ''CUST'' @ fmt_d 6 10000000 = ''CUST10000000''
   \<and> \<not> distinct (column ''customer_id'' (table_rows ''generated-data/customers''
        (events (snd (complete_generator sample_env ten_million_config initial_world)))))
   \<and> fst (complete_generator sample_env small_config initial_world) = 0
   \<and> \<not> (\<exists>wd. \<forall>v \<in> set (column ''customer_id'' (table_rows ''generated-data/customers''
        (events (snd (complete_generator sample_env small_config initial_world))))).
          \<exists>i. v = Some (Str (''CUST'' @ fmt_d wd i)))"
proof -
  have ne: "new_events initial_world w' = events w'" for w'
    by (simp add: new_events_def initial_world_def)
  obtain w' where r: "complete_generator sample_env ten_million_config initial_world = (0, w')"
    using complete_generator_succeeds[where E = sample_env and cfg = ten_million_config
        and w = initial_world and a = 738521 and b = 739251]
    by (auto simp: sample_simps ten_million_simps)
  have f8: "''CUST'' @ fmt_d 8 10000000 = ''CUST10000000''" by (simp add: format_eval)
  have f6: "''CUST'' @ fmt_d 6 10000000 = ''CUST10000000''" by (simp add: format_eval)
  have col: "column ''customer_id'' (table_rows ''generated-data/customers'' (events w'))
      = map (\<lambda>i. Some (Str (''CUST'' @ fmt_d 8 i))) [0..NUM_CUSTOMERS ten_million_config - 1]
        @ map (\<lambda>i. Some (Str (''CUST'' @ fmt_d 6 i))) [0..NUM_CUSTOMERS ten_million_config - 1]"
    using complete_run_identifiers[OF r] by (simp add: ten_million_simps ne)
  have "\<not> NUM_CUSTOMERS ten_million_config \<le> 10000000" by (simp add: ten_million_simps)
  then have "\<not> distinct (map (\<lambda>i. Some (Str (''CUST'' @ fmt_d 8 i)))
          [0..NUM_CUSTOMERS ten_million_config - 1]
        @ map (\<lambda>i. Some (Str (''CUST'' @ fmt_d 6 i))) [0..NUM_CUSTOMERS ten_million_config - 1])"
    using two_pass_ids_distinct[of 6 8 0 "''CUST''" "NUM_CUSTOMERS ten_million_config"] by simp
  then have nd: "\<not> distinct (column ''customer_id'' (table_rows ''generated-data/customers''
        (events (snd (complete_generator sample_env ten_million_config initial_world)))))"
    by (simp only: r snd_conv col simp_thms)
  obtain w2 where r2: "complete_generator sample_env small_config initial_world = (0, w2)"
    using complete_generator_succeeds[where E = sample_env and cfg = small_config
        and w = initial_world and a = 738521 and b = 739251]
    by (auto simp: sample_simps)
  have col2: "column ''customer_id'' (table_rows ''generated-data/customers'' (events w2))
      = [Some (Str ''CUST00000000''), Some (Str ''CUST00000001''), Some (Str ''CUST00000002''),
         Some (Str ''CUST00000003''), Some (Str ''CUST00000004''),
         Some (Str ''CUST000000''), Some (Str ''CUST000001''), Some (Str ''CUST000002''),
         Some (Str ''CUST000003''), Some (Str ''CUST000004'')]"
    using complete_run_identifiers[OF r2] by (simp add: sample_simps ne upto_rec1 format_eval)
  have nf: "\<not> (\<exists>wd. \<forall>v \<in> set (column ''customer_id'' (table_rows ''generated-data/customers''
        (events (snd (complete_generator sample_env small_config initial_world))))).
          \<exists>i. v = Some (Str (''CUST'' @ fmt_d wd i)))"
  proof
    assume "\<exists>wd. \<forall>v \<in> set (column ''customer_id'' (table_rows ''generated-data/customers''
        (events (snd (complete_generator sample_env small_config initial_world))))).
          \<exists>i. v = Some (Str (''CUST'' @ fmt_d wd i))"
    then obtain wd where a: "\<forall>v \<in> set (column ''customer_id''
        (table_rows ''generated-data/customers'' (events w2))). \<exists>i. v = Some (Str (''CUST'' @ fmt_d wd i))"
      by (auto simp: r2)
    have "Some (Str ''CUST00000000'') \<in> set (column ''customer_id''
        (table_rows ''generated-data/customers'' (events w2)))" by (simp add: col2)
    then obtain i where "Some (Str ''CUST00000000'') = Some (Str (''CUST'' @ fmt_d wd i))"
      using a by blast
    then have "fmt_d wd i = replicate 8 CHR ''0''" by (simp add: numeral_eq_Suc)
    then have w8: "wd = 8" by (rule fmt_d_zeros_width) simp
    have "Some (Str ''CUST000000'') \<in> set (column ''customer_id''
        (table_rows ''generated-data/customers'' (events w2)))" by (simp add: col2)
    then obtain j where "Some (Str ''CUST000000'') = Some (Str (''CUST'' @ fmt_d wd j))"
      using a by blast
    then have "fmt_d wd j = replicate 6 CHR ''0''" by (simp add: numeral_eq_Suc)
    then have "wd = 6" by (rule fmt_d_zeros_width) simp
    then show False using w8 by simp
  qed
  show ?thesis using r r2 f8 f6 nd nf by (simp only: ten_million_simps fst_conv simp_thms)
qed

end
